theory Spec2Isabelle
  imports Complex_Main "HOL-Library.Word" "HOL-Library.Monad_Syntax"
begin

section \<open>Numbers, vectors and the seeded random stream\<close>

text \<open>
  The simulation core is \<^verbatim>\<open>src/game/runtime.ts\<close>. A TypeScript \<^verbatim>\<open>number\<close> is
  modelled as a \<^typ>\<open>real\<close>: finite values, with the rounding of IEEE doubles left out.
  Two fields of the runtime also hold \<^verbatim>\<open>Infinity\<close> (the pirate trigger time and the
  boarding timer); they get the type \<open>xnumber\<close> below. Identifiers and counters that
  only ever hold array indices or serial numbers are \<^typ>\<open>nat\<close>.
\<close>

datatype xnumber = Finite real | PosInfinity

text \<open>\<^verbatim>\<open>t + d\<close>, \<^verbatim>\<open>Math.max(0, t - d)\<close>, \<^verbatim>\<open>t <= 0\<close> and \<^verbatim>\<open>e >= t\<close> on a possibly infinite \<^verbatim>\<open>t\<close>.\<close>

fun xadd :: "xnumber \<Rightarrow> real \<Rightarrow> xnumber" where
  "xadd (Finite t) d = Finite (t + d)"
| "xadd PosInfinity d = PosInfinity"

fun xmax0sub :: "xnumber \<Rightarrow> real \<Rightarrow> xnumber" where
  "xmax0sub (Finite t) d = Finite (max 0 (t - d))"
| "xmax0sub PosInfinity d = PosInfinity"

fun xle0 :: "xnumber \<Rightarrow> bool" where
  "xle0 (Finite t) = (t \<le> 0)"
| "xle0 PosInfinity = False"

fun reached :: "real \<Rightarrow> xnumber \<Rightarrow> bool" where
  "reached e (Finite t) = (e \<ge> t)"
| "reached e PosInfinity = False"

text \<open>
  \<^verbatim>\<open>Vector3\<close> and \<^verbatim>\<open>MathUtils.clamp\<close> come from the three.js library, which is not part of
  the repository; the operations the runtime calls are written out here as three.js
  defines them. Every method that mutates its receiver returns the new vector.
\<close>

datatype Vector3 = Vector3 (vx: real) (vy: real) (vz: real)

definition clamp :: "real \<Rightarrow> real \<Rightarrow> real \<Rightarrow> real" where
  "clamp v lo hi = max lo (min hi v)"

definition add :: "Vector3 \<Rightarrow> Vector3 \<Rightarrow> Vector3" where
  "add a b = Vector3 (vx a + vx b) (vy a + vy b) (vz a + vz b)"

definition sub :: "Vector3 \<Rightarrow> Vector3 \<Rightarrow> Vector3" where
  "sub a b = Vector3 (vx a - vx b) (vy a - vy b) (vz a - vz b)"

definition multiplyScalar :: "Vector3 \<Rightarrow> real \<Rightarrow> Vector3" where
  "multiplyScalar a s = Vector3 (vx a * s) (vy a * s) (vz a * s)"

definition addScaledVector :: "Vector3 \<Rightarrow> Vector3 \<Rightarrow> real \<Rightarrow> Vector3" where
  "addScaledVector a v s = Vector3 (vx a + vx v * s) (vy a + vy v * s) (vz a + vz v * s)"

definition dot :: "Vector3 \<Rightarrow> Vector3 \<Rightarrow> real" where
  "dot a b = vx a * vx b + vy a * vy b + vz a * vz b"

definition lengthSq :: "Vector3 \<Rightarrow> real" where
  "lengthSq a = vx a * vx a + vy a * vy a + vz a * vz a"

definition vlength :: "Vector3 \<Rightarrow> real" where
  "vlength a = sqrt (lengthSq a)"

text \<open>\<^verbatim>\<open>normalize\<close> is \<^verbatim>\<open>divideScalar(length() || 1)\<close>, a multiplication by the reciprocal.\<close>

definition normalize :: "Vector3 \<Rightarrow> Vector3" where
  "normalize a = multiplyScalar a (1 / (if vlength a = 0 then 1 else vlength a))"

definition setLength :: "Vector3 \<Rightarrow> real \<Rightarrow> Vector3" where
  "setLength a l = multiplyScalar (normalize a) l"

definition distanceTo :: "Vector3 \<Rightarrow> Vector3 \<Rightarrow> real" where
  "distanceTo a b = vlength (sub a b)"

definition lerp :: "Vector3 \<Rightarrow> Vector3 \<Rightarrow> real \<Rightarrow> Vector3" where
  "lerp a v alpha = Vector3 (vx a + (vx v - vx a) * alpha) (vy a + (vy v - vy a) * alpha)
     (vz a + (vz v - vz a) * alpha)"

definition lerpVectors :: "Vector3 \<Rightarrow> Vector3 \<Rightarrow> real \<Rightarrow> Vector3" where
  "lerpVectors v1 v2 alpha = Vector3 (vx v1 + (vx v2 - vx v1) * alpha)
     (vy v1 + (vy v2 - vy v1) * alpha) (vz v1 + (vz v2 - vz v1) * alpha)"

text \<open>
  \<^verbatim>\<open>seededRandom\<close> keeps one unsigned 32-bit state in a closure. \<^verbatim>\<open>seed >>> 0\<close> reduces
  an integer seed modulo \<open>2^32\<close>; the product \<^verbatim>\<open>1664525 * state\<close> stays below \<open>2^53\<close>, so
  the double arithmetic of the source is exact and \<^verbatim>\<open>>>> 0\<close> is the wrap-around of a
  32-bit word. A call of the closure is \<open>rngNext\<close>: the value drawn and the new state.
\<close>

type_synonym rng = "32 word"

definition seededRandom :: "int \<Rightarrow> rng" where
  "seededRandom seed = word_of_int seed"

definition rngNext :: "rng \<Rightarrow> real \<times> rng" where
  "rngNext state = (let state' = 1664525 * state + 1013904223
                    in (real (unat state') / 4294967296, state'))"

definition randomRange :: "rng \<Rightarrow> real \<Rightarrow> real \<Rightarrow> real \<times> rng" where
  "randomRange g lo hi = (let (u, g') = rngNext g in (lo + (hi - lo) * u, g'))"

text \<open>
  \<^verbatim>\<open>weightedPick\<close> falls back to \<^verbatim>\<open>weighted[weighted.length - 1]\<close>; its one call passes
  five candidates, so the candidates are a first one and the rest.
\<close>

fun weightedPickLoop :: "real \<Rightarrow> 'a \<times> real \<Rightarrow> ('a \<times> real) list \<Rightarrow> 'a" where
  "weightedPickLoop roll c [] = fst c"
| "weightedPickLoop roll c (d # ds) =
     (if roll - snd c \<le> 0 then fst c else weightedPickLoop (roll - snd c) d ds)"

definition weightedPick :: "rng \<Rightarrow> 'a \<times> real \<Rightarrow> ('a \<times> real) list \<Rightarrow> 'a \<times> rng" where
  "weightedPick g c cs =
     (let total = sum_list (map snd (c # cs));
          (u, g') = rngNext g;
          roll = u * total
      in (weightedPickLoop roll c cs, g'))"

section \<open>Data model\<close>

datatype ResourceId = scrapIron | waterIce | cobaltDust | xenoCrystal | fringeRelic

text \<open>
  Field names that several interfaces of the source share (\<^verbatim>\<open>id\<close>, \<^verbatim>\<open>value\<close>,
  \<^verbatim>\<open>volume\<close>, \<^verbatim>\<open>position\<close>, ...) carry a prefix for their interface; the fields of
  \<^verbatim>\<open>GameRuntime\<close> keep their names, except \<^verbatim>\<open>hull\<close>, which is \<open>playerHull\<close>
  here (\<open>hull\<close> is an operator of the logic's library).
\<close>

record ResourceDef =
  res_id :: ResourceId
  res_label :: string
  res_value :: real
  res_volume :: real
  res_color :: string

record CargoBin =
  resourceId :: ResourceId
  units :: real
  bin_volume :: real
  bin_value :: real

datatype Tone = info | alert | good

text \<open>
  An event message is kept as the pieces of its template: literal text, a number printed
  by \<^verbatim>\<open>toFixed(digits)\<close>, and an asteroid id.
\<close>

datatype MessagePart = Lit string | ToFixed real nat | IdNum nat

record EventEntry =
  ev_id :: nat
  tone :: Tone
  message :: "MessagePart list"

datatype GameStatus = active | won | lost

datatype PirateState = quiet | incoming | disabled | boarding

record AsteroidSim =
  ast_id :: nat
  ast_radius :: real
  ast_position :: Vector3
  ast_velocity :: Vector3
  rotationSpeed :: Vector3
  oreReserve :: real
  maxOreReserve :: real
  primaryResourceId :: ResourceId
  hasPowerball :: bool
  powerballRecovered :: bool
  composition :: "(ResourceId \<times> real) list"
  baseColor :: string

datatype ShotType = cargo | weapon

record CargoShot =
  shot_id :: nat
  shotType :: ShotType
  shot_resourceId :: "ResourceId option"
  shot_position :: Vector3
  shot_velocity :: Vector3
  life :: real
  shot_radius :: real
  damage :: real
  delayBonus :: real
  shot_color :: string

record GameRuntime =
  runId :: int
  rng :: rng
  elapsed :: real
  missionSeconds :: real
  countdownRate :: real
  freighterPosition :: Vector3
  playerPosition :: Vector3
  playerVelocity :: Vector3
  throttleLevel :: real
  thrusterMultiplier :: real
  drillMultiplier :: real
  docked :: bool
  dockedPosition :: Vector3
  unloadAccumulator :: real
  dockUnloadStartUnits :: real
  dockRepairStartDeficit :: real
  playerYaw :: real
  playerPitch :: real
  playerHull :: real
  maxHull :: real
  collisionGrace :: real
  grabbedAsteroidId :: "nat option"
  drillActive :: bool
  drillAccumulator :: real
  asteroidDepletionSerial :: nat
  grabberRange :: real
  cargoBins :: "ResourceId \<Rightarrow> CargoBin"
  cargoUsed :: real
  cargoCapacity :: real
  cargoValue :: real
  deliveredValue :: real
  powerballCargo :: real
  deliveredPowerballScore :: real
  weaponAmmo :: real
  weaponMaxAmmo :: real
  weaponDamage :: real
  rammerDamageMultiplier :: real
  rammerSelfDamageMultiplier :: real
  asteroids :: "AsteroidSim list"
  cargoShots :: "CargoShot list"
  cargoShotSerial :: nat
  pirateState :: PirateState
  piratePosition :: Vector3
  pirateVelocity :: Vector3
  pirateOrbitAngle :: real
  pirateTriggerAt :: xnumber
  pirateBoardTimer :: xnumber
  pirateHull :: real
  pirateMaxHull :: real
  pirateRamGrace :: real
  pirateAsteroidGrace :: real
  status :: GameStatus
  outcomeReason :: string
  events :: "EventEntry list"
  eventSerial :: nat
  prevKeys :: "string \<rightharpoonup> bool"
  cargoFullWarned :: bool

text \<open>
  \<^verbatim>\<open>createRuntime\<close> takes a \<^verbatim>\<open>Partial<RunModifiers>\<close>. A key of it may be absent
  (\<open>None\<close>); a key that is present has the type \<^verbatim>\<open>number | undefined\<close>, so it holds
  \<^verbatim>\<open>undefined\<close>, \<^verbatim>\<open>NaN\<close>, an infinity or a finite number. The reals have one zero:
  \<^verbatim>\<open>-0\<close> is \<open>Number 0\<close>.
\<close>

datatype JsValue = Undefined | NaN | NegInfinity | Number real | Infinity

record RunModifiers =
  m_grabberRange :: "JsValue option"
  m_thrusterMultiplier :: "JsValue option"
  m_drillMultiplier :: "JsValue option"
  m_maxHull :: "JsValue option"
  m_cargoCapacity :: "JsValue option"
  m_weaponAmmo :: "JsValue option"
  m_weaponDamage :: "JsValue option"
  m_rammerDamageMultiplier :: "JsValue option"
  m_rammerSelfDamageMultiplier :: "JsValue option"
  m_pirateEncounterChance :: "JsValue option"

text \<open>
  The values \<^verbatim>\<open>createRuntime\<close> takes from the modifiers: its local
  \<^verbatim>\<open>pirateEncounterChance\<close>, and what it stores in the fields of the runtime of the
  same names (\<open>v_maxHull\<close> in both \<^verbatim>\<open>hull\<close> and \<^verbatim>\<open>maxHull\<close>, \<open>v_weaponAmmo\<close> in both
  \<^verbatim>\<open>weaponAmmo\<close> and \<^verbatim>\<open>weaponMaxAmmo\<close>). They are held as JavaScript values first
  and, where all of them are finite numbers, as reals.
\<close>

record 'a RunValues =
  v_pirateEncounterChance :: 'a
  v_thrusterMultiplier :: 'a
  v_drillMultiplier :: 'a
  v_maxHull :: 'a
  v_grabberRange :: 'a
  v_cargoCapacity :: 'a
  v_weaponAmmo :: 'a
  v_weaponDamage :: 'a
  v_rammerDamageMultiplier :: 'a
  v_rammerSelfDamageMultiplier :: 'a

record ControlInput =
  keys :: "string \<rightharpoonup> bool"

section \<open>Constants\<close>

definition ASTEROID_COUNT :: nat where "ASTEROID_COUNT = 44"
definition PLAYER_RADIUS :: real where "PLAYER_RADIUS = 2.05"
definition ASTEROID_DRAG :: real where "ASTEROID_DRAG = 0.9992"
definition ASTEROID_COLLISION_RESTITUTION :: real where "ASTEROID_COLLISION_RESTITUTION = 0.82"
definition TOTAL_MISSION_SECONDS :: real where "TOTAL_MISSION_SECONDS = 320"
definition DOCK_RADIUS :: real where "DOCK_RADIUS = 16"
definition DOCK_APPROACH_RADIUS :: real where "DOCK_APPROACH_RADIUS = 30"
definition ORE_EXTRACT_RATE :: real where "ORE_EXTRACT_RATE = 1.35"
definition THROTTLE_STEP :: real where "THROTTLE_STEP = 0.2"
definition PIRATE_RADIUS :: real where "PIRATE_RADIUS = 2.8"
definition CARGO_SHOT_RADIUS :: real where "CARGO_SHOT_RADIUS = 0.72"
definition CARGO_SHOT_LIFETIME :: real where "CARGO_SHOT_LIFETIME = 5"
definition CARGO_SHOT_SPEED :: real where "CARGO_SHOT_SPEED = 34"
definition RAM_DELAY_MIN_IMPACT :: real where "RAM_DELAY_MIN_IMPACT = 2.3"
definition ASTEROID_PIRATE_IMPACT_MIN_SPEED :: real where "ASTEROID_PIRATE_IMPACT_MIN_SPEED = 1.6"
definition ASTEROID_PIRATE_IMPACT_GRACE :: real where "ASTEROID_PIRATE_IMPACT_GRACE = 0.58"
definition DOCK_REPAIR_PER_SECOND :: real where "DOCK_REPAIR_PER_SECOND = 14"
definition DOCK_UNLOAD_UNITS_PER_SECOND :: real where "DOCK_UNLOAD_UNITS_PER_SECOND = 3.2"
definition GRABBER_ANCHOR_PULL :: real where "GRABBER_ANCHOR_PULL = 4.4"
definition GRABBED_ASTEROID_DAMPING_RATE :: real where "GRABBED_ASTEROID_DAMPING_RATE = 0.42"
definition ASTEROID_FLING_BASE_SPEED :: real where "ASTEROID_FLING_BASE_SPEED = 8.2"
definition ASTEROID_FLING_FORWARD_SCALE :: real where "ASTEROID_FLING_FORWARD_SCALE = 1.05"
definition ASTEROID_FLING_THROTTLE_BONUS :: real where "ASTEROID_FLING_THROTTLE_BONUS = 7"
definition ASTEROID_FLING_PLAYER_VELOCITY_SHARE :: real where
  "ASTEROID_FLING_PLAYER_VELOCITY_SHARE = 0.72"
definition PIRATE_HULL_MAX :: real where "PIRATE_HULL_MAX = 120"

text \<open>The bounds boxes, as (min, max) per axis.\<close>

definition ASTEROID_FIELD_minX :: real where "ASTEROID_FIELD_minX = -72"
definition ASTEROID_FIELD_minZ :: real where "ASTEROID_FIELD_minZ = -68"
definition ASTEROID_FIELD_maxZ :: real where "ASTEROID_FIELD_maxZ = 68"

definition FLIGHT_minX :: real where "FLIGHT_minX = -176"
definition FLIGHT_maxX :: real where "FLIGHT_maxX = 176"
definition FLIGHT_minY :: real where "FLIGHT_minY = -72"
definition FLIGHT_maxY :: real where "FLIGHT_maxY = 72"
definition FLIGHT_minZ :: real where "FLIGHT_minZ = -176"
definition FLIGHT_maxZ :: real where "FLIGHT_maxZ = 176"

definition TRAVEL_minX :: real where "TRAVEL_minX = FLIGHT_minX - 220"
definition TRAVEL_maxX :: real where "TRAVEL_maxX = FLIGHT_maxX + 220"
definition TRAVEL_minY :: real where "TRAVEL_minY = FLIGHT_minY - 70"
definition TRAVEL_maxY :: real where "TRAVEL_maxY = FLIGHT_maxY + 70"
definition TRAVEL_minZ :: real where "TRAVEL_minZ = FLIGHT_minZ - 220"
definition TRAVEL_maxZ :: real where "TRAVEL_maxZ = FLIGHT_maxZ + 220"

definition FREIGHTER_EDGE_X :: real where "FREIGHTER_EDGE_X = ASTEROID_FIELD_minX - 24"
definition FREIGHTER_TRANSIT_START :: Vector3 where
  "FREIGHTER_TRANSIT_START = Vector3 FREIGHTER_EDGE_X 0 ASTEROID_FIELD_minZ"
definition FREIGHTER_TRANSIT_END :: Vector3 where
  "FREIGHTER_TRANSIT_END = Vector3 FREIGHTER_EDGE_X 0 ASTEROID_FIELD_maxZ"

definition CONTROL_CODES :: "string list" where
  "CONTROL_CODES = [''KeyW'', ''KeyS'', ''Space'', ''ArrowLeft'', ''ArrowRight'', ''ArrowUp'',
     ''ArrowDown'', ''KeyG'', ''KeyF'', ''KeyQ'', ''KeyE'', ''KeyX'']"

fun RESOURCES :: "ResourceId \<Rightarrow> ResourceDef" where
  "RESOURCES scrapIron = \<lparr>res_id = scrapIron, res_label = ''Scrap Iron'', res_value = 12,
     res_volume = 3, res_color = ''#886e52''\<rparr>"
| "RESOURCES waterIce = \<lparr>res_id = waterIce, res_label = ''Water Ice'', res_value = 18,
     res_volume = 5, res_color = ''#c2c0b7''\<rparr>"
| "RESOURCES cobaltDust = \<lparr>res_id = cobaltDust, res_label = ''Cobalt Dust'', res_value = 34,
     res_volume = 4, res_color = ''#7c674f''\<rparr>"
| "RESOURCES xenoCrystal = \<lparr>res_id = xenoCrystal, res_label = ''Xeno Crystal'', res_value = 88,
     res_volume = 2, res_color = ''#a0ad7d''\<rparr>"
| "RESOURCES fringeRelic = \<lparr>res_id = fringeRelic, res_label = ''Fringe Relic'', res_value = 240,
     res_volume = 6, res_color = ''#d6bf7e''\<rparr>"

text \<open>The keys of \<^verbatim>\<open>RESOURCES\<close> and of a \<^verbatim>\<open>cargoBins\<close> object, in insertion order.\<close>

definition resourceIds :: "ResourceId list" where
  "resourceIds = [scrapIron, waterIce, cobaltDust, xenoCrystal, fringeRelic]"

definition MIN_RESOURCE_VOLUME :: real where
  "MIN_RESOURCE_VOLUME = min_list (map (\<lambda>k. res_volume (RESOURCES k)) resourceIds)"

definition BASE_GRABBER_RANGE :: real where "BASE_GRABBER_RANGE = 7.5"
definition BASE_THRUSTER_MULTIPLIER :: real where "BASE_THRUSTER_MULTIPLIER = 1"
definition BASE_DRILL_MULTIPLIER :: real where "BASE_DRILL_MULTIPLIER = 1"
definition BASE_MAX_HULL :: real where "BASE_MAX_HULL = 100"
definition BASE_CARGO_CAPACITY :: real where "BASE_CARGO_CAPACITY = 130"
definition BASE_WEAPON_AMMO :: real where "BASE_WEAPON_AMMO = 0"
definition BASE_WEAPON_DAMAGE :: real where "BASE_WEAPON_DAMAGE = 0"
definition BASE_RAMMER_DAMAGE_MULTIPLIER :: real where "BASE_RAMMER_DAMAGE_MULTIPLIER = 1"
definition BASE_RAMMER_SELF_DAMAGE_MULTIPLIER :: real where
  "BASE_RAMMER_SELF_DAMAGE_MULTIPLIER = 1"
definition BASE_PIRATE_ENCOUNTER_CHANCE :: real where "BASE_PIRATE_ENCOUNTER_CHANCE = 1"

section \<open>Creating a run\<close>

definition createCargoBins :: "ResourceId \<Rightarrow> CargoBin" where
  "createCargoBins k = \<lparr>resourceId = k, units = 0, bin_volume = 0, bin_value = 0\<rparr>"

text \<open>\<^verbatim>\<open>Object.values(runtime.cargoBins)\<close>, each bin with the key it is stored under.\<close>

definition cargoBinEntries :: "GameRuntime \<Rightarrow> (ResourceId \<times> CargoBin) list" where
  "cargoBinEntries r = map (\<lambda>k. (k, cargoBins r k)) resourceIds"

definition getCargoUnitCount :: "GameRuntime \<Rightarrow> real" where
  "getCargoUnitCount r = foldl (\<lambda>s e. s + units (snd e)) 0 (cargoBinEntries r)"

definition createAsteroid :: "rng \<Rightarrow> nat \<Rightarrow> real \<Rightarrow> AsteroidSim \<times> rng" where
  "createAsteroid g0 ident oreQualityBias =
     (let qualityBias = clamp oreQualityBias 0 1;
          (radius, g1) = randomRange g0 1.7 5.4;
          (oreRoll, g2) = randomRange g1 6 16;
          initialOre = max 3 (of_int \<lfloor>(oreRoll + radius * 1.5) * 0.5\<rfloor>);
          (powerballRoll, g3) = rngNext g2;
          (px, g4) = randomRange g3 (-54) 78;
          (py, g5) = randomRange g4 (-30) 30;
          (pz, g6) = randomRange g5 (-60) 60;
          (drift, g7) = randomRange g6 0.8 2.9;
          (wx, g8) = randomRange g7 (-1) 1;
          (wy, g9) = randomRange g8 (-1) 1;
          (wz, g10) = randomRange g9 (-1) 1;
          (primary, g11) = weightedPick g10
             (scrapIron, max 1 (46 * (1 - 0.5 * qualityBias)))
             [(waterIce, max 1 (20 * (1 - 0.25 * qualityBias))),
              (cobaltDust, max 1 (18 * (1 + 0.22 * qualityBias))),
              (xenoCrystal, max 1 (12 * (1 + 0.9 * qualityBias))),
              (fringeRelic, max 1 (4 * (1 + 1.7 * qualityBias)))];
          (sx, g12) = randomRange g11 (-0.32) 0.32;
          (sy, g13) = randomRange g12 (-0.32) 0.32;
          (sz, g14) = randomRange g13 (-0.32) 0.32
      in (\<lparr>ast_id = ident,
           ast_radius = radius,
           ast_position = Vector3 px py pz,
           ast_velocity = multiplyScalar (normalize (Vector3 wx wy wz)) drift,
           rotationSpeed = Vector3 sx sy sz,
           oreReserve = initialOre,
           maxOreReserve = initialOre,
           primaryResourceId = primary,
           hasPowerball = (powerballRoll < 0.01),
           powerballRecovered = False,
           composition =
             [(primary, 0.56 + qualityBias * 0.14),
              (scrapIron, max 0.08 (0.17 - qualityBias * 0.09)),
              (waterIce, max 0.09 (0.13 - qualityBias * 0.04)),
              (cobaltDust, 0.08 + qualityBias * 0.03),
              (xenoCrystal, 0.05 + qualityBias * 0.06),
              (fringeRelic, 0.01 + qualityBias * 0.04)],
           baseColor = res_color (RESOURCES primary)\<rparr>, g14))"

text \<open>\<^verbatim>\<open>Array.from({ length: ASTEROID_COUNT }, (_, id) => createAsteroid(rng, id, bias))\<close>.\<close>

fun createAsteroids :: "rng \<Rightarrow> real \<Rightarrow> nat list \<Rightarrow> AsteroidSim list \<times> rng" where
  "createAsteroids g bias [] = ([], g)"
| "createAsteroids g bias (ident # idents) =
     (let (a, g1) = createAsteroid g ident bias;
          (rest, g2) = createAsteroids g1 bias idents
      in (a # rest, g2))"

definition addEvent :: "GameRuntime \<Rightarrow> MessagePart list \<Rightarrow> Tone \<Rightarrow> GameRuntime" where
  "addEvent r msg t =
     (let serial = eventSerial r + 1
      in r\<lparr>eventSerial := serial,
           events := take 6 (\<lparr>ev_id = serial, tone = t, message = msg\<rparr> # events r)\<rparr>)"

text \<open>
  \<^verbatim>\<open>{ ...DEFAULT_RUN_MODIFIERS, ...modifiers }\<close>: a key that is present in the
  modifiers wins over its default with whatever it holds, \<^verbatim>\<open>undefined\<close> included; only
  an absent key leaves the default in place.
\<close>

definition orDefault :: "JsValue option \<Rightarrow> real \<Rightarrow> JsValue" where
  "orDefault v d = (case v of None \<Rightarrow> Number d | Some x \<Rightarrow> x)"

text \<open>
  \<^verbatim>\<open>Math.max\<close> and \<^verbatim>\<open>Math.min\<close> of two arguments. Each argument is converted to a
  number first, which turns \<^verbatim>\<open>undefined\<close> into \<^verbatim>\<open>NaN\<close>; if either is \<^verbatim>\<open>NaN\<close> the result
  is \<^verbatim>\<open>NaN\<close>; otherwise it is the larger (smaller) of the two in the order of the
  extended reals. \<^verbatim>\<open>MathUtils.clamp(value, min, max)\<close> of three.js is
  \<^verbatim>\<open>Math.max(min, Math.min(max, value))\<close>.
\<close>

fun toNumber :: "JsValue \<Rightarrow> JsValue" where
  "toNumber Undefined = NaN"
| "toNumber v = v"

fun lessNumber :: "JsValue \<Rightarrow> JsValue \<Rightarrow> bool" where
  "lessNumber (Number a) (Number b) = (a < b)"
| "lessNumber NegInfinity (Number b) = True"
| "lessNumber NegInfinity Infinity = True"
| "lessNumber (Number a) Infinity = True"
| "lessNumber a b = False"

definition Math_max :: "JsValue \<Rightarrow> JsValue \<Rightarrow> JsValue" where
  "Math_max a b =
     (if toNumber a = NaN \<or> toNumber b = NaN then NaN
      else if lessNumber a b then b else a)"

definition Math_min :: "JsValue \<Rightarrow> JsValue \<Rightarrow> JsValue" where
  "Math_min a b =
     (if toNumber a = NaN \<or> toNumber b = NaN then NaN
      else if lessNumber b a then b else a)"

definition MathUtils_clamp :: "JsValue \<Rightarrow> real \<Rightarrow> real \<Rightarrow> JsValue" where
  "MathUtils_clamp v lo hi = Math_max (Number lo) (Math_min (Number hi) v)"

text \<open>
  \<^verbatim>\<open>createRuntime\<close>, first part: \<^verbatim>\<open>runMods\<close>, the clamped \<^verbatim>\<open>pirateEncounterChance\<close> and
  the modifier entries of the runtime object. Three values go through \<^verbatim>\<open>MathUtils.clamp\<close>
  or \<^verbatim>\<open>Math.max\<close>; the other seven are \<^verbatim>\<open>runMods\<close> entries as they are.
\<close>

definition runValues :: "RunModifiers \<Rightarrow> JsValue RunValues" where
  "runValues modifiers =
     \<lparr>v_pirateEncounterChance =
        MathUtils_clamp
          (orDefault (m_pirateEncounterChance modifiers) BASE_PIRATE_ENCOUNTER_CHANCE) 0 1,
      v_thrusterMultiplier =
        orDefault (m_thrusterMultiplier modifiers) BASE_THRUSTER_MULTIPLIER,
      v_drillMultiplier = orDefault (m_drillMultiplier modifiers) BASE_DRILL_MULTIPLIER,
      v_maxHull = orDefault (m_maxHull modifiers) BASE_MAX_HULL,
      v_grabberRange = orDefault (m_grabberRange modifiers) BASE_GRABBER_RANGE,
      v_cargoCapacity = orDefault (m_cargoCapacity modifiers) BASE_CARGO_CAPACITY,
      v_weaponAmmo = orDefault (m_weaponAmmo modifiers) BASE_WEAPON_AMMO,
      v_weaponDamage = orDefault (m_weaponDamage modifiers) BASE_WEAPON_DAMAGE,
      v_rammerDamageMultiplier =
        Math_max (Number 1)
          (orDefault (m_rammerDamageMultiplier modifiers) BASE_RAMMER_DAMAGE_MULTIPLIER),
      v_rammerSelfDamageMultiplier =
        MathUtils_clamp
          (orDefault (m_rammerSelfDamageMultiplier modifiers)
             BASE_RAMMER_SELF_DAMAGE_MULTIPLIER) 0.2 1\<rparr>"

text \<open>
  Every other number of the runtime is a \<^typ>\<open>real\<close>, so the rest of \<^verbatim>\<open>createRuntime\<close>
  and the step are followed for the runs in which all ten values are finite numbers.
  \<open>finiteValues\<close> reads them as reals, and is \<open>None\<close> when one of them is \<^verbatim>\<open>undefined\<close>,
  \<^verbatim>\<open>NaN\<close> or infinite.
\<close>

fun finiteNumber :: "JsValue \<Rightarrow> real option" where
  "finiteNumber (Number x) = Some x"
| "finiteNumber v = None"

definition finiteValues :: "JsValue RunValues \<Rightarrow> real RunValues option" where
  "finiteValues v =
     do {
       chance \<leftarrow> finiteNumber (v_pirateEncounterChance v);
       thruster \<leftarrow> finiteNumber (v_thrusterMultiplier v);
       drill \<leftarrow> finiteNumber (v_drillMultiplier v);
       hullMax \<leftarrow> finiteNumber (v_maxHull v);
       grabber \<leftarrow> finiteNumber (v_grabberRange v);
       capacity \<leftarrow> finiteNumber (v_cargoCapacity v);
       ammo \<leftarrow> finiteNumber (v_weaponAmmo v);
       dmg \<leftarrow> finiteNumber (v_weaponDamage v);
       rammer \<leftarrow> finiteNumber (v_rammerDamageMultiplier v);
       rammerSelf \<leftarrow> finiteNumber (v_rammerSelfDamageMultiplier v);
       Some \<lparr>v_pirateEncounterChance = chance, v_thrusterMultiplier = thruster,
             v_drillMultiplier = drill, v_maxHull = hullMax, v_grabberRange = grabber,
             v_cargoCapacity = capacity, v_weaponAmmo = ammo, v_weaponDamage = dmg,
             v_rammerDamageMultiplier = rammer, v_rammerSelfDamageMultiplier = rammerSelf\<rparr>
     }"

text \<open>
  \<^verbatim>\<open>createRuntime\<close>, second part, on finite values: the random stream, the asteroids, the
  runtime object and the first event.
\<close>

definition newRuntime :: "int \<Rightarrow> real RunValues \<Rightarrow> GameRuntime" where
  "newRuntime seed vals =
     (let g0 = seededRandom seed;
          (spawnRoll, g1) = rngNext g0;
          pirateWillSpawn = (spawnRoll < v_pirateEncounterChance vals);
          oreQualityBias = clamp ((v_pirateEncounterChance vals - 0.16) / 0.68) 0 1;
          (asts, g2) = createAsteroids g1 oreQualityBias [0..<ASTEROID_COUNT];
          fp = FREIGHTER_TRANSIT_START;
          (orbitAngle, g3) = randomRange g2 0 (pi * 2);
          (triggerAt, g4) =
             (if pirateWillSpawn
              then (let (t, g) = randomRange g3 70 160 in (Finite t, g))
              else (PosInfinity, g3))
      in addEvent
           \<lparr>runId = seed,
            rng = g4,
            elapsed = 0,
            missionSeconds = TOTAL_MISSION_SECONDS,
            countdownRate = 1,
            freighterPosition = fp,
            playerPosition = add fp (Vector3 17 0 6),
            playerVelocity = Vector3 0 0 0,
            throttleLevel = 0,
            thrusterMultiplier = v_thrusterMultiplier vals,
            drillMultiplier = v_drillMultiplier vals,
            docked = False,
            dockedPosition = Vector3 17 0 0,
            unloadAccumulator = 0,
            dockUnloadStartUnits = 0,
            dockRepairStartDeficit = 0,
            playerYaw = pi / 2,
            playerPitch = 0,
            playerHull = v_maxHull vals,
            maxHull = v_maxHull vals,
            collisionGrace = 0,
            grabbedAsteroidId = None,
            drillActive = False,
            drillAccumulator = 0,
            asteroidDepletionSerial = 0,
            grabberRange = v_grabberRange vals,
            cargoBins = createCargoBins,
            cargoUsed = 0,
            cargoCapacity = v_cargoCapacity vals,
            cargoValue = 0,
            deliveredValue = 0,
            powerballCargo = 0,
            deliveredPowerballScore = 0,
            weaponAmmo = v_weaponAmmo vals,
            weaponMaxAmmo = v_weaponAmmo vals,
            weaponDamage = v_weaponDamage vals,
            rammerDamageMultiplier = v_rammerDamageMultiplier vals,
            rammerSelfDamageMultiplier = v_rammerSelfDamageMultiplier vals,
            asteroids = asts,
            cargoShots = [],
            cargoShotSerial = 0,
            pirateState = quiet,
            piratePosition = add fp (Vector3 160 16 (-40)),
            pirateVelocity = Vector3 0 0 0,
            pirateOrbitAngle = orbitAngle,
            pirateTriggerAt = triggerAt,
            pirateBoardTimer = PosInfinity,
            pirateHull = PIRATE_HULL_MAX,
            pirateMaxHull = PIRATE_HULL_MAX,
            pirateRamGrace = 0,
            pirateAsteroidGrace = 0,
            status = active,
            outcomeReason = [],
            events = [],
            eventSerial = 0,
            prevKeys = Map.empty,
            cargoFullWarned = False\<rparr>
           [Lit ''Freighter hails: launch window open. Mine fast before we pass beyond the belt.'']
           info)"

text \<open>
  \<^verbatim>\<open>createRuntime\<close>. The result is \<open>None\<close> for the modifiers that put \<^verbatim>\<open>undefined\<close>,
  \<^verbatim>\<open>NaN\<close> or an infinity into the runtime: the code returns a runtime for them too, but
  one this theory has no value for.
\<close>

definition createRuntime :: "int \<Rightarrow> RunModifiers \<Rightarrow> GameRuntime option" where
  "createRuntime seed modifiers =
     map_option (newRuntime seed) (finiteValues (runValues modifiers))"

section \<open>Input, docking and the pirate\<close>

definition getForwardVector :: "real \<Rightarrow> real \<Rightarrow> Vector3" where
  "getForwardVector yaw pitch =
     (let cp = cos pitch
      in normalize (Vector3 (sin yaw * cp) (sin pitch) (cos yaw * cp)))"

definition getPlayerForward :: "GameRuntime \<Rightarrow> Vector3" where
  "getPlayerForward r = getForwardVector (playerYaw r) (playerPitch r)"

text \<open>\<^verbatim>\<open>Boolean(keys[code])\<close>: a key that is absent counts as up.\<close>

definition isDown :: "(string \<rightharpoonup> bool) \<Rightarrow> string \<Rightarrow> bool" where
  "isDown ks code = (ks code = Some True)"

definition justPressed :: "GameRuntime \<Rightarrow> (string \<rightharpoonup> bool) \<Rightarrow> string \<Rightarrow> bool" where
  "justPressed r ks code = (isDown ks code \<and> prevKeys r code \<noteq> Some True)"

definition updatePrevKeys :: "GameRuntime \<Rightarrow> (string \<rightharpoonup> bool) \<Rightarrow> GameRuntime" where
  "updatePrevKeys r ks =
     r\<lparr>prevKeys := foldl (\<lambda>pk code. pk(code \<mapsto> isDown ks code)) (prevKeys r) CONTROL_CODES\<rparr>"

text \<open>
  One axis of \<^verbatim>\<open>clampPlayerToField\<close>: the two tests of the source in sequence, the
  second on the coordinate the first may have set.
\<close>

definition clampPlayerAxis :: "real \<Rightarrow> real \<Rightarrow> real \<Rightarrow> real \<Rightarrow> real \<times> real" where
  "clampPlayerAxis p v lo hi =
     (let (p1, v1) = (if p < lo then (lo, v * (-0.45)) else (p, v))
      in (if p1 > hi then (hi, v1 * (-0.45)) else (p1, v1)))"

definition clampPlayerToField :: "GameRuntime \<Rightarrow> GameRuntime" where
  "clampPlayerToField r =
     (let p = playerPosition r; v = playerVelocity r;
          (px, wx) = clampPlayerAxis (vx p) (vx v) FLIGHT_minX FLIGHT_maxX;
          (py, wy) = clampPlayerAxis (vy p) (vy v) FLIGHT_minY FLIGHT_maxY;
          (pz, wz) = clampPlayerAxis (vz p) (vz v) FLIGHT_minZ FLIGHT_maxZ
      in r\<lparr>playerPosition := Vector3 px py pz, playerVelocity := Vector3 wx wy wz\<rparr>)"

definition updateFreighterTransit :: "GameRuntime \<Rightarrow> GameRuntime" where
  "updateFreighterTransit r =
     (let progress = clamp ((TOTAL_MISSION_SECONDS - missionSeconds r) / TOTAL_MISSION_SECONDS) 0 1
      in r\<lparr>freighterPosition := lerpVectors FREIGHTER_TRANSIT_START FREIGHTER_TRANSIT_END progress\<rparr>)"

definition applyFreighterDockActions :: "GameRuntime \<Rightarrow> (string \<rightharpoonup> bool) \<Rightarrow> GameRuntime" where
  "applyFreighterDockActions r ks =
     (if \<not> justPressed r ks ''KeyE'' then r
      else if docked r then
        addEvent (r\<lparr>docked := False, unloadAccumulator := 0, dockUnloadStartUnits := 0,
                     dockRepairStartDeficit := 0\<rparr>)
          [Lit ''Dock clamps released. You are clear to launch.''] info
      else
        (let distanceToFreighter = distanceTo (playerPosition r) (freighterPosition r)
         in if distanceToFreighter > DOCK_APPROACH_RADIUS then
              addEvent r [Lit ''Too far from freighter docking collar.''] alert
            else
              (let dockVector0 = sub (playerPosition r) (freighterPosition r);
                   dockVector = (if lengthSq dockVector0 < 0.0001 then Vector3 1 0 0
                                 else normalize dockVector0);
                   r1 = (if distanceToFreighter > DOCK_RADIUS then
                           addEvent
                             (r\<lparr>playerPosition :=
                                  addScaledVector (freighterPosition r) dockVector (DOCK_RADIUS - 1.6)\<rparr>)
                             [Lit ''Docking assist engaged. Clamp locks secured.''] good
                         else r);
                   r2 = r1\<lparr>docked := True,
                           dockedPosition := sub (playerPosition r1) (freighterPosition r1),
                           playerVelocity := Vector3 0 0 0,
                           throttleLevel := 0,
                           grabbedAsteroidId := None,
                           unloadAccumulator := 0\<rparr>;
                   r3 = r2\<lparr>dockUnloadStartUnits := getCargoUnitCount r2 + powerballCargo r2,
                           dockRepairStartDeficit := max 0 (maxHull r2 - playerHull r2)\<rparr>
               in addEvent r3 [Lit ''Docking complete. Cargo transfer and repairs underway.''] good)))"

definition triggerPirateEvent :: "GameRuntime \<Rightarrow> GameRuntime" where
  "triggerPirateEvent r =
     (let (t, g) = randomRange (rng r) 40 68
      in addEvent
           (r\<lparr>pirateState := incoming,
              rng := g,
              pirateBoardTimer := Finite t,
              pirateHull := pirateMaxHull r,
              pirateRamGrace := 0,
              pirateAsteroidGrace := 0,
              piratePosition := add (freighterPosition r) (Vector3 22 9 (-18)),
              pirateVelocity := Vector3 0 0 0\<rparr>)
           [Lit ''Distress call: pirate raider inbound. Hold it off before boarding.''] alert)"

definition updatePirate :: "GameRuntime \<Rightarrow> real \<Rightarrow> GameRuntime" where
  "updatePirate r0 dt =
     (let r = (if pirateState r0 = quiet \<and> reached (elapsed r0) (pirateTriggerAt r0)
               then triggerPirateEvent r0 else r0)
      in if pirateState r \<noteq> incoming then r
         else
           (let boardTimer = xmax0sub (pirateBoardTimer r) dt;
                orbitAngle = pirateOrbitAngle r + dt * 0.85;
                orbitRadius = 16 + sin (elapsed r * 0.55) * 2.8;
                pirateTarget = add (freighterPosition r)
                   (Vector3 (cos orbitAngle * orbitRadius)
                            (2.4 + sin (orbitAngle * 2.2) * 1.7)
                            (sin orbitAngle * orbitRadius));
                toTarget = sub pirateTarget (piratePosition r);
                distance = vlength toTarget;
                r1 = r\<lparr>pirateBoardTimer := boardTimer, pirateOrbitAngle := orbitAngle\<rparr>;
                r2 = (if distance > 0.001 then
                        (let velocity = lerp (pirateVelocity r1)
                                          (multiplyScalar (normalize toTarget) 18)
                                          (1 - exp (- dt * 2.3))
                         in r1\<lparr>pirateVelocity := velocity,
                               piratePosition := addScaledVector (piratePosition r1) velocity dt\<rparr>)
                      else r1)
            in if xle0 (pirateBoardTimer r2) then
                 addEvent
                   (r2\<lparr>pirateState := boarding,
                       piratePosition := add (freighterPosition r2) (Vector3 5 0.2 (-2)),
                       pirateVelocity := Vector3 0 0 0,
                       status := lost,
                       outcomeReason := ''Pirates boarded the freighter before it cleared the belt.''\<rparr>)
                   [Lit ''Pirates boarded the freighter before it cleared the belt.''] alert
               else r2))"

definition disablePirate :: "GameRuntime \<Rightarrow> GameRuntime" where
  "disablePirate r =
     addEvent (r\<lparr>pirateState := disabled, pirateVelocity := Vector3 0 0 0,
                  pirateBoardTimer := PosInfinity\<rparr>)
       [Lit ''Pirate drive core disabled. Boarding threat neutralized.''] good"

text \<open>\<^verbatim>\<open>applyPirateDamage\<close> returns the runtime and whether the pirate was disabled.\<close>

definition applyPirateDamage :: "GameRuntime \<Rightarrow> real \<Rightarrow> GameRuntime \<times> bool" where
  "applyPirateDamage r dmg =
     (if pirateState r \<noteq> incoming \<or> dmg \<le> 0 then (r, False)
      else
        (let r1 = r\<lparr>pirateHull := max 0 (pirateHull r - dmg)\<rparr>
         in if pirateHull r1 > 0 then (r1, False) else (disablePirate r1, True)))"

section \<open>Flight, asteroids and the grabber\<close>

definition smoothAxis :: "real \<Rightarrow> real \<Rightarrow> real \<Rightarrow> real \<Rightarrow> real" where
  "smoothAxis current target rate dt =
     (let alpha = 1 - exp (- rate * dt) in current + (target - current) * alpha)"

text \<open>
  \<^verbatim>\<open>updatePlayerControlWithInput\<close>, in the three parts its body has, in the order of the
  source: the yaw and pitch keys, the throttle keys, and (unless the brake is held) the
  integration of the flight.
\<close>

definition steerPlayer :: "GameRuntime \<Rightarrow> real \<Rightarrow> (string \<rightharpoonup> bool) \<Rightarrow> real \<Rightarrow> GameRuntime" where
  "steerPlayer r dt ks hullFactor =
     (let keyboardYaw = (if isDown ks ''ArrowLeft'' then 1 else 0)
                        - (if isDown ks ''ArrowRight'' then 1 else (0::real));
          keyboardPitch = (if isDown ks ''ArrowUp'' then 1 else 0)
                          - (if isDown ks ''ArrowDown'' then 1 else (0::real));
          yawRate = 1.7 * hullFactor + 0.35;
          pitchRate = 1.3 * hullFactor + 0.3
      in r\<lparr>playerYaw := playerYaw r + keyboardYaw * yawRate * dt,
            playerPitch := clamp (playerPitch r + keyboardPitch * pitchRate * dt) (-1.1) 1.1\<rparr>)"

definition applyThrottleKeys :: "GameRuntime \<Rightarrow> (string \<rightharpoonup> bool) \<Rightarrow> GameRuntime" where
  "applyThrottleKeys r ks =
     (let r1 = (if justPressed r ks ''KeyW''
                then r\<lparr>throttleLevel := clamp (throttleLevel r + THROTTLE_STEP) 0 1\<rparr> else r)
      in if justPressed r1 ks ''KeyS''
         then r1\<lparr>throttleLevel := clamp (throttleLevel r1 - THROTTLE_STEP) 0 1\<rparr> else r1)"

definition integrateFlight :: "GameRuntime \<Rightarrow> real \<Rightarrow> Vector3 \<Rightarrow> real \<Rightarrow> GameRuntime" where
  "integrateFlight r dt forward hullFactor =
     (let targetForwardSpeed = 16 * hullFactor * throttleLevel r * thrusterMultiplier r;
          currentForwardSpeed = max 0 (dot (playerVelocity r) forward);
          lateralVelocity0 = addScaledVector (playerVelocity r) forward
                               (- dot (playerVelocity r) forward);
          accelRate = 10 * hullFactor + 4;
          coastDecelRate = 5 + (1 - throttleLevel r) * 4;
          speedRate = (if targetForwardSpeed \<ge> currentForwardSpeed then accelRate
                       else coastDecelRate);
          nextForwardSpeed = smoothAxis currentForwardSpeed targetForwardSpeed speedRate dt;
          lateralVelocity = multiplyScalar lateralVelocity0 (exp (- dt * 10));
          velocity0 = add (multiplyScalar forward nextForwardSpeed) lateralVelocity;
          maxSpeed = (6 + hullFactor * 13) * thrusterMultiplier r;
          velocity = (if lengthSq velocity0 > maxSpeed * maxSpeed
                      then setLength velocity0 maxSpeed else velocity0)
      in clampPlayerToField
           (r\<lparr>playerVelocity := velocity,
               playerPosition := addScaledVector (playerPosition r) velocity dt\<rparr>))"

definition updatePlayerControlWithInput :: "GameRuntime \<Rightarrow> real \<Rightarrow> ControlInput \<Rightarrow> GameRuntime" where
  "updatePlayerControlWithInput r dt input =
     (let ks = keys input;
          hullFactor = clamp (playerHull r / maxHull r) 0.25 1;
          r1 = steerPlayer r dt ks hullFactor;
          forward = getPlayerForward r1;
          brake = isDown ks ''KeyX'';
          r2 = applyThrottleKeys r1 ks
      in if brake then r2\<lparr>throttleLevel := 0, playerVelocity := Vector3 0 0 0\<rparr>
         else integrateFlight r2 dt forward hullFactor)"

text \<open>One axis of the travel box in \<^verbatim>\<open>updateAsteroidBody\<close>.\<close>

definition boundAsteroidAxis :: "real \<Rightarrow> real \<Rightarrow> real \<Rightarrow> real \<Rightarrow> real \<times> real" where
  "boundAsteroidAxis p v lo hi =
     (let (p1, v1) = (if p < lo then (lo, if v < 0 then 0 else v) else (p, v))
      in (if p1 > hi then (hi, if v1 > 0 then 0 else v1) else (p1, v1)))"

definition updateAsteroidBody :: "AsteroidSim \<Rightarrow> real \<Rightarrow> AsteroidSim" where
  "updateAsteroidBody a dt =
     (let p = addScaledVector (ast_position a) (ast_velocity a) dt;
          v = multiplyScalar (ast_velocity a) (ASTEROID_DRAG powr (dt * 60));
          (px, wx) = boundAsteroidAxis (vx p) (vx v) (TRAVEL_minX + ast_radius a)
                       (TRAVEL_maxX - ast_radius a);
          (py, wy) = boundAsteroidAxis (vy p) (vy v) (TRAVEL_minY + ast_radius a)
                       (TRAVEL_maxY - ast_radius a);
          (pz, wz) = boundAsteroidAxis (vz p) (vz v) (TRAVEL_minZ + ast_radius a)
                       (TRAVEL_maxZ - ast_radius a)
      in a\<lparr>ast_position := Vector3 px py pz, ast_velocity := Vector3 wx wy wz\<rparr>)"

text \<open>
  \<^verbatim>\<open>runtime.asteroids.find((c) => c.id === id)\<close> yields a reference into the array; the
  model keeps the position of that first match and updates the array there.
\<close>

fun findAsteroid :: "AsteroidSim list \<Rightarrow> nat \<Rightarrow> nat option" where
  "findAsteroid [] ident = None"
| "findAsteroid (a # as) ident =
     (if ast_id a = ident then Some 0
      else (case findAsteroid as ident of None \<Rightarrow> None | Some i \<Rightarrow> Some (Suc i)))"

text \<open>
  The nearest asteroid by surface distance; \<open>None\<close> stands for the initial
  \<^verbatim>\<open>nearest = null\<close>, \<^verbatim>\<open>nearestDistance = Infinity\<close>.
\<close>

fun nearestLoop :: "Vector3 \<Rightarrow> AsteroidSim list \<Rightarrow> (AsteroidSim \<times> real) option
    \<Rightarrow> (AsteroidSim \<times> real) option" where
  "nearestLoop p [] best = best"
| "nearestLoop p (a # as) best =
     (let surfaceDistance = distanceTo (ast_position a) p - ast_radius a
      in nearestLoop p as
           (case best of
              None \<Rightarrow> Some (a, surfaceDistance)
            | Some (b, nearestDistance) \<Rightarrow>
                if surfaceDistance < nearestDistance then Some (a, surfaceDistance) else best))"

definition findNearestAsteroidForGrabber :: "GameRuntime \<Rightarrow> (AsteroidSim \<times> real) option" where
  "findNearestAsteroidForGrabber r = nearestLoop (playerPosition r) (asteroids r) None"

definition updateGrabber :: "GameRuntime \<Rightarrow> (string \<rightharpoonup> bool) \<Rightarrow> GameRuntime" where
  "updateGrabber r ks =
     (if \<not> justPressed r ks ''KeyG'' then r
      else
        (case grabbedAsteroidId r of
           Some grabbed \<Rightarrow>
             (let r1 =
                (case findAsteroid (asteroids r) grabbed of
                   Some i \<Rightarrow>
                     (let asteroid = asteroids r ! i;
                          forward = getPlayerForward r;
                          forwardSpeed = max 0 (dot (playerVelocity r) forward);
                          flingSpeed = ASTEROID_FLING_BASE_SPEED
                                       + forwardSpeed * ASTEROID_FLING_FORWARD_SCALE
                                       + throttleLevel r * ASTEROID_FLING_THROTTLE_BONUS;
                          velocity0 = addScaledVector
                                        (addScaledVector (ast_velocity asteroid) forward flingSpeed)
                                        (playerVelocity r) ASTEROID_FLING_PLAYER_VELOCITY_SHARE;
                          maxFlingSpeed = 46 + ast_radius asteroid * 4.5;
                          velocity = (if lengthSq velocity0 > maxFlingSpeed * maxFlingSpeed
                                      then setLength velocity0 maxFlingSpeed else velocity0)
                      in addEvent
                           (r\<lparr>asteroids := (asteroids r)[i := asteroid\<lparr>ast_velocity := velocity\<rparr>]\<rparr>)
                           [Lit ''Grabber disengaged. Asteroid #'', IdNum (ast_id asteroid),
                            Lit '' slung forward.''] info)
                 | None \<Rightarrow> addEvent r [Lit ''Grabber disengaged.''] info)
              in r1\<lparr>grabbedAsteroidId := None\<rparr>)
         | None \<Rightarrow>
             (case findNearestAsteroidForGrabber r of
                Some (asteroid, surfaceDistance) \<Rightarrow>
                  if surfaceDistance \<le> grabberRange r then
                    addEvent (r\<lparr>grabbedAsteroidId := Some (ast_id asteroid), drillAccumulator := 0\<rparr>)
                      [Lit ''Grabber latched asteroid #'', IdNum (ast_id asteroid), Lit ''.''] good
                  else addEvent r [Lit ''No asteroid in grabber range.''] alert
              | None \<Rightarrow> addEvent r [Lit ''No asteroid in grabber range.''] alert)))"

definition moveGrabbedAsteroid :: "GameRuntime \<Rightarrow> real \<Rightarrow> GameRuntime" where
  "moveGrabbedAsteroid r dt =
     (case grabbedAsteroidId r of
        None \<Rightarrow> r
      | Some grabbed \<Rightarrow>
          (case findAsteroid (asteroids r) grabbed of
             None \<Rightarrow> r\<lparr>grabbedAsteroidId := None\<rparr>
           | Some i \<Rightarrow>
               (let asteroid = asteroids r ! i;
                    forward = getPlayerForward r;
                    anchorPoint = addScaledVector (playerPosition r) forward (ast_radius asteroid + 4.2);
                    toAnchor = sub anchorPoint (ast_position asteroid);
                    velocity = multiplyScalar
                                 (addScaledVector (ast_velocity asteroid) toAnchor
                                    (dt * GRABBER_ANCHOR_PULL))
                                 (exp (- dt * GRABBED_ASTEROID_DAMPING_RATE))
                in r\<lparr>asteroids := (asteroids r)[i := asteroid\<lparr>ast_velocity := velocity\<rparr>]\<rparr>)))"

section \<open>Cargo\<close>

text \<open>
  \<^verbatim>\<open>sampleAsteroidResource\<close> draws one number and walks the composition table. On an
  empty table the source's fallback \<^verbatim>\<open>composition[composition.length - 1].resourceId\<close>
  raises a TypeError; the result is \<open>None\<close> then. The new state of the random stream is
  returned with the resource.
\<close>

fun sampleLoop :: "real \<Rightarrow> real \<Rightarrow> (ResourceId \<times> real) list \<Rightarrow> ResourceId option" where
  "sampleLoop roll cursor [] = None"
| "sampleLoop roll cursor (c # cs) =
     (if roll \<le> cursor + snd c then Some (fst c) else sampleLoop roll (cursor + snd c) cs)"

definition sampleAsteroidResource :: "GameRuntime \<Rightarrow> AsteroidSim \<Rightarrow> ResourceId option \<times> rng" where
  "sampleAsteroidResource r asteroid =
     (let (roll, g) = rngNext (rng r)
      in (case sampleLoop roll 0 (composition asteroid) of
            Some k \<Rightarrow> Some k
          | None \<Rightarrow> (if composition asteroid = [] then None
                     else Some (fst (last (composition asteroid)))), g))"

text \<open>\<^verbatim>\<open>addCargo\<close> returns the runtime and the number of units it accepted.\<close>

definition addCargo :: "GameRuntime \<Rightarrow> ResourceId \<Rightarrow> real \<Rightarrow> GameRuntime \<times> real" where
  "addCargo r k n =
     (let def = RESOURCES k;
          remainingCapacity = max 0 (cargoCapacity r - cargoUsed r);
          maxUnitsByCapacity = of_int \<lfloor>remainingCapacity / res_volume def\<rfloor>;
          acceptedUnits = min n maxUnitsByCapacity
      in if acceptedUnits \<le> 0 then
           ((if \<not> cargoFullWarned r then
               (addEvent r [Lit ''Cargo hold at capacity. Return to freighter to unload.''] alert)
                 \<lparr>cargoFullWarned := True\<rparr>
             else r), 0)
         else
           (let volume = acceptedUnits * res_volume def;
                bin = cargoBins r k;
                bin' = bin\<lparr>units := units bin + acceptedUnits,
                          bin_volume := bin_volume bin + volume,
                          bin_value := bin_value bin + acceptedUnits * res_value def\<rparr>
            in (r\<lparr>cargoBins := (cargoBins r)(k := bin'),
                  cargoUsed := cargoUsed r + volume,
                  cargoValue := cargoValue r + acceptedUnits * res_value def\<rparr>, acceptedUnits)))"

text \<open>
  \<^verbatim>\<open>Array.prototype.sort\<close> is stable; with a comparator that is the difference of a
  numeric key it is the stable sort by that key, written here as an insertion sort:
  \<open>x\<close> goes in front of the first \<open>y\<close> with \<open>cmp x y \<le> 0\<close>.
\<close>

fun insertBy :: "('a \<Rightarrow> 'a \<Rightarrow> real) \<Rightarrow> 'a \<Rightarrow> 'a list \<Rightarrow> 'a list" where
  "insertBy cmp x [] = [x]"
| "insertBy cmp x (y # ys) = (if cmp x y \<le> 0 then x # y # ys else y # insertBy cmp x ys)"

definition sortBy :: "('a \<Rightarrow> 'a \<Rightarrow> real) \<Rightarrow> 'a list \<Rightarrow> 'a list" where
  "sortBy cmp xs = foldr (insertBy cmp) xs []"

text \<open>
  Removing one unit from the bin \<open>candidate\<close> stored under key \<open>k\<close>: the common tail of
  \<^verbatim>\<open>takeCargoUnitForLaunch\<close> and \<^verbatim>\<open>takeCargoUnitForUnload\<close>.
\<close>

definition takeUnit :: "GameRuntime \<Rightarrow> ResourceId \<Rightarrow> CargoBin \<Rightarrow> GameRuntime \<times> ResourceId option" where
  "takeUnit r k candidate =
     (let def = RESOURCES (resourceId candidate);
          candidate' = candidate\<lparr>units := units candidate - 1,
                                 bin_volume := max 0 (bin_volume candidate - res_volume def),
                                 bin_value := max 0 (bin_value candidate - res_value def)\<rparr>
      in (r\<lparr>cargoBins := (cargoBins r)(k := candidate'),
            cargoUsed := max 0 (cargoUsed r - res_volume def),
            cargoValue := max 0 (cargoValue r - res_value def),
            cargoFullWarned := False\<rparr>, Some (resourceId candidate)))"

text \<open>The key \<^verbatim>\<open>bin.value / Math.max(1, bin.units)\<close> of the launch order.\<close>

definition perUnitValue :: "CargoBin \<Rightarrow> real" where
  "perUnitValue bin = bin_value bin / max 1 (units bin)"

definition launchOrder :: "ResourceId \<times> CargoBin \<Rightarrow> ResourceId \<times> CargoBin \<Rightarrow> real" where
  "launchOrder a b = perUnitValue (snd b) - perUnitValue (snd a)"

definition unloadOrder :: "ResourceId \<times> CargoBin \<Rightarrow> ResourceId \<times> CargoBin \<Rightarrow> real" where
  "unloadOrder a b = res_value (RESOURCES (resourceId (snd b)))
                     - res_value (RESOURCES (resourceId (snd a)))"

definition takeCargoUnitForLaunch :: "GameRuntime \<Rightarrow> GameRuntime \<times> ResourceId option" where
  "takeCargoUnitForLaunch r =
     (case sortBy launchOrder (filter (\<lambda>e. units (snd e) > 0) (cargoBinEntries r)) of
        [] \<Rightarrow> (r, None)
      | (k, candidate) # rest \<Rightarrow> takeUnit r k candidate)"

definition takeCargoUnitForUnload :: "GameRuntime \<Rightarrow> GameRuntime \<times> ResourceId option" where
  "takeCargoUnitForUnload r =
     (case sortBy unloadOrder (filter (\<lambda>e. units (snd e) > 0) (cargoBinEntries r)) of
        [] \<Rightarrow> (r, None)
      | (k, candidate) # rest \<Rightarrow> takeUnit r k candidate)"

section \<open>Docked systems, launches and the drill\<close>

function unloadLoop :: "GameRuntime \<Rightarrow> GameRuntime" where
  "unloadLoop r =
     (if unloadAccumulator r \<ge> 1 then
        (if powerballCargo r > 0 then
           unloadLoop
             (addEvent
                (r\<lparr>powerballCargo := powerballCargo r - 1,
                   deliveredPowerballScore := deliveredPowerballScore r + 1,
                   unloadAccumulator := unloadAccumulator r - 1\<rparr>)
                [Lit ''Powerball transferred to freighter vault. Delivered score +1.''] good)
         else
           (case takeCargoUnitForUnload r of
              (r1, None) \<Rightarrow> r1
            | (r1, Some k) \<Rightarrow>
                unloadLoop
                  (r1\<lparr>unloadAccumulator := unloadAccumulator r1 - 1,
                      deliveredValue := deliveredValue r1 + res_value (RESOURCES k)\<rparr>)))
      else r)"
  by pat_completeness auto
termination
proof (relation "measure (\<lambda>r. nat \<lfloor>unloadAccumulator r\<rfloor>)")
  show "wf (measure (\<lambda>r. nat \<lfloor>unloadAccumulator r\<rfloor>))" by simp
next
  fix r :: GameRuntime
  assume "1 \<le> unloadAccumulator r"
  then show "(addEvent
                (r\<lparr>powerballCargo := powerballCargo r - 1,
                   deliveredPowerballScore := deliveredPowerballScore r + 1,
                   unloadAccumulator := unloadAccumulator r - 1\<rparr>)
                [Lit ''Powerball transferred to freighter vault. Delivered score +1.''] good, r)
             \<in> measure (\<lambda>r. nat \<lfloor>unloadAccumulator r\<rfloor>)"
    by (simp add: addEvent_def Let_def)
next
  fix r r1 :: GameRuntime and x k
  assume acc: "1 \<le> unloadAccumulator r"
    and take: "(r1, x) = takeCargoUnitForUnload r"
  have "unloadAccumulator r1 = unloadAccumulator r"
    using take by (auto simp: takeCargoUnitForUnload_def takeUnit_def Let_def
                       split: list.splits prod.splits)
  with acc show "(r1\<lparr>unloadAccumulator := unloadAccumulator r1 - 1,
                     deliveredValue := deliveredValue r1 + res_value (RESOURCES k)\<rparr>, r)
                 \<in> measure (\<lambda>r. nat \<lfloor>unloadAccumulator r\<rfloor>)"
    by simp
qed

definition updateDockedSystems :: "GameRuntime \<Rightarrow> real \<Rightarrow> GameRuntime" where
  "updateDockedSystems r dt =
     (if \<not> docked r then r
      else
        (let r1 = r\<lparr>playerPosition := add (freighterPosition r) (dockedPosition r),
                    playerVelocity := Vector3 0 0 0,
                    throttleLevel := 0,
                    grabbedAsteroidId := None,
                    drillActive := False\<rparr>;
             hadCargoBefore = (cargoValue r1 > 0 \<or> powerballCargo r1 > 0);
             r2 = unloadLoop
                    (r1\<lparr>unloadAccumulator := unloadAccumulator r1 + dt * DOCK_UNLOAD_UNITS_PER_SECOND\<rparr>);
             r3 = (if hadCargoBefore \<and> cargoValue r2 \<le> 0 \<and> powerballCargo r2 \<le> 0
                   then addEvent r2 [Lit ''Cargo unload complete. Hold is now empty.''] good
                   else r2);
             hullBefore = playerHull r3;
             r4 = r3\<lparr>playerHull := min (maxHull r3) (playerHull r3 + DOCK_REPAIR_PER_SECOND * dt)\<rparr>
         in if hullBefore < maxHull r4 \<and> playerHull r4 \<ge> maxHull r4
            then addEvent r4 [Lit ''Hull repairs complete.''] good
            else r4))"

definition launchCargoShot :: "GameRuntime \<Rightarrow> (string \<rightharpoonup> bool) \<Rightarrow> GameRuntime" where
  "launchCargoShot r ks =
     (if \<not> justPressed r ks ''Space'' then r
      else
        (case takeCargoUnitForLaunch r of
           (r1, None) \<Rightarrow> addEvent r1 [Lit ''Cargo launch failed. Hold is empty.''] alert
         | (r1, Some k) \<Rightarrow>
             (let r2 = r1\<lparr>cargoShotSerial := cargoShotSerial r1 + 1\<rparr>;
                  forward = getPlayerForward r2;
                  def = RESOURCES k;
                  dmg = 8 + res_value def / 12;
                  shot = \<lparr>shot_id = cargoShotSerial r2,
                          shotType = cargo,
                          shot_resourceId = Some k,
                          shot_position = addScaledVector (playerPosition r2) forward
                                            (PLAYER_RADIUS + 1.1),
                          shot_velocity = add (multiplyScalar forward CARGO_SHOT_SPEED)
                                            (playerVelocity r2),
                          life = CARGO_SHOT_LIFETIME,
                          shot_radius = CARGO_SHOT_RADIUS,
                          damage = dmg,
                          delayBonus = 2 + dmg * 0.16,
                          shot_color = res_color def\<rparr>
              in addEvent (r2\<lparr>cargoShots := cargoShots r2 @ [shot]\<rparr>)
                   [Lit (res_label def), Lit '' canister launched.''] info)))"

definition launchWeaponShot :: "GameRuntime \<Rightarrow> (string \<rightharpoonup> bool) \<Rightarrow> GameRuntime" where
  "launchWeaponShot r ks =
     (if \<not> justPressed r ks ''KeyQ'' then r
      else if weaponMaxAmmo r \<le> 0 \<or> weaponDamage r \<le> 0 then
        addEvent r [Lit ''No weapon system installed.''] alert
      else if weaponAmmo r \<le> 0 then
        addEvent r [Lit ''Weapon ammo depleted.''] alert
      else
        (let r1 = r\<lparr>weaponAmmo := weaponAmmo r - 1, cargoShotSerial := cargoShotSerial r + 1\<rparr>;
             forward = getPlayerForward r1;
             dmg = weaponDamage r1;
             shot = \<lparr>shot_id = cargoShotSerial r1,
                     shotType = weapon,
                     shot_resourceId = None,
                     shot_position = addScaledVector (playerPosition r1) forward (PLAYER_RADIUS + 1.1),
                     shot_velocity = add (multiplyScalar forward (CARGO_SHOT_SPEED * 1.25))
                                       (playerVelocity r1),
                     life = CARGO_SHOT_LIFETIME,
                     shot_radius = CARGO_SHOT_RADIUS * 0.85,
                     damage = dmg,
                     delayBonus = 1.2 + dmg * 0.06,
                     shot_color = ''#ff955a''\<rparr>
         in r1\<lparr>cargoShots := cargoShots r1 @ [shot]\<rparr>))"

text \<open>
  How one pass through the body of the drill's \<^verbatim>\<open>while\<close> loop ends: it goes round
  again, leaves by \<^verbatim>\<open>break\<close>, or the TypeError of \<^verbatim>\<open>sampleAsteroidResource\<close> leaves
  \<^verbatim>\<open>stepRuntime\<close> altogether.
\<close>

datatype LoopExit = goesOn | breaks | raises

text \<open>
  The body of the loop, after \<^verbatim>\<open>drillAccumulator -= 1\<close>; \<open>i\<close> is the position of the
  grabbed asteroid in the array.
\<close>

text \<open>
  \<^verbatim>\<open>resourceId === 'fringeRelic' ? 1 : 1 + Math.floor(runtime.rng() * 2)\<close>: the units
  of one extraction, and the runtime after the draw.
\<close>

definition rollUnits :: "ResourceId \<Rightarrow> GameRuntime \<Rightarrow> real \<times> GameRuntime" where
  "rollUnits k r =
     (if k = fringeRelic then (1, r)
      else (let (u, g) = rngNext (rng r) in (1 + of_int \<lfloor>u * 2\<rfloor>, r\<lparr>rng := g\<rparr>)))"

definition drillTick :: "nat \<Rightarrow> GameRuntime \<Rightarrow> GameRuntime \<times> LoopExit" where
  "drillTick i r =
     (case sampleAsteroidResource r (asteroids r ! i) of
        (None, g) \<Rightarrow> (r\<lparr>rng := g\<rparr>, raises)
      | (Some k, g) \<Rightarrow>
          (let r1 = r\<lparr>rng := g\<rparr>;
               (n, r2) = rollUnits k r1;
               (r3, minedUnits) = addCargo r2 k n
           in if minedUnits \<le> 0 then (r3\<lparr>drillActive := False\<rparr>, breaks)
              else
                (let asteroid = asteroids r3 ! i;
                     r4 = (if hasPowerball asteroid \<and> \<not> powerballRecovered asteroid then
                             addEvent
                               (r3\<lparr>asteroids := (asteroids r3)[i := asteroid\<lparr>powerballRecovered := True\<rparr>],
                                   powerballCargo := powerballCargo r3 + 1\<rparr>)
                               [Lit ''Powerball recovered. Stowed aboard for delivery.''] good
                           else r3);
                     asteroid4 = asteroids r4 ! i;
                     r5 = r4\<lparr>asteroids :=
                             (asteroids r4)[i := asteroid4\<lparr>oreReserve := oreReserve asteroid4 - 1\<rparr>]\<rparr>;
                     asteroid5 = asteroids r5 ! i
                 in if oreReserve asteroid5 \<le> 0 then
                      (addEvent
                         (r5\<lparr>asteroids := (asteroids r5)[i := asteroid5\<lparr>oreReserve := 0\<rparr>],
                             asteroidDepletionSerial := asteroidDepletionSerial r5 + 1,
                             grabbedAsteroidId := None\<rparr>)
                         [Lit ''Target asteroid depleted. Grabber auto-released.''] info, breaks)
                    else (r5, goesOn))))"

text \<open>
  What \<^verbatim>\<open>stepRuntime\<close> and the drill leave behind: the runtime after a normal return, or
  the runtime as the TypeError found it.
\<close>

datatype StepResult = Returned GameRuntime | Thrown GameRuntime

fun stateOf :: "StepResult \<Rightarrow> GameRuntime" where
  "stateOf (Returned r) = r"
| "stateOf (Thrown r) = r"

function drillLoop :: "nat \<Rightarrow> GameRuntime \<Rightarrow> StepResult" where
  "drillLoop i r =
     (if drillAccumulator r \<ge> 1 then
        (case drillTick i (r\<lparr>drillAccumulator := drillAccumulator r - 1\<rparr>) of
           (r', goesOn) \<Rightarrow> drillLoop i r'
         | (r', breaks) \<Rightarrow> Returned r'
         | (r', raises) \<Rightarrow> Thrown r')
      else Returned r)"
  by pat_completeness auto
termination
proof (relation "measure (\<lambda>(i, r). nat \<lfloor>drillAccumulator r\<rfloor>)")
  show "wf (measure (\<lambda>(i, r). nat \<lfloor>drillAccumulator r\<rfloor>))" by simp
next
  fix i :: nat and r r' :: GameRuntime and x
  assume acc: "1 \<le> drillAccumulator r"
    and tick: "(r', x) = drillTick i (r\<lparr>drillAccumulator := drillAccumulator r - 1\<rparr>)"
  have cargo: "drillAccumulator (fst (addCargo s k n)) = drillAccumulator s" for s k n
    by (simp add: addCargo_def addEvent_def Let_def)
  have "drillAccumulator (fst (drillTick i s)) = drillAccumulator s" for s
    by (simp add: drillTick_def sampleAsteroidResource_def rollUnits_def addEvent_def Let_def
             split_def cargo split: option.split)
  from this [of "r\<lparr>drillAccumulator := drillAccumulator r - 1\<rparr>"] tick [symmetric]
  have "drillAccumulator r' = drillAccumulator r - 1" by simp
  with acc show "((i, r'), (i, r)) \<in> measure (\<lambda>(i, r). nat \<lfloor>drillAccumulator r\<rfloor>)"
    by simp
qed

text \<open>The loops are unfolded by hand, one pass at a time.\<close>

declare unloadLoop.simps [simp del]
declare drillLoop.simps [simp del]

definition warnNoUsableSpace :: "GameRuntime \<Rightarrow> GameRuntime" where
  "warnNoUsableSpace r =
     (if \<not> cargoFullWarned r then
        (addEvent r
           [Lit ''Cargo hold has no usable space left. Return to freighter to unload.''] alert)
          \<lparr>cargoFullWarned := True\<rparr>
      else r)"

definition updateDrill :: "GameRuntime \<Rightarrow> real \<Rightarrow> (string \<rightharpoonup> bool) \<Rightarrow> StepResult" where
  "updateDrill r dt ks =
     (case (if isDown ks ''KeyF'' then grabbedAsteroidId r else None) of
        None \<Rightarrow> Returned (r\<lparr>drillActive := False\<rparr>)
      | Some grabbed \<Rightarrow>
          (let remainingCapacity = cargoCapacity r - cargoUsed r
           in if remainingCapacity < MIN_RESOURCE_VOLUME then
                Returned ((warnNoUsableSpace r)\<lparr>drillActive := False\<rparr>)
              else
                (case findAsteroid (asteroids r) grabbed of
                   None \<Rightarrow> Returned (r\<lparr>grabbedAsteroidId := None, drillActive := False\<rparr>)
                 | Some i \<Rightarrow>
                     if oreReserve (asteroids r ! i) \<le> 0 then
                       Returned
                         (addEvent (r\<lparr>grabbedAsteroidId := None, drillActive := False\<rparr>)
                            [Lit ''Target asteroid depleted. Seek another vein.''] info)
                     else
                       drillLoop i
                         (r\<lparr>drillActive := True,
                            drillAccumulator :=
                              drillAccumulator r + dt * ORE_EXTRACT_RATE * drillMultiplier r\<rparr>))))"

section \<open>Collisions and projectiles\<close>

text \<open>One overlapping pair of \<^verbatim>\<open>resolveAsteroidCollisions\<close>: the new \<open>a\<close> and \<open>b\<close>.\<close>

definition collidePair :: "AsteroidSim \<Rightarrow> AsteroidSim \<Rightarrow> AsteroidSim \<times> AsteroidSim" where
  "collidePair a b =
     (let delta = sub (ast_position a) (ast_position b);
          distance = max (vlength delta) 0.0001;
          minDistance = ast_radius a + ast_radius b
      in if distance \<ge> minDistance then (a, b)
         else
           (let normal = multiplyScalar delta (1 / distance);
                overlap = minDistance - distance;
                a1 = a\<lparr>ast_position := addScaledVector (ast_position a) normal (overlap * 0.5)\<rparr>;
                b1 = b\<lparr>ast_position := addScaledVector (ast_position b) normal (- overlap * 0.5)\<rparr>;
                relativeSpeed = dot (sub (ast_velocity a1) (ast_velocity b1)) normal
            in if relativeSpeed < 0 then
                 (let impulse = (- (1 + ASTEROID_COLLISION_RESTITUTION) * relativeSpeed) / 2
                  in (a1\<lparr>ast_velocity := addScaledVector (ast_velocity a1) normal impulse\<rparr>,
                      b1\<lparr>ast_velocity := addScaledVector (ast_velocity b1) normal (- impulse)\<rparr>))
               else (a1, b1)))"

fun collideInner :: "nat \<Rightarrow> nat list \<Rightarrow> AsteroidSim list \<Rightarrow> AsteroidSim list" where
  "collideInner i [] xs = xs"
| "collideInner i (j # js) xs =
     (let (a, b) = collidePair (xs ! i) (xs ! j) in collideInner i js (xs[i := a, j := b]))"

fun collideOuter :: "nat list \<Rightarrow> AsteroidSim list \<Rightarrow> AsteroidSim list" where
  "collideOuter [] xs = xs"
| "collideOuter (i # is) xs = collideOuter is (collideInner i [i + 1..<length xs] xs)"

definition resolveAsteroidCollisions :: "GameRuntime \<Rightarrow> GameRuntime" where
  "resolveAsteroidCollisions r =
     r\<lparr>asteroids := collideOuter [0..<length (asteroids r)] (asteroids r)\<rparr>"

text \<open>
  The damage block of \<^verbatim>\<open>resolveAsteroidPirateImpacts\<close>, entered when the grace window
  is over and the impact is fast enough; \<open>radius\<close> is the asteroid's.
\<close>

definition asteroidStrikesPirate :: "GameRuntime \<Rightarrow> real \<Rightarrow> real \<Rightarrow> GameRuntime" where
  "asteroidStrikesPirate r impact radius =
     (let massFactor = 0.7 + radius * 0.32;
          (roll, g) = randomRange (rng r) 14 21;
          pirateDamage = impact * roll * massFactor;
          (r1, pirateDisabled) = applyPirateDamage (r\<lparr>rng := g\<rparr>) pirateDamage;
          r2 = (if pirateDisabled then
                  addEvent r1
                    [Lit ''Asteroid strike shredded pirate hull (-'',
                     ToFixed pirateDamage 0, Lit ''). Boarding threat ended.''] good
                else
                  (let delay = min 18 (4 + impact * 1.85 + radius * 0.55)
                   in addEvent
                        (r1\<lparr>pirateBoardTimer := xadd (pirateBoardTimer r1) delay\<rparr>)
                        [Lit ''Asteroid impact on pirate: -'', ToFixed pirateDamage 0,
                         Lit '' hull, boarding delayed +'', ToFixed delay 1, Lit ''s.''] good))
      in r2\<lparr>pirateAsteroidGrace := ASTEROID_PIRATE_IMPACT_GRACE\<rparr>)"

text \<open>
  The body of the loop of \<^verbatim>\<open>resolveAsteroidPirateImpacts\<close> for the asteroid at
  position \<open>i\<close>; the flag says that the loop is left by \<^verbatim>\<open>break\<close>.
\<close>

definition asteroidPirateImpact :: "nat \<Rightarrow> GameRuntime \<Rightarrow> GameRuntime \<times> bool" where
  "asteroidPirateImpact i r =
     (let asteroid = asteroids r ! i;
          delta = sub (ast_position asteroid) (piratePosition r);
          distance = max (vlength delta) 0.0001;
          minDistance = ast_radius asteroid + PIRATE_RADIUS
      in if distance \<ge> minDistance then (r, False)
         else
           (let normal = multiplyScalar delta (1 / distance);
                overlap = minDistance - distance;
                asteroid1 = asteroid\<lparr>ast_position :=
                              addScaledVector (ast_position asteroid) normal (overlap * 0.72)\<rparr>;
                r1 = r\<lparr>asteroids := (asteroids r)[i := asteroid1],
                        piratePosition := addScaledVector (piratePosition r) normal (- overlap * 0.28)\<rparr>;
                relative = sub (ast_velocity asteroid1) (pirateVelocity r1);
                impact = max 0 (- dot relative normal);
                r2 = (if pirateAsteroidGrace r1 \<le> 0 \<and> impact > ASTEROID_PIRATE_IMPACT_MIN_SPEED
                      then asteroidStrikesPirate r1 impact (ast_radius asteroid1)
                      else r1);
                asteroid2 = asteroids r2 ! i;
                r3 = r2\<lparr>asteroids := (asteroids r2)[i := asteroid2\<lparr>ast_velocity :=
                          addScaledVector (ast_velocity asteroid2) normal (impact * 0.45)\<rparr>]\<rparr>
            in if pirateState r3 = incoming then
                 (r3\<lparr>pirateVelocity := addScaledVector (pirateVelocity r3) normal (- impact * 0.9)\<rparr>,
                  False)
               else (r3, True)))"

fun asteroidPirateLoop :: "nat list \<Rightarrow> GameRuntime \<Rightarrow> GameRuntime" where
  "asteroidPirateLoop [] r = r"
| "asteroidPirateLoop (i # is) r =
     (let (r', left) = asteroidPirateImpact i r in if left then r' else asteroidPirateLoop is r')"

definition resolveAsteroidPirateImpacts :: "GameRuntime \<Rightarrow> real \<Rightarrow> GameRuntime" where
  "resolveAsteroidPirateImpacts r dt =
     (if pirateState r \<noteq> incoming then r
      else asteroidPirateLoop [0..<length (asteroids r)]
             (r\<lparr>pirateAsteroidGrace := max 0 (pirateAsteroidGrace r - dt)\<rparr>))"

text \<open>
  The damage block of \<^verbatim>\<open>resolvePlayerAsteroidImpacts\<close>, entered when the collision
  grace window is over and the impact is fast enough.
\<close>

definition asteroidStrikesPlayer :: "GameRuntime \<Rightarrow> real \<Rightarrow> GameRuntime" where
  "asteroidStrikesPlayer r impact =
     (let (roll, g) = randomRange (rng r) 6.4 9.8;
          dmg = impact * roll
      in addEvent
           (r\<lparr>rng := g,
               playerHull := max 0 (playerHull r - dmg),
               collisionGrace := 0.33\<rparr>)
           [Lit ''Hull impact registered (-'', ToFixed dmg 0, Lit '').''] alert)"

text \<open>The body of the loop of \<^verbatim>\<open>resolvePlayerAsteroidImpacts\<close>; it changes no asteroid.\<close>

definition playerAsteroidImpact :: "AsteroidSim \<Rightarrow> GameRuntime \<Rightarrow> GameRuntime" where
  "playerAsteroidImpact asteroid r =
     (let delta = sub (playerPosition r) (ast_position asteroid);
          distance = max (vlength delta) 0.0001;
          minDistance = PLAYER_RADIUS + ast_radius asteroid
      in if distance \<ge> minDistance then r
         else
           (let normal = multiplyScalar delta (1 / distance);
                overlap = minDistance - distance;
                r1 = r\<lparr>playerPosition := addScaledVector (playerPosition r) normal (overlap + 0.05)\<rparr>;
                relative = sub (playerVelocity r1) (ast_velocity asteroid);
                impact = max 0 (- dot relative normal);
                r2 = (if collisionGrace r1 \<le> 0 \<and> impact > 0.75
                      then asteroidStrikesPlayer r1 impact
                      else r1)
            in r2\<lparr>playerVelocity := addScaledVector (playerVelocity r2) normal (impact * 0.45)\<rparr>))"

fun playerAsteroidLoop :: "AsteroidSim list \<Rightarrow> GameRuntime \<Rightarrow> GameRuntime" where
  "playerAsteroidLoop [] r = r"
| "playerAsteroidLoop (asteroid # rest) r = playerAsteroidLoop rest (playerAsteroidImpact asteroid r)"

definition resolvePlayerAsteroidImpacts :: "GameRuntime \<Rightarrow> real \<Rightarrow> GameRuntime" where
  "resolvePlayerAsteroidImpacts r dt =
     playerAsteroidLoop (asteroids r) (r\<lparr>collisionGrace := max 0 (collisionGrace r - dt)\<rparr>)"

text \<open>
  The damage block of \<^verbatim>\<open>resolvePlayerPirateImpact\<close>, entered when the ram grace window
  is over and the impact is fast enough.
\<close>

definition playerRamsPirate :: "GameRuntime \<Rightarrow> real \<Rightarrow> GameRuntime" where
  "playerRamsPirate r impact =
     (let (roll1, g1) = randomRange (rng r) 4.6 7.2;
          playerDamage = impact * roll1 * rammerSelfDamageMultiplier r;
          r1 = r\<lparr>rng := g1, playerHull := max 0 (playerHull r - playerDamage)\<rparr>;
          (roll2, g2) = randomRange (rng r1) 7.8 11.2;
          pirateDamage = impact * roll2 * rammerDamageMultiplier r1;
          (r2, pirateDisabled) = applyPirateDamage (r1\<lparr>rng := g2\<rparr>) pirateDamage;
          delay = min 12 (3 + impact * 1.4);
          r3 = r2\<lparr>pirateBoardTimer := xadd (pirateBoardTimer r2) delay,
                  pirateRamGrace := 0.75\<rparr>;
          delayLabel = (if pirateDisabled then [Lit ''Boarding threat ended.'']
                        else [Lit ''Boarding delayed +'', ToFixed delay 1, Lit ''s.''])
      in addEvent r3
           ([Lit ''Ramming impact: pirate -'', ToFixed pirateDamage 0,
             Lit '' hull, you -'', ToFixed playerDamage 0, Lit '' hull. '']
            @ delayLabel)
           (if pirateDisabled then good else alert))"

definition resolvePlayerPirateImpact :: "GameRuntime \<Rightarrow> real \<Rightarrow> GameRuntime" where
  "resolvePlayerPirateImpact r0 dt =
     (if pirateState r0 \<noteq> incoming then r0
      else
        (let r = r0\<lparr>pirateRamGrace := max 0 (pirateRamGrace r0 - dt)\<rparr>;
             delta = sub (playerPosition r) (piratePosition r);
             distance = max (vlength delta) 0.0001;
             minDistance = PLAYER_RADIUS + PIRATE_RADIUS
         in if distance \<ge> minDistance then r
            else
              (let normal = multiplyScalar delta (1 / distance);
                   overlap = minDistance - distance;
                   r1 = r\<lparr>playerPosition := addScaledVector (playerPosition r) normal (overlap * 0.65),
                           piratePosition := addScaledVector (piratePosition r) normal (- overlap * 0.35)\<rparr>;
                   relative = sub (playerVelocity r1) (pirateVelocity r1);
                   impact = max 0 (- dot relative normal);
                   r2 = (if pirateRamGrace r1 \<le> 0 \<and> impact > RAM_DELAY_MIN_IMPACT
                         then playerRamsPirate r1 impact
                         else r1);
                   r3 = r2\<lparr>playerVelocity := addScaledVector (playerVelocity r2) normal (impact * 0.6)\<rparr>
               in if pirateState r3 = incoming then
                    r3\<lparr>pirateVelocity := addScaledVector (pirateVelocity r3) normal (- impact * 0.5)\<rparr>
                  else r3)))"

text \<open>
  The loop of \<^verbatim>\<open>updateCargoShots\<close>: the shots still to visit, the runtime, and
  \<^verbatim>\<open>activeShots\<close> so far.
\<close>

fun cargoShotsLoop :: "real \<Rightarrow> CargoShot list \<Rightarrow> GameRuntime \<Rightarrow> CargoShot list
    \<Rightarrow> GameRuntime \<times> CargoShot list" where
  "cargoShotsLoop dt [] r activeShots = (r, activeShots)"
| "cargoShotsLoop dt (shot0 # shots) r activeShots =
     (let shot = shot0\<lparr>life := life shot0 - dt,
                       shot_position := addScaledVector (shot_position shot0) (shot_velocity shot0) dt\<rparr>;
          p = shot_position shot;
          inBounds = (vx p \<ge> FLIGHT_minX - 28 \<and> vx p \<le> FLIGHT_maxX + 28 \<and>
                      vy p \<ge> FLIGHT_minY - 28 \<and> vy p \<le> FLIGHT_maxY + 28 \<and>
                      vz p \<ge> FLIGHT_minZ - 28 \<and> vz p \<le> FLIGHT_maxZ + 28)
      in if life shot \<le> 0 \<or> \<not> inBounds then cargoShotsLoop dt shots r activeShots
         else if pirateState r = incoming
                 \<and> distanceTo p (piratePosition r) \<le> shot_radius shot + PIRATE_RADIUS then
           (let (r1, pirateDisabled) = applyPirateDamage r (damage shot);
                r2 = r1\<lparr>pirateBoardTimer := xadd (pirateBoardTimer r1) (delayBonus shot)\<rparr>;
                r3 = (if shotType shot = weapon then
                        addEvent r2 [Lit ''Weapon hit confirmed. Boarding delayed +'',
                                     ToFixed (delayBonus shot) 1, Lit ''s.''] good
                      else
                        (case shot_resourceId shot of
                           Some k \<Rightarrow>
                             addEvent r2 [Lit ''Pirate hit with '', Lit (res_label (RESOURCES k)),
                                          Lit ''. Boarding delayed +'', ToFixed (delayBonus shot) 1,
                                          Lit ''s.''] good
                         | None \<Rightarrow> r2));
                r4 = (if pirateDisabled then r3\<lparr>pirateBoardTimer := PosInfinity\<rparr> else r3)
            in cargoShotsLoop dt shots r4 activeShots)
         else cargoShotsLoop dt shots r (activeShots @ [shot]))"

definition updateCargoShots :: "GameRuntime \<Rightarrow> real \<Rightarrow> GameRuntime" where
  "updateCargoShots r dt =
     (let (r', activeShots) = cargoShotsLoop dt (cargoShots r) r []
      in r'\<lparr>cargoShots := activeShots\<rparr>)"

section \<open>Outcome and the step\<close>

definition evaluateMissionOutcome :: "GameRuntime \<Rightarrow> GameRuntime" where
  "evaluateMissionOutcome r =
     (if status r \<noteq> active then r
      else if playerHull r \<le> 0 then
        addEvent
          (r\<lparr>status := lost,
             outcomeReason := ''Your mining craft vented atmosphere and went dark.''\<rparr>)
          [Lit ''Your mining craft vented atmosphere and went dark.''] alert
      else if missionSeconds r \<le> 0 then
        (if docked r then
           addEvent
             (r\<lparr>status := won,
                outcomeReason := ''Freighter cleared the belt with you secured in docking clamps. You survived this run.''\<rparr>)
             [Lit ''Freighter cleared the belt with you secured in docking clamps. You survived this run.'']
             good
         else
           addEvent
             (r\<lparr>status := lost,
                outcomeReason := ''Freighter cleared the belt while you were undocked. You were left in the rocks.''\<rparr>)
             [Lit ''Freighter cleared the belt while you were undocked. You were left in the rocks.'']
             alert)
      else r)"

definition stepRuntime :: "GameRuntime \<Rightarrow> real \<Rightarrow> ControlInput \<Rightarrow> StepResult" where
  "stepRuntime r dtRaw controlInput =
     (let ks = keys controlInput
      in if status r \<noteq> active then Returned (updatePrevKeys r ks)
         else
           (let dt = min dtRaw 0.05;
                r1 = r\<lparr>elapsed := elapsed r + dt,
                        missionSeconds := missionSeconds r - dt * countdownRate r,
                        drillActive := False\<rparr>;
                r2 = applyFreighterDockActions (updateFreighterTransit r1) ks;
                r3 = (if docked r2 then updateDockedSystems r2 dt
                      else launchWeaponShot
                             (launchCargoShot
                                (moveGrabbedAsteroid
                                   (updateGrabber (updatePlayerControlWithInput r2 dt controlInput) ks)
                                   dt)
                                ks)
                             ks);
                r4 = r3\<lparr>asteroids := map (\<lambda>asteroid. updateAsteroidBody asteroid dt) (asteroids r3)\<rparr>;
                r5 = resolveAsteroidPirateImpacts (resolveAsteroidCollisions r4) dt;
                drilled = (if \<not> docked r5 then
                             updateDrill
                               (resolvePlayerPirateImpact (resolvePlayerAsteroidImpacts r5 dt) dt)
                               dt ks
                           else Returned r5)
            in case drilled of
                 Thrown r6 \<Rightarrow> Thrown r6
               | Returned r6 \<Rightarrow>
                   Returned
                     (updatePrevKeys
                        (evaluateMissionOutcome (updatePirate (updateCargoShots r6 dt) dt)) ks)))"

text \<open>
  A run: \<^verbatim>\<open>createRuntime\<close>, then one \<^verbatim>\<open>stepRuntime\<close> call per recorded pair of time
  step and input, each on the runtime the previous call left behind (also when that
  call ended in the TypeError).
\<close>

fun runSteps :: "GameRuntime \<Rightarrow> (real \<times> ControlInput) list \<Rightarrow> GameRuntime" where
  "runSteps r [] = r"
| "runSteps r ((dt, input) # rest) = runSteps (stateOf (stepRuntime r dt input)) rest"


section \<open>Properties of a new run\<close>

text \<open>The default argument \<^verbatim>\<open>modifiers = {}\<close> of \<^verbatim>\<open>createRuntime\<close>.\<close>

definition noModifiers :: RunModifiers where
  "noModifiers = \<lparr>m_grabberRange = None, m_thrusterMultiplier = None, m_drillMultiplier = None,
     m_maxHull = None, m_cargoCapacity = None, m_weaponAmmo = None, m_weaponDamage = None,
     m_rammerDamageMultiplier = None, m_rammerSelfDamageMultiplier = None,
     m_pirateEncounterChance = None\<rparr>"

lemma finiteNumber_Some [simp]: "finiteNumber v = Some x \<longleftrightarrow> v = Number x"
  by (cases v) simp_all

lemma finiteValues_Some:
  assumes "finiteValues v = Some n"
  shows "v_pirateEncounterChance v = Number (v_pirateEncounterChance n)"
    "v_thrusterMultiplier v = Number (v_thrusterMultiplier n)"
    "v_drillMultiplier v = Number (v_drillMultiplier n)"
    "v_maxHull v = Number (v_maxHull n)"
    "v_grabberRange v = Number (v_grabberRange n)"
    "v_cargoCapacity v = Number (v_cargoCapacity n)"
    "v_weaponAmmo v = Number (v_weaponAmmo n)"
    "v_weaponDamage v = Number (v_weaponDamage n)"
    "v_rammerDamageMultiplier v = Number (v_rammerDamageMultiplier n)"
    "v_rammerSelfDamageMultiplier v = Number (v_rammerSelfDamageMultiplier n)"
  using assms by (auto simp: finiteValues_def bind_eq_Some_conv)

lemma newRuntime_fields:
  "status (newRuntime seed n) = active"
  "pirateState (newRuntime seed n) = quiet"
  "docked (newRuntime seed n) = False"
  "playerHull (newRuntime seed n) = v_maxHull n"
  "maxHull (newRuntime seed n) = v_maxHull n"
  "cargoCapacity (newRuntime seed n) = v_cargoCapacity n"
  "cargoUsed (newRuntime seed n) = 0"
  "cargoValue (newRuntime seed n) = 0"
  "cargoBins (newRuntime seed n) = createCargoBins"
  "weaponAmmo (newRuntime seed n) = v_weaponAmmo n"
  "weaponMaxAmmo (newRuntime seed n) = v_weaponAmmo n"
  "weaponDamage (newRuntime seed n) = v_weaponDamage n"
  "grabberRange (newRuntime seed n) = v_grabberRange n"
  "thrusterMultiplier (newRuntime seed n) = v_thrusterMultiplier n"
  "drillMultiplier (newRuntime seed n) = v_drillMultiplier n"
  "rammerDamageMultiplier (newRuntime seed n) = v_rammerDamageMultiplier n"
  "rammerSelfDamageMultiplier (newRuntime seed n) = v_rammerSelfDamageMultiplier n"
  "runId (newRuntime seed n) = seed"
  "prevKeys (newRuntime seed n) = Map.empty"
  "cargoFullWarned (newRuntime seed n) = False"
  "missionSeconds (newRuntime seed n) = TOTAL_MISSION_SECONDS"
  "cargoShots (newRuntime seed n) = []"
  by (simp_all add: newRuntime_def addEvent_def Let_def split_def)

lemma createRuntime_Some:
  assumes "createRuntime seed m = Some r"
  obtains n where "finiteValues (runValues m) = Some n" "r = newRuntime seed n"
  using assms by (auto simp: createRuntime_def)

lemma Math_max_Number:
  "toNumber v = NaN \<Longrightarrow> Math_max (Number a) v = NaN"
  "Math_max (Number a) (Number x) = Number (max a x)"
  "Math_max (Number a) Infinity = Infinity"
  "Math_max (Number a) NegInfinity = Number a"
  by (auto simp: Math_max_def)

lemma Math_min_Number:
  "toNumber v = NaN \<Longrightarrow> Math_min (Number a) v = NaN"
  "Math_min (Number a) (Number x) = Number (min a x)"
  "Math_min (Number a) Infinity = Number a"
  "Math_min (Number a) NegInfinity = NegInfinity"
  by (auto simp: Math_min_def)

lemma MathUtils_clamp_cases:
  "toNumber v = NaN \<Longrightarrow> MathUtils_clamp v lo hi = NaN"
  "MathUtils_clamp (Number x) lo hi = Number (clamp x lo hi)"
  "MathUtils_clamp Infinity lo hi = Number (max lo hi)"
  "MathUtils_clamp NegInfinity lo hi = Number lo"
  by (simp_all add: MathUtils_clamp_def Math_max_Number Math_min_Number clamp_def)

lemma toNumber_cases:
  "toNumber v = NaN \<or> v = NegInfinity \<or> v = Infinity \<or> (\<exists>x. v = Number x)"
  by (cases v) simp_all

lemmas BASE_defs = BASE_GRABBER_RANGE_def BASE_THRUSTER_MULTIPLIER_def BASE_DRILL_MULTIPLIER_def
  BASE_MAX_HULL_def BASE_CARGO_CAPACITY_def BASE_WEAPON_AMMO_def BASE_WEAPON_DAMAGE_def
  BASE_RAMMER_DAMAGE_MULTIPLIER_def BASE_RAMMER_SELF_DAMAGE_MULTIPLIER_def
  BASE_PIRATE_ENCOUNTER_CHANCE_def

text \<open>What it takes to evaluate \<^verbatim>\<open>createRuntime\<close> on given modifiers.\<close>

lemmas createRuntime_eval = createRuntime_def runValues_def finiteValues_def noModifiers_def
  orDefault_def MathUtils_clamp_cases Math_max_Number clamp_def BASE_defs

text \<open>The run with no modifiers.\<close>

lemma createRuntime_default:
  "createRuntime seed noModifiers =
     Some (newRuntime seed \<lparr>v_pirateEncounterChance = 1, v_thrusterMultiplier = 1,
       v_drillMultiplier = 1, v_maxHull = 100, v_grabberRange = 7.5, v_cargoCapacity = 130,
       v_weaponAmmo = 0, v_weaponDamage = 0, v_rammerDamageMultiplier = 1,
       v_rammerSelfDamageMultiplier = 1\<rparr>)"
  by (simp add: createRuntime_eval)

lemma default_run_fields:
  "cargoCapacity (the (createRuntime seed noModifiers)) = 130"
  "maxHull (the (createRuntime seed noModifiers)) = 100"
  "playerHull (the (createRuntime seed noModifiers)) = 100"
  "weaponAmmo (the (createRuntime seed noModifiers)) = 0"
  "weaponMaxAmmo (the (createRuntime seed noModifiers)) = 0"
  "cargoUsed (the (createRuntime seed noModifiers)) = 0"
  "cargoValue (the (createRuntime seed noModifiers)) = 0"
  "cargoBins (the (createRuntime seed noModifiers)) = createCargoBins"
  "cargoFullWarned (the (createRuntime seed noModifiers)) = False"
  "status (the (createRuntime seed noModifiers)) = active"
  "pirateState (the (createRuntime seed noModifiers)) = quiet"
  "docked (the (createRuntime seed noModifiers)) = False"
  "prevKeys (the (createRuntime seed noModifiers)) = Map.empty"
  "cargoShots (the (createRuntime seed noModifiers)) = []"
  "runId (the (createRuntime seed noModifiers)) = seed"
  by (simp_all add: createRuntime_default newRuntime_fields)

text \<open>
  Claim C7, as stated: \<^verbatim>\<open>createRuntime\<close> clamps every modifier to a sane range. It does
  not: a negative maximum hull, cargo capacity, ammunition count or grabber range is
  copied into the runtime as it is; and a modifier that is \<^verbatim>\<open>NaN\<close> or \<^verbatim>\<open>undefined\<close> is not
  brought into a range either, whether it goes through \<^verbatim>\<open>Math.max\<close> or is copied.
\<close>

theorem modifier_clamping_counterexample:
  "map_option maxHull (createRuntime 0 (noModifiers\<lparr>m_maxHull := Some (Number (-5))\<rparr>)) = Some (-5) \<and>
   map_option playerHull (createRuntime 0 (noModifiers\<lparr>m_maxHull := Some (Number (-5))\<rparr>))
     = Some (-5) \<and>
   map_option cargoCapacity
     (createRuntime 0 (noModifiers\<lparr>m_cargoCapacity := Some (Number (-1))\<rparr>)) = Some (-1) \<and>
   map_option weaponAmmo (createRuntime 0 (noModifiers\<lparr>m_weaponAmmo := Some (Number (-3))\<rparr>))
     = Some (-3) \<and>
   map_option grabberRange
     (createRuntime 0 (noModifiers\<lparr>m_grabberRange := Some (Number (-2))\<rparr>)) = Some (-2) \<and>
   v_rammerDamageMultiplier (runValues (noModifiers\<lparr>m_rammerDamageMultiplier := Some NaN\<rparr>))
     = NaN \<and>
   v_maxHull (runValues (noModifiers\<lparr>m_maxHull := Some Undefined\<rparr>)) = Undefined"
  by (simp add: createRuntime_eval newRuntime_fields)

text \<open>
  Claim C7, amended: \<^verbatim>\<open>createRuntime\<close> clamps three modifiers only, and those only when
  the value is a number. For a value other than \<^verbatim>\<open>NaN\<close> and \<^verbatim>\<open>undefined\<close>, the rammer
  damage multiplier comes out at least 1 (or infinite), the rammer self-damage multiplier
  in \<open>[0.2, 1]\<close> and the pirate encounter chance in \<open>[0, 1]\<close>; for \<^verbatim>\<open>NaN\<close> or \<^verbatim>\<open>undefined\<close>
  each of the three comes out \<^verbatim>\<open>NaN\<close>. Grabber range, thruster and drill multipliers,
  maximum hull (and the initial hull), cargo capacity, weapon ammunition (and its maximum)
  and weapon damage are the caller's values whatever they hold, or the defaults where the
  key is absent. So in a runtime made of finite numbers the two rammer multipliers are in
  their ranges and the other fields hold the modifiers unchanged.
\<close>

theorem modifier_clamping_amended:
  "(toNumber (orDefault (m_rammerDamageMultiplier m) BASE_RAMMER_DAMAGE_MULTIPLIER) = NaN \<longrightarrow>
      v_rammerDamageMultiplier (runValues m) = NaN) \<and>
   (toNumber (orDefault (m_rammerDamageMultiplier m) BASE_RAMMER_DAMAGE_MULTIPLIER) \<noteq> NaN \<longrightarrow>
      v_rammerDamageMultiplier (runValues m) = Infinity \<or>
      (\<exists>x. v_rammerDamageMultiplier (runValues m) = Number x \<and> 1 \<le> x)) \<and>
   (toNumber (orDefault (m_rammerSelfDamageMultiplier m) BASE_RAMMER_SELF_DAMAGE_MULTIPLIER) = NaN
      \<longrightarrow> v_rammerSelfDamageMultiplier (runValues m) = NaN) \<and>
   (toNumber (orDefault (m_rammerSelfDamageMultiplier m) BASE_RAMMER_SELF_DAMAGE_MULTIPLIER) \<noteq> NaN
      \<longrightarrow> (\<exists>x. v_rammerSelfDamageMultiplier (runValues m) = Number x \<and> 0.2 \<le> x \<and> x \<le> 1)) \<and>
   (toNumber (orDefault (m_pirateEncounterChance m) BASE_PIRATE_ENCOUNTER_CHANCE) = NaN
      \<longrightarrow> v_pirateEncounterChance (runValues m) = NaN) \<and>
   (toNumber (orDefault (m_pirateEncounterChance m) BASE_PIRATE_ENCOUNTER_CHANCE) \<noteq> NaN
      \<longrightarrow> (\<exists>x. v_pirateEncounterChance (runValues m) = Number x \<and> 0 \<le> x \<and> x \<le> 1)) \<and>
   v_grabberRange (runValues m) = orDefault (m_grabberRange m) BASE_GRABBER_RANGE \<and>
   v_thrusterMultiplier (runValues m) =
     orDefault (m_thrusterMultiplier m) BASE_THRUSTER_MULTIPLIER \<and>
   v_drillMultiplier (runValues m) = orDefault (m_drillMultiplier m) BASE_DRILL_MULTIPLIER \<and>
   v_maxHull (runValues m) = orDefault (m_maxHull m) BASE_MAX_HULL \<and>
   v_cargoCapacity (runValues m) = orDefault (m_cargoCapacity m) BASE_CARGO_CAPACITY \<and>
   v_weaponAmmo (runValues m) = orDefault (m_weaponAmmo m) BASE_WEAPON_AMMO \<and>
   v_weaponDamage (runValues m) = orDefault (m_weaponDamage m) BASE_WEAPON_DAMAGE \<and>
   (createRuntime seed m = Some r \<longrightarrow>
      1 \<le> rammerDamageMultiplier r \<and>
      0.2 \<le> rammerSelfDamageMultiplier r \<and> rammerSelfDamageMultiplier r \<le> 1 \<and>
      Number (grabberRange r) = orDefault (m_grabberRange m) BASE_GRABBER_RANGE \<and>
      Number (thrusterMultiplier r) =
        orDefault (m_thrusterMultiplier m) BASE_THRUSTER_MULTIPLIER \<and>
      Number (drillMultiplier r) = orDefault (m_drillMultiplier m) BASE_DRILL_MULTIPLIER \<and>
      Number (maxHull r) = orDefault (m_maxHull m) BASE_MAX_HULL \<and>
      Number (playerHull r) = orDefault (m_maxHull m) BASE_MAX_HULL \<and>
      Number (cargoCapacity r) = orDefault (m_cargoCapacity m) BASE_CARGO_CAPACITY \<and>
      Number (weaponAmmo r) = orDefault (m_weaponAmmo m) BASE_WEAPON_AMMO \<and>
      Number (weaponMaxAmmo r) = orDefault (m_weaponAmmo m) BASE_WEAPON_AMMO \<and>
      Number (weaponDamage r) = orDefault (m_weaponDamage m) BASE_WEAPON_DAMAGE)"
proof -
  have rammer: "v_rammerDamageMultiplier (runValues m) = NaN"
    if "toNumber (orDefault (m_rammerDamageMultiplier m) BASE_RAMMER_DAMAGE_MULTIPLIER) = NaN"
    using that by (simp add: runValues_def Math_max_Number)
  have rammer': "v_rammerDamageMultiplier (runValues m) = Infinity \<or>
      (\<exists>x. v_rammerDamageMultiplier (runValues m) = Number x \<and> 1 \<le> x)"
    if "toNumber (orDefault (m_rammerDamageMultiplier m) BASE_RAMMER_DAMAGE_MULTIPLIER) \<noteq> NaN"
    using that
      toNumber_cases [of "orDefault (m_rammerDamageMultiplier m) BASE_RAMMER_DAMAGE_MULTIPLIER"]
    by (auto simp: runValues_def Math_max_Number)
  have clamped: "\<exists>x. MathUtils_clamp v lo hi = Number x \<and> lo \<le> x \<and> x \<le> hi"
    if "toNumber v \<noteq> NaN" "lo \<le> hi" for v lo hi
    using that toNumber_cases [of v] by (auto simp: MathUtils_clamp_cases clamp_def)
  have self: "v_rammerSelfDamageMultiplier (runValues m) = NaN"
    if "toNumber (orDefault (m_rammerSelfDamageMultiplier m) BASE_RAMMER_SELF_DAMAGE_MULTIPLIER)
          = NaN"
    using that by (simp add: runValues_def MathUtils_clamp_cases)
  have self': "\<exists>x. v_rammerSelfDamageMultiplier (runValues m) = Number x \<and> 0.2 \<le> x \<and> x \<le> 1"
    if "toNumber (orDefault (m_rammerSelfDamageMultiplier m) BASE_RAMMER_SELF_DAMAGE_MULTIPLIER)
          \<noteq> NaN"
    using clamped [OF that, of "0.2" 1] by (simp add: runValues_def)
  have chance: "v_pirateEncounterChance (runValues m) = NaN"
    if "toNumber (orDefault (m_pirateEncounterChance m) BASE_PIRATE_ENCOUNTER_CHANCE) = NaN"
    using that by (simp add: runValues_def MathUtils_clamp_cases)
  have chance': "\<exists>x. v_pirateEncounterChance (runValues m) = Number x \<and> 0 \<le> x \<and> x \<le> 1"
    if "toNumber (orDefault (m_pirateEncounterChance m) BASE_PIRATE_ENCOUNTER_CHANCE) \<noteq> NaN"
    using clamped [OF that, of 0 1] by (simp add: runValues_def)
  have copied: "v_grabberRange (runValues m) = orDefault (m_grabberRange m) BASE_GRABBER_RANGE"
    "v_thrusterMultiplier (runValues m) =
       orDefault (m_thrusterMultiplier m) BASE_THRUSTER_MULTIPLIER"
    "v_drillMultiplier (runValues m) = orDefault (m_drillMultiplier m) BASE_DRILL_MULTIPLIER"
    "v_maxHull (runValues m) = orDefault (m_maxHull m) BASE_MAX_HULL"
    "v_cargoCapacity (runValues m) = orDefault (m_cargoCapacity m) BASE_CARGO_CAPACITY"
    "v_weaponAmmo (runValues m) = orDefault (m_weaponAmmo m) BASE_WEAPON_AMMO"
    "v_weaponDamage (runValues m) = orDefault (m_weaponDamage m) BASE_WEAPON_DAMAGE"
    by (simp_all add: runValues_def)
  have run: "1 \<le> rammerDamageMultiplier r \<and>
      0.2 \<le> rammerSelfDamageMultiplier r \<and> rammerSelfDamageMultiplier r \<le> 1 \<and>
      Number (grabberRange r) = orDefault (m_grabberRange m) BASE_GRABBER_RANGE \<and>
      Number (thrusterMultiplier r) =
        orDefault (m_thrusterMultiplier m) BASE_THRUSTER_MULTIPLIER \<and>
      Number (drillMultiplier r) = orDefault (m_drillMultiplier m) BASE_DRILL_MULTIPLIER \<and>
      Number (maxHull r) = orDefault (m_maxHull m) BASE_MAX_HULL \<and>
      Number (playerHull r) = orDefault (m_maxHull m) BASE_MAX_HULL \<and>
      Number (cargoCapacity r) = orDefault (m_cargoCapacity m) BASE_CARGO_CAPACITY \<and>
      Number (weaponAmmo r) = orDefault (m_weaponAmmo m) BASE_WEAPON_AMMO \<and>
      Number (weaponMaxAmmo r) = orDefault (m_weaponAmmo m) BASE_WEAPON_AMMO \<and>
      Number (weaponDamage r) = orDefault (m_weaponDamage m) BASE_WEAPON_DAMAGE"
    if some: "createRuntime seed m = Some r"
  proof -
    from some obtain n where n: "finiteValues (runValues m) = Some n" "r = newRuntime seed n"
      by (rule createRuntime_Some)
    note v = finiteValues_Some [OF n(1)]
    have "toNumber (orDefault (m_rammerDamageMultiplier m) BASE_RAMMER_DAMAGE_MULTIPLIER) \<noteq> NaN"
      using rammer v(9) by auto
    from rammer' [OF this] v(9) have a: "1 \<le> v_rammerDamageMultiplier n" by auto
    have "toNumber (orDefault (m_rammerSelfDamageMultiplier m)
            BASE_RAMMER_SELF_DAMAGE_MULTIPLIER) \<noteq> NaN"
      using self v(10) by auto
    from self' [OF this] v(10)
    have b: "0.2 \<le> v_rammerSelfDamageMultiplier n" "v_rammerSelfDamageMultiplier n \<le> 1"
      by auto
    show ?thesis
      using a b v(2-8) copied by (simp add: n(2) newRuntime_fields)
  qed
  show ?thesis
    using rammer rammer' self self' chance chance' copied run by blast
qed

text \<open>
  The amended claim at out-of-range numbers (three are clamped, the hull is not) and at
  \<^verbatim>\<open>undefined\<close> and \<^verbatim>\<open>NaN\<close>, which give \<^verbatim>\<open>NaN\<close> and no runtime of finite numbers.
\<close>

theorem modifier_clamping_amended_witness:
  "map_option rammerDamageMultiplier (createRuntime 0 (noModifiers\<lparr>m_rammerDamageMultiplier := Some (Number (-4)),
        m_rammerSelfDamageMultiplier := Some (Number 9),
        m_pirateEncounterChance := Some (Number 3), m_maxHull := Some (Number (-5))\<rparr>)) = Some 1 \<and>
   map_option rammerSelfDamageMultiplier (createRuntime 0 (noModifiers\<lparr>m_rammerDamageMultiplier := Some (Number (-4)),
        m_rammerSelfDamageMultiplier := Some (Number 9),
        m_pirateEncounterChance := Some (Number 3), m_maxHull := Some (Number (-5))\<rparr>)) = Some 1 \<and>
   v_pirateEncounterChance (runValues (noModifiers\<lparr>m_rammerDamageMultiplier := Some (Number (-4)),
        m_rammerSelfDamageMultiplier := Some (Number 9),
        m_pirateEncounterChance := Some (Number 3), m_maxHull := Some (Number (-5))\<rparr>)) = Number 1 \<and>
   map_option maxHull (createRuntime 0 (noModifiers\<lparr>m_rammerDamageMultiplier := Some (Number (-4)),
        m_rammerSelfDamageMultiplier := Some (Number 9),
        m_pirateEncounterChance := Some (Number 3), m_maxHull := Some (Number (-5))\<rparr>)) = Some (-5) \<and>
   v_rammerDamageMultiplier (runValues (noModifiers\<lparr>m_rammerDamageMultiplier := Some Undefined,
        m_rammerSelfDamageMultiplier := Some NaN\<rparr>)) = NaN \<and>
   v_rammerSelfDamageMultiplier (runValues (noModifiers\<lparr>m_rammerDamageMultiplier := Some Undefined,
        m_rammerSelfDamageMultiplier := Some NaN\<rparr>)) = NaN \<and>
   createRuntime 0 (noModifiers\<lparr>m_rammerDamageMultiplier := Some Undefined,
        m_rammerSelfDamageMultiplier := Some NaN\<rparr>) = None"
  using modifier_clamping_amended [of "noModifiers\<lparr>m_rammerDamageMultiplier := Some (Number (-4)),
        m_rammerSelfDamageMultiplier := Some (Number 9),
        m_pirateEncounterChance := Some (Number 3), m_maxHull := Some (Number (-5))\<rparr>" 0
          "the (createRuntime 0 (noModifiers\<lparr>m_rammerDamageMultiplier := Some (Number (-4)),
        m_rammerSelfDamageMultiplier := Some (Number 9),
        m_pirateEncounterChance := Some (Number 3), m_maxHull := Some (Number (-5))\<rparr>))"]
    modifier_clamping_amended [of "noModifiers\<lparr>m_rammerDamageMultiplier := Some Undefined,
        m_rammerSelfDamageMultiplier := Some NaN\<rparr>"]
  by (simp add: createRuntime_eval newRuntime_fields)

section \<open>Properties of the outcome\<close>


lemma prevKeys_fold:
  "foldl (\<lambda>pk code. pk(code \<mapsto> f code)) pk0 cs c = (if c \<in> set cs then Some (f c) else pk0 c)"
  by (induction cs arbitrary: pk0) auto

text \<open>
  Claim C5: once the status is \<open>won\<close> or \<open>lost\<close>, a \<^verbatim>\<open>stepRuntime\<close> call with any time
  step and any input returns the runtime with no field changed but \<open>prevKeys\<close>, which
  records for each control code whether its key is down and keeps every other entry.
\<close>


theorem terminal_outcome_freeze:
  assumes "status r = won \<or> status r = lost"
  shows "stepRuntime r dt input =
           Returned (r\<lparr>prevKeys := prevKeys (stateOf (stepRuntime r dt input))\<rparr>)
         \<and> (\<forall>code. prevKeys (stateOf (stepRuntime r dt input)) code =
               (if code \<in> set CONTROL_CODES then Some (isDown (keys input) code)
                else prevKeys r code))"
  using assms by (auto simp: stepRuntime_def updatePrevKeys_def prevKeys_fold)

text \<open>A won run stepped with the throttle key down.\<close>


theorem terminal_outcome_freeze_witness:
  "stepRuntime ((the (createRuntime 7 noModifiers))\<lparr>status := won\<rparr>) 1 \<lparr>keys = [''KeyW'' \<mapsto> True]\<rparr> =
     Returned ((the (createRuntime 7 noModifiers))
       \<lparr>status := won,
        prevKeys := prevKeys (stateOf (stepRuntime ((the (createRuntime 7 noModifiers))\<lparr>status := won\<rparr>) 1
                                         \<lparr>keys = [''KeyW'' \<mapsto> True]\<rparr>))\<rparr>)
   \<and> prevKeys (stateOf (stepRuntime ((the (createRuntime 7 noModifiers))\<lparr>status := won\<rparr>) 1
                          \<lparr>keys = [''KeyW'' \<mapsto> True]\<rparr>)) ''KeyW'' = Some True
   \<and> prevKeys (stateOf (stepRuntime ((the (createRuntime 7 noModifiers))\<lparr>status := won\<rparr>) 1
                          \<lparr>keys = [''KeyW'' \<mapsto> True]\<rparr>)) ''KeyS'' = Some False
   \<and> prevKeys (stateOf (stepRuntime ((the (createRuntime 7 noModifiers))\<lparr>status := won\<rparr>) 1
                          \<lparr>keys = [''KeyW'' \<mapsto> True]\<rparr>)) ''KeyZ'' = None"
  using terminal_outcome_freeze [of "(the (createRuntime 7 noModifiers))\<lparr>status := won\<rparr>" 1
          "\<lparr>keys = [''KeyW'' \<mapsto> True]\<rparr>"]
  by (simp add: default_run_fields CONTROL_CODES_def isDown_def)

text \<open>
  Claim C6: when \<^verbatim>\<open>evaluateMissionOutcome\<close> finds the status \<open>active\<close>, a hull at or
  below 0 sets it to \<open>lost\<close>; otherwise a countdown at or below 0 sets it to \<open>won\<close> when
  docked and to \<open>lost\<close> when undocked. In \<^verbatim>\<open>updatePirate\<close>, an incoming pirate whose
  boarding timer runs out in this step becomes \<open>boarding\<close> and the status becomes \<open>lost\<close>,
  whatever the countdown says, and the outcome evaluation that follows leaves both.
\<close>


theorem mission_outcome_rules:
  "(status r = active \<and> playerHull r \<le> 0 \<longrightarrow> status (evaluateMissionOutcome r) = lost) \<and>
   (status r = active \<and> 0 < playerHull r \<and> missionSeconds r \<le> 0 \<and> docked r \<longrightarrow>
      status (evaluateMissionOutcome r) = won) \<and>
   (status r = active \<and> 0 < playerHull r \<and> missionSeconds r \<le> 0 \<and> \<not> docked r \<longrightarrow>
      status (evaluateMissionOutcome r) = lost) \<and>
   (pirateState r = incoming \<and> pirateBoardTimer r = Finite t \<and> t \<le> dt \<longrightarrow>
      pirateState (updatePirate r dt) = boarding \<and> status (updatePirate r dt) = lost \<and>
      status (evaluateMissionOutcome (updatePirate r dt)) = lost \<and>
      pirateState (evaluateMissionOutcome (updatePirate r dt)) = boarding)"
proof -
  have outcome: "status (evaluateMissionOutcome s) =
      (if status s \<noteq> active then status s
       else if playerHull s \<le> 0 then lost
       else if missionSeconds s \<le> 0 then (if docked s then won else lost)
       else active)" for s
    by (simp add: evaluateMissionOutcome_def addEvent_def Let_def)
  have kept: "status s = lost \<Longrightarrow> evaluateMissionOutcome s = s" for s
    by (simp add: evaluateMissionOutcome_def)
  have pirate: "pirateState (updatePirate r dt) = boarding \<and> status (updatePirate r dt) = lost"
    if "pirateState r = incoming" "pirateBoardTimer r = Finite t" "t \<le> dt"
    using that by (simp add: updatePirate_def addEvent_def Let_def)
  show ?thesis
    using pirate by (auto simp: outcome kept)
qed

text \<open>
  The four rules on runs that meet their conditions; the last is docked with the
  countdown over, and is lost to the boarding all the same.
\<close>


theorem mission_outcome_rules_witness:
  "status (evaluateMissionOutcome ((the (createRuntime 7 noModifiers))\<lparr>playerHull := 0\<rparr>)) = lost \<and>
   status (evaluateMissionOutcome
             ((the (createRuntime 7 noModifiers))\<lparr>missionSeconds := 0, docked := True\<rparr>)) = won \<and>
   status (evaluateMissionOutcome ((the (createRuntime 7 noModifiers))\<lparr>missionSeconds := 0\<rparr>)) = lost \<and>
   pirateState (updatePirate ((the (createRuntime 7 noModifiers))
                   \<lparr>pirateState := incoming, pirateBoardTimer := Finite 0.01,
                    missionSeconds := 0, docked := True\<rparr>) 0.05) = boarding \<and>
   status (evaluateMissionOutcome (updatePirate ((the (createRuntime 7 noModifiers))
                   \<lparr>pirateState := incoming, pirateBoardTimer := Finite 0.01,
                    missionSeconds := 0, docked := True\<rparr>) 0.05)) = lost"
  using mission_outcome_rules [of "(the (createRuntime 7 noModifiers))\<lparr>playerHull := 0\<rparr>" 0 0]
    mission_outcome_rules
      [of "(the (createRuntime 7 noModifiers))\<lparr>missionSeconds := 0, docked := True\<rparr>" 0 0]
    mission_outcome_rules [of "(the (createRuntime 7 noModifiers))\<lparr>missionSeconds := 0\<rparr>" 0 0]
    mission_outcome_rules
      [of "(the (createRuntime 7 noModifiers))
             \<lparr>pirateState := incoming, pirateBoardTimer := Finite 0.01,
              missionSeconds := 0, docked := True\<rparr>" "0.01" "0.05"]
  by (simp add: default_run_fields)

section \<open>Properties of the cargo functions\<close>


lemma hd_insertBy:
  "hd (insertBy cmp x ys) = (case ys of [] \<Rightarrow> x | y # zs \<Rightarrow> if cmp x y \<le> 0 then x else y)"
  by (cases ys) simp_all














lemma createCargoBins_units: "units (createCargoBins k) = 0"
  by (simp add: createCargoBins_def)


text \<open>The units \<^verbatim>\<open>addCargo\<close> accepts.\<close>

definition acceptedUnits :: "GameRuntime \<Rightarrow> ResourceId \<Rightarrow> real \<Rightarrow> real" where
  "acceptedUnits r k n =
     min n (of_int \<lfloor>max 0 (cargoCapacity r - cargoUsed r) / res_volume (RESOURCES k)\<rfloor>)"







section \<open>The cargo-full latch\<close>




lemma rngNext_range: "0 \<le> fst (rngNext g)" "fst (rngNext g) < 1"
proof -
  have "unat (1664525 * g + 1013904223) < 2 ^ LENGTH(32)"
    by (rule unsigned_less)
  then have "real (unat (1664525 * g + 1013904223)) < 4294967296"
    by (simp del: of_nat_unat)
  then show "0 \<le> fst (rngNext g)" "fst (rngNext g) < 1"
    by (simp_all add: rngNext_def Let_def del: of_nat_unat)
qed

lemma randomRange_range:
  assumes "lo \<le> hi"
  shows "lo \<le> fst (randomRange g lo hi)" "fst (randomRange g lo hi) \<le> hi"
proof -
  have "0 \<le> (hi - lo) * fst (rngNext g)"
    using assms rngNext_range(1) [of g] by simp
  moreover have "(hi - lo) * fst (rngNext g) \<le> (hi - lo) * 1"
    using assms rngNext_range(2) [of g] by (intro mult_left_mono) simp_all
  ultimately show "lo \<le> fst (randomRange g lo hi)" "fst (randomRange g lo hi) \<le> hi"
    by (simp_all add: randomRange_def split_def Let_def)
qed



section \<open>What each function leaves alone\<close>

text \<open>
  The invariants below are about the cargo, the hull, the pirate state, the ammunition,
  the status and the docking flag. For every function of the step, the fields among these
  (and the asteroid array) that it never writes.
\<close>

lemma addEvent_frame [simp]:
  "cargoBins (addEvent r msg t) = cargoBins r"
  "cargoUsed (addEvent r msg t) = cargoUsed r"
  "cargoValue (addEvent r msg t) = cargoValue r"
  "cargoCapacity (addEvent r msg t) = cargoCapacity r"
  "playerHull (addEvent r msg t) = playerHull r"
  "maxHull (addEvent r msg t) = maxHull r"
  "rammerSelfDamageMultiplier (addEvent r msg t) = rammerSelfDamageMultiplier r"
  "pirateState (addEvent r msg t) = pirateState r"
  "weaponAmmo (addEvent r msg t) = weaponAmmo r"
  "weaponMaxAmmo (addEvent r msg t) = weaponMaxAmmo r"
  "status (addEvent r msg t) = status r"
  "docked (addEvent r msg t) = docked r"
  "asteroids (addEvent r msg t) = asteroids r"
  by (simp_all add: addEvent_def Let_def)

lemma updatePrevKeys_frame [simp]:
  "cargoBins (updatePrevKeys r ks) = cargoBins r"
  "cargoUsed (updatePrevKeys r ks) = cargoUsed r"
  "cargoValue (updatePrevKeys r ks) = cargoValue r"
  "cargoCapacity (updatePrevKeys r ks) = cargoCapacity r"
  "playerHull (updatePrevKeys r ks) = playerHull r"
  "maxHull (updatePrevKeys r ks) = maxHull r"
  "rammerSelfDamageMultiplier (updatePrevKeys r ks) = rammerSelfDamageMultiplier r"
  "pirateState (updatePrevKeys r ks) = pirateState r"
  "weaponAmmo (updatePrevKeys r ks) = weaponAmmo r"
  "weaponMaxAmmo (updatePrevKeys r ks) = weaponMaxAmmo r"
  "status (updatePrevKeys r ks) = status r"
  "docked (updatePrevKeys r ks) = docked r"
  "asteroids (updatePrevKeys r ks) = asteroids r"
  by (simp_all add: updatePrevKeys_def)

lemma updateFreighterTransit_frame [simp]:
  "cargoBins (updateFreighterTransit r) = cargoBins r"
  "cargoUsed (updateFreighterTransit r) = cargoUsed r"
  "cargoValue (updateFreighterTransit r) = cargoValue r"
  "cargoCapacity (updateFreighterTransit r) = cargoCapacity r"
  "playerHull (updateFreighterTransit r) = playerHull r"
  "maxHull (updateFreighterTransit r) = maxHull r"
  "rammerSelfDamageMultiplier (updateFreighterTransit r) = rammerSelfDamageMultiplier r"
  "pirateState (updateFreighterTransit r) = pirateState r"
  "weaponAmmo (updateFreighterTransit r) = weaponAmmo r"
  "weaponMaxAmmo (updateFreighterTransit r) = weaponMaxAmmo r"
  "status (updateFreighterTransit r) = status r"
  "docked (updateFreighterTransit r) = docked r"
  "asteroids (updateFreighterTransit r) = asteroids r"
  by (simp_all add: updateFreighterTransit_def Let_def)

lemma applyFreighterDockActions_frame [simp]:
  "cargoBins (applyFreighterDockActions r ks) = cargoBins r"
  "cargoUsed (applyFreighterDockActions r ks) = cargoUsed r"
  "cargoValue (applyFreighterDockActions r ks) = cargoValue r"
  "cargoCapacity (applyFreighterDockActions r ks) = cargoCapacity r"
  "playerHull (applyFreighterDockActions r ks) = playerHull r"
  "maxHull (applyFreighterDockActions r ks) = maxHull r"
  "rammerSelfDamageMultiplier (applyFreighterDockActions r ks) = rammerSelfDamageMultiplier r"
  "pirateState (applyFreighterDockActions r ks) = pirateState r"
  "weaponAmmo (applyFreighterDockActions r ks) = weaponAmmo r"
  "weaponMaxAmmo (applyFreighterDockActions r ks) = weaponMaxAmmo r"
  "status (applyFreighterDockActions r ks) = status r"
  "asteroids (applyFreighterDockActions r ks) = asteroids r"
  by (simp_all add: applyFreighterDockActions_def Let_def)

lemma clampPlayerToField_frame [simp]:
  "cargoBins (clampPlayerToField r) = cargoBins r"
  "cargoUsed (clampPlayerToField r) = cargoUsed r"
  "cargoValue (clampPlayerToField r) = cargoValue r"
  "cargoCapacity (clampPlayerToField r) = cargoCapacity r"
  "playerHull (clampPlayerToField r) = playerHull r"
  "maxHull (clampPlayerToField r) = maxHull r"
  "rammerSelfDamageMultiplier (clampPlayerToField r) = rammerSelfDamageMultiplier r"
  "pirateState (clampPlayerToField r) = pirateState r"
  "weaponAmmo (clampPlayerToField r) = weaponAmmo r"
  "weaponMaxAmmo (clampPlayerToField r) = weaponMaxAmmo r"
  "status (clampPlayerToField r) = status r"
  "docked (clampPlayerToField r) = docked r"
  "asteroids (clampPlayerToField r) = asteroids r"
  by (simp_all add: clampPlayerToField_def Let_def split_def)

lemma steerPlayer_frame [simp]:
  "cargoBins (steerPlayer r dt ks h) = cargoBins r"
  "cargoUsed (steerPlayer r dt ks h) = cargoUsed r"
  "cargoValue (steerPlayer r dt ks h) = cargoValue r"
  "cargoCapacity (steerPlayer r dt ks h) = cargoCapacity r"
  "playerHull (steerPlayer r dt ks h) = playerHull r"
  "maxHull (steerPlayer r dt ks h) = maxHull r"
  "rammerSelfDamageMultiplier (steerPlayer r dt ks h) = rammerSelfDamageMultiplier r"
  "pirateState (steerPlayer r dt ks h) = pirateState r"
  "weaponAmmo (steerPlayer r dt ks h) = weaponAmmo r"
  "weaponMaxAmmo (steerPlayer r dt ks h) = weaponMaxAmmo r"
  "status (steerPlayer r dt ks h) = status r"
  "docked (steerPlayer r dt ks h) = docked r"
  "asteroids (steerPlayer r dt ks h) = asteroids r"
  by (simp_all add: steerPlayer_def Let_def)

lemma applyThrottleKeys_frame [simp]:
  "cargoBins (applyThrottleKeys r ks) = cargoBins r"
  "cargoUsed (applyThrottleKeys r ks) = cargoUsed r"
  "cargoValue (applyThrottleKeys r ks) = cargoValue r"
  "cargoCapacity (applyThrottleKeys r ks) = cargoCapacity r"
  "playerHull (applyThrottleKeys r ks) = playerHull r"
  "maxHull (applyThrottleKeys r ks) = maxHull r"
  "rammerSelfDamageMultiplier (applyThrottleKeys r ks) = rammerSelfDamageMultiplier r"
  "pirateState (applyThrottleKeys r ks) = pirateState r"
  "weaponAmmo (applyThrottleKeys r ks) = weaponAmmo r"
  "weaponMaxAmmo (applyThrottleKeys r ks) = weaponMaxAmmo r"
  "status (applyThrottleKeys r ks) = status r"
  "docked (applyThrottleKeys r ks) = docked r"
  "asteroids (applyThrottleKeys r ks) = asteroids r"
  by (simp_all add: applyThrottleKeys_def Let_def)

lemma integrateFlight_frame [simp]:
  "cargoBins (integrateFlight r dt fwd h) = cargoBins r"
  "cargoUsed (integrateFlight r dt fwd h) = cargoUsed r"
  "cargoValue (integrateFlight r dt fwd h) = cargoValue r"
  "cargoCapacity (integrateFlight r dt fwd h) = cargoCapacity r"
  "playerHull (integrateFlight r dt fwd h) = playerHull r"
  "maxHull (integrateFlight r dt fwd h) = maxHull r"
  "rammerSelfDamageMultiplier (integrateFlight r dt fwd h) = rammerSelfDamageMultiplier r"
  "pirateState (integrateFlight r dt fwd h) = pirateState r"
  "weaponAmmo (integrateFlight r dt fwd h) = weaponAmmo r"
  "weaponMaxAmmo (integrateFlight r dt fwd h) = weaponMaxAmmo r"
  "status (integrateFlight r dt fwd h) = status r"
  "docked (integrateFlight r dt fwd h) = docked r"
  "asteroids (integrateFlight r dt fwd h) = asteroids r"
  by (simp_all add: integrateFlight_def Let_def)

lemma updatePlayerControlWithInput_frame [simp]:
  "cargoBins (updatePlayerControlWithInput r dt input) = cargoBins r"
  "cargoUsed (updatePlayerControlWithInput r dt input) = cargoUsed r"
  "cargoValue (updatePlayerControlWithInput r dt input) = cargoValue r"
  "cargoCapacity (updatePlayerControlWithInput r dt input) = cargoCapacity r"
  "playerHull (updatePlayerControlWithInput r dt input) = playerHull r"
  "maxHull (updatePlayerControlWithInput r dt input) = maxHull r"
  "rammerSelfDamageMultiplier (updatePlayerControlWithInput r dt input) = rammerSelfDamageMultiplier r"
  "pirateState (updatePlayerControlWithInput r dt input) = pirateState r"
  "weaponAmmo (updatePlayerControlWithInput r dt input) = weaponAmmo r"
  "weaponMaxAmmo (updatePlayerControlWithInput r dt input) = weaponMaxAmmo r"
  "status (updatePlayerControlWithInput r dt input) = status r"
  "docked (updatePlayerControlWithInput r dt input) = docked r"
  "asteroids (updatePlayerControlWithInput r dt input) = asteroids r"
  by (simp_all add: updatePlayerControlWithInput_def Let_def)

text \<open>The composition tables of the asteroids, in array order.\<close>

definition compositions :: "GameRuntime \<Rightarrow> (ResourceId \<times> real) list list" where
  "compositions r = map composition (asteroids r)"

lemma map_update_same: "f y = f (xs ! i) \<Longrightarrow> map f (xs[i := y]) = map f xs"
  by (induction xs arbitrary: i) (auto split: nat.splits)

lemma updateGrabber_frame [simp]:
  "cargoBins (updateGrabber r ks) = cargoBins r"
  "cargoUsed (updateGrabber r ks) = cargoUsed r"
  "cargoValue (updateGrabber r ks) = cargoValue r"
  "cargoCapacity (updateGrabber r ks) = cargoCapacity r"
  "playerHull (updateGrabber r ks) = playerHull r"
  "maxHull (updateGrabber r ks) = maxHull r"
  "rammerSelfDamageMultiplier (updateGrabber r ks) = rammerSelfDamageMultiplier r"
  "pirateState (updateGrabber r ks) = pirateState r"
  "weaponAmmo (updateGrabber r ks) = weaponAmmo r"
  "weaponMaxAmmo (updateGrabber r ks) = weaponMaxAmmo r"
  "status (updateGrabber r ks) = status r"
  "docked (updateGrabber r ks) = docked r"
  by (simp_all add: updateGrabber_def Let_def split: option.split prod.split)

lemma updateGrabber_compositions [simp]: "compositions (updateGrabber r ks) = compositions r"
  by (simp add: updateGrabber_def Let_def compositions_def map_update_same
        split: option.split prod.split)

lemma moveGrabbedAsteroid_frame [simp]:
  "cargoBins (moveGrabbedAsteroid r dt) = cargoBins r"
  "cargoUsed (moveGrabbedAsteroid r dt) = cargoUsed r"
  "cargoValue (moveGrabbedAsteroid r dt) = cargoValue r"
  "cargoCapacity (moveGrabbedAsteroid r dt) = cargoCapacity r"
  "playerHull (moveGrabbedAsteroid r dt) = playerHull r"
  "maxHull (moveGrabbedAsteroid r dt) = maxHull r"
  "rammerSelfDamageMultiplier (moveGrabbedAsteroid r dt) = rammerSelfDamageMultiplier r"
  "pirateState (moveGrabbedAsteroid r dt) = pirateState r"
  "weaponAmmo (moveGrabbedAsteroid r dt) = weaponAmmo r"
  "weaponMaxAmmo (moveGrabbedAsteroid r dt) = weaponMaxAmmo r"
  "status (moveGrabbedAsteroid r dt) = status r"
  "docked (moveGrabbedAsteroid r dt) = docked r"
  by (simp_all add: moveGrabbedAsteroid_def Let_def split: option.split)

lemma moveGrabbedAsteroid_compositions [simp]:
  "compositions (moveGrabbedAsteroid r dt) = compositions r"
  by (simp add: moveGrabbedAsteroid_def Let_def compositions_def map_update_same
        split: option.split)

lemma launchWeaponShot_frame [simp]:
  "cargoBins (launchWeaponShot r ks) = cargoBins r"
  "cargoUsed (launchWeaponShot r ks) = cargoUsed r"
  "cargoValue (launchWeaponShot r ks) = cargoValue r"
  "cargoCapacity (launchWeaponShot r ks) = cargoCapacity r"
  "playerHull (launchWeaponShot r ks) = playerHull r"
  "maxHull (launchWeaponShot r ks) = maxHull r"
  "rammerSelfDamageMultiplier (launchWeaponShot r ks) = rammerSelfDamageMultiplier r"
  "pirateState (launchWeaponShot r ks) = pirateState r"
  "weaponMaxAmmo (launchWeaponShot r ks) = weaponMaxAmmo r"
  "status (launchWeaponShot r ks) = status r"
  "docked (launchWeaponShot r ks) = docked r"
  "asteroids (launchWeaponShot r ks) = asteroids r"
  by (simp_all add: launchWeaponShot_def Let_def)

lemma triggerPirateEvent_frame [simp]:
  "cargoBins (triggerPirateEvent r) = cargoBins r"
  "cargoUsed (triggerPirateEvent r) = cargoUsed r"
  "cargoValue (triggerPirateEvent r) = cargoValue r"
  "cargoCapacity (triggerPirateEvent r) = cargoCapacity r"
  "playerHull (triggerPirateEvent r) = playerHull r"
  "maxHull (triggerPirateEvent r) = maxHull r"
  "rammerSelfDamageMultiplier (triggerPirateEvent r) = rammerSelfDamageMultiplier r"
  "weaponAmmo (triggerPirateEvent r) = weaponAmmo r"
  "weaponMaxAmmo (triggerPirateEvent r) = weaponMaxAmmo r"
  "status (triggerPirateEvent r) = status r"
  "docked (triggerPirateEvent r) = docked r"
  "asteroids (triggerPirateEvent r) = asteroids r"
  by (simp_all add: triggerPirateEvent_def Let_def split_def)

lemma updatePirate_frame [simp]:
  "cargoBins (updatePirate r dt) = cargoBins r"
  "cargoUsed (updatePirate r dt) = cargoUsed r"
  "cargoValue (updatePirate r dt) = cargoValue r"
  "cargoCapacity (updatePirate r dt) = cargoCapacity r"
  "playerHull (updatePirate r dt) = playerHull r"
  "maxHull (updatePirate r dt) = maxHull r"
  "rammerSelfDamageMultiplier (updatePirate r dt) = rammerSelfDamageMultiplier r"
  "weaponAmmo (updatePirate r dt) = weaponAmmo r"
  "weaponMaxAmmo (updatePirate r dt) = weaponMaxAmmo r"
  "docked (updatePirate r dt) = docked r"
  "asteroids (updatePirate r dt) = asteroids r"
  by (simp_all add: updatePirate_def Let_def)

lemma disablePirate_frame [simp]:
  "cargoBins (disablePirate r) = cargoBins r"
  "cargoUsed (disablePirate r) = cargoUsed r"
  "cargoValue (disablePirate r) = cargoValue r"
  "cargoCapacity (disablePirate r) = cargoCapacity r"
  "playerHull (disablePirate r) = playerHull r"
  "maxHull (disablePirate r) = maxHull r"
  "rammerSelfDamageMultiplier (disablePirate r) = rammerSelfDamageMultiplier r"
  "weaponAmmo (disablePirate r) = weaponAmmo r"
  "weaponMaxAmmo (disablePirate r) = weaponMaxAmmo r"
  "status (disablePirate r) = status r"
  "docked (disablePirate r) = docked r"
  "asteroids (disablePirate r) = asteroids r"
  by (simp_all add: disablePirate_def)

lemma applyPirateDamage_frame [simp]:
  "cargoBins (fst (applyPirateDamage r dmg)) = cargoBins r"
  "cargoUsed (fst (applyPirateDamage r dmg)) = cargoUsed r"
  "cargoValue (fst (applyPirateDamage r dmg)) = cargoValue r"
  "cargoCapacity (fst (applyPirateDamage r dmg)) = cargoCapacity r"
  "playerHull (fst (applyPirateDamage r dmg)) = playerHull r"
  "maxHull (fst (applyPirateDamage r dmg)) = maxHull r"
  "rammerSelfDamageMultiplier (fst (applyPirateDamage r dmg)) = rammerSelfDamageMultiplier r"
  "weaponAmmo (fst (applyPirateDamage r dmg)) = weaponAmmo r"
  "weaponMaxAmmo (fst (applyPirateDamage r dmg)) = weaponMaxAmmo r"
  "status (fst (applyPirateDamage r dmg)) = status r"
  "docked (fst (applyPirateDamage r dmg)) = docked r"
  "asteroids (fst (applyPirateDamage r dmg)) = asteroids r"
  by (simp_all add: applyPirateDamage_def Let_def)

lemma evaluateMissionOutcome_frame [simp]:
  "cargoBins (evaluateMissionOutcome r) = cargoBins r"
  "cargoUsed (evaluateMissionOutcome r) = cargoUsed r"
  "cargoValue (evaluateMissionOutcome r) = cargoValue r"
  "cargoCapacity (evaluateMissionOutcome r) = cargoCapacity r"
  "playerHull (evaluateMissionOutcome r) = playerHull r"
  "maxHull (evaluateMissionOutcome r) = maxHull r"
  "rammerSelfDamageMultiplier (evaluateMissionOutcome r) = rammerSelfDamageMultiplier r"
  "pirateState (evaluateMissionOutcome r) = pirateState r"
  "weaponAmmo (evaluateMissionOutcome r) = weaponAmmo r"
  "weaponMaxAmmo (evaluateMissionOutcome r) = weaponMaxAmmo r"
  "docked (evaluateMissionOutcome r) = docked r"
  "asteroids (evaluateMissionOutcome r) = asteroids r"
  by (simp_all add: evaluateMissionOutcome_def)

lemma takeUnit_frame [simp]:
  "cargoCapacity (fst (takeUnit r k c)) = cargoCapacity r"
  "playerHull (fst (takeUnit r k c)) = playerHull r"
  "maxHull (fst (takeUnit r k c)) = maxHull r"
  "rammerSelfDamageMultiplier (fst (takeUnit r k c)) = rammerSelfDamageMultiplier r"
  "pirateState (fst (takeUnit r k c)) = pirateState r"
  "weaponAmmo (fst (takeUnit r k c)) = weaponAmmo r"
  "weaponMaxAmmo (fst (takeUnit r k c)) = weaponMaxAmmo r"
  "status (fst (takeUnit r k c)) = status r"
  "docked (fst (takeUnit r k c)) = docked r"
  "asteroids (fst (takeUnit r k c)) = asteroids r"
  by (simp_all add: takeUnit_def Let_def)

lemma takeCargoUnitForLaunch_frame [simp]:
  "cargoCapacity (fst (takeCargoUnitForLaunch r)) = cargoCapacity r"
  "playerHull (fst (takeCargoUnitForLaunch r)) = playerHull r"
  "maxHull (fst (takeCargoUnitForLaunch r)) = maxHull r"
  "rammerSelfDamageMultiplier (fst (takeCargoUnitForLaunch r)) = rammerSelfDamageMultiplier r"
  "pirateState (fst (takeCargoUnitForLaunch r)) = pirateState r"
  "weaponAmmo (fst (takeCargoUnitForLaunch r)) = weaponAmmo r"
  "weaponMaxAmmo (fst (takeCargoUnitForLaunch r)) = weaponMaxAmmo r"
  "status (fst (takeCargoUnitForLaunch r)) = status r"
  "docked (fst (takeCargoUnitForLaunch r)) = docked r"
  "asteroids (fst (takeCargoUnitForLaunch r)) = asteroids r"
  by (simp_all add: takeCargoUnitForLaunch_def split: list.split prod.split)

lemma takeCargoUnitForUnload_frame [simp]:
  "cargoCapacity (fst (takeCargoUnitForUnload r)) = cargoCapacity r"
  "playerHull (fst (takeCargoUnitForUnload r)) = playerHull r"
  "maxHull (fst (takeCargoUnitForUnload r)) = maxHull r"
  "rammerSelfDamageMultiplier (fst (takeCargoUnitForUnload r)) = rammerSelfDamageMultiplier r"
  "pirateState (fst (takeCargoUnitForUnload r)) = pirateState r"
  "weaponAmmo (fst (takeCargoUnitForUnload r)) = weaponAmmo r"
  "weaponMaxAmmo (fst (takeCargoUnitForUnload r)) = weaponMaxAmmo r"
  "status (fst (takeCargoUnitForUnload r)) = status r"
  "docked (fst (takeCargoUnitForUnload r)) = docked r"
  "asteroids (fst (takeCargoUnitForUnload r)) = asteroids r"
  by (simp_all add: takeCargoUnitForUnload_def split: list.split prod.split)

lemma addCargo_frame [simp]:
  "cargoCapacity (fst (addCargo r k n)) = cargoCapacity r"
  "playerHull (fst (addCargo r k n)) = playerHull r"
  "maxHull (fst (addCargo r k n)) = maxHull r"
  "rammerSelfDamageMultiplier (fst (addCargo r k n)) = rammerSelfDamageMultiplier r"
  "pirateState (fst (addCargo r k n)) = pirateState r"
  "weaponAmmo (fst (addCargo r k n)) = weaponAmmo r"
  "weaponMaxAmmo (fst (addCargo r k n)) = weaponMaxAmmo r"
  "status (fst (addCargo r k n)) = status r"
  "docked (fst (addCargo r k n)) = docked r"
  "asteroids (fst (addCargo r k n)) = asteroids r"
  by (simp_all add: addCargo_def Let_def)

lemma rollUnits_frame [simp]:
  "cargoBins (snd (rollUnits k r)) = cargoBins r"
  "cargoUsed (snd (rollUnits k r)) = cargoUsed r"
  "cargoValue (snd (rollUnits k r)) = cargoValue r"
  "cargoCapacity (snd (rollUnits k r)) = cargoCapacity r"
  "playerHull (snd (rollUnits k r)) = playerHull r"
  "maxHull (snd (rollUnits k r)) = maxHull r"
  "rammerSelfDamageMultiplier (snd (rollUnits k r)) = rammerSelfDamageMultiplier r"
  "pirateState (snd (rollUnits k r)) = pirateState r"
  "weaponAmmo (snd (rollUnits k r)) = weaponAmmo r"
  "weaponMaxAmmo (snd (rollUnits k r)) = weaponMaxAmmo r"
  "status (snd (rollUnits k r)) = status r"
  "docked (snd (rollUnits k r)) = docked r"
  "asteroids (snd (rollUnits k r)) = asteroids r"
  by (simp_all add: rollUnits_def Let_def split_def)

lemma warnNoUsableSpace_frame [simp]:
  "cargoBins (warnNoUsableSpace r) = cargoBins r"
  "cargoUsed (warnNoUsableSpace r) = cargoUsed r"
  "cargoValue (warnNoUsableSpace r) = cargoValue r"
  "cargoCapacity (warnNoUsableSpace r) = cargoCapacity r"
  "playerHull (warnNoUsableSpace r) = playerHull r"
  "maxHull (warnNoUsableSpace r) = maxHull r"
  "rammerSelfDamageMultiplier (warnNoUsableSpace r) = rammerSelfDamageMultiplier r"
  "pirateState (warnNoUsableSpace r) = pirateState r"
  "weaponAmmo (warnNoUsableSpace r) = weaponAmmo r"
  "weaponMaxAmmo (warnNoUsableSpace r) = weaponMaxAmmo r"
  "status (warnNoUsableSpace r) = status r"
  "docked (warnNoUsableSpace r) = docked r"
  "asteroids (warnNoUsableSpace r) = asteroids r"
  by (simp_all add: warnNoUsableSpace_def)

lemma launchCargoShot_frame [simp]:
  "cargoCapacity (launchCargoShot r ks) = cargoCapacity r"
  "playerHull (launchCargoShot r ks) = playerHull r"
  "maxHull (launchCargoShot r ks) = maxHull r"
  "rammerSelfDamageMultiplier (launchCargoShot r ks) = rammerSelfDamageMultiplier r"
  "pirateState (launchCargoShot r ks) = pirateState r"
  "weaponAmmo (launchCargoShot r ks) = weaponAmmo r"
  "weaponMaxAmmo (launchCargoShot r ks) = weaponMaxAmmo r"
  "status (launchCargoShot r ks) = status r"
  "docked (launchCargoShot r ks) = docked r"
  "asteroids (launchCargoShot r ks) = asteroids r"
  by (simp_all add: launchCargoShot_def Let_def split_def split: option.split)

lemma resolveAsteroidCollisions_frame [simp]:
  "cargoBins (resolveAsteroidCollisions r) = cargoBins r"
  "cargoUsed (resolveAsteroidCollisions r) = cargoUsed r"
  "cargoValue (resolveAsteroidCollisions r) = cargoValue r"
  "cargoCapacity (resolveAsteroidCollisions r) = cargoCapacity r"
  "playerHull (resolveAsteroidCollisions r) = playerHull r"
  "maxHull (resolveAsteroidCollisions r) = maxHull r"
  "rammerSelfDamageMultiplier (resolveAsteroidCollisions r) = rammerSelfDamageMultiplier r"
  "pirateState (resolveAsteroidCollisions r) = pirateState r"
  "weaponAmmo (resolveAsteroidCollisions r) = weaponAmmo r"
  "weaponMaxAmmo (resolveAsteroidCollisions r) = weaponMaxAmmo r"
  "status (resolveAsteroidCollisions r) = status r"
  "docked (resolveAsteroidCollisions r) = docked r"
  by (simp_all add: resolveAsteroidCollisions_def)

lemma compositions_update:
  "composition a = composition (asteroids r ! i) \<Longrightarrow>
   compositions (r\<lparr>asteroids := (asteroids r)[i := a]\<rparr>) = compositions r"
  by (simp add: compositions_def map_update_same)

lemma map_update_same2:
  assumes "f a = f (xs ! i)" "f b = f (xs ! j)"
  shows "map f (xs[i := a, j := b]) = map f xs"
proof -
  have "map f (xs[i := a, j := b]) = (map f (xs[i := a]))[j := f b]"
    by (simp add: map_update)
  also have "\<dots> = (map f xs)[j := f (xs ! j)]"
    using assms by (simp add: map_update_same)
  also have "\<dots> = map f xs"
    by (metis list_update_id map_update)
  finally show ?thesis .
qed

lemma composition_update_nth:
  "composition a = composition (xs ! i) \<Longrightarrow> composition (xs[i := a] ! i) = composition (xs ! i)"
  by (cases "i < length xs") (simp_all add: list_update_beyond)

lemma updateAsteroidBody_composition [simp]:
  "composition (updateAsteroidBody a dt) = composition a"
  by (simp add: updateAsteroidBody_def Let_def split_def)

lemma collidePair_composition [simp]:
  "composition (fst (collidePair a b)) = composition a"
  "composition (snd (collidePair a b)) = composition b"
  by (simp_all add: collidePair_def Let_def)

lemma collideInner_compositions [simp]:
  "map composition (collideInner i js xs) = map composition xs"
proof (induction js arbitrary: xs)
  case Nil
  then show ?case by simp
next
  case (Cons j js)
  have "map composition (xs[i := fst (collidePair (xs ! i) (xs ! j)),
                             j := snd (collidePair (xs ! i) (xs ! j))]) = map composition xs"
    by (rule map_update_same2) simp_all
  with Cons show ?case by (simp add: split_def Let_def)
qed

lemma collideOuter_compositions [simp]:
  "map composition (collideOuter is xs) = map composition xs"
  by (induction "is" arbitrary: xs) simp_all

lemma resolveAsteroidCollisions_compositions [simp]:
  "compositions (resolveAsteroidCollisions r) = compositions r"
  by (simp add: resolveAsteroidCollisions_def compositions_def)

lemma asteroidStrikesPirate_frame [simp]:
  "cargoBins (asteroidStrikesPirate r impact radius) = cargoBins r"
  "cargoUsed (asteroidStrikesPirate r impact radius) = cargoUsed r"
  "cargoValue (asteroidStrikesPirate r impact radius) = cargoValue r"
  "cargoCapacity (asteroidStrikesPirate r impact radius) = cargoCapacity r"
  "playerHull (asteroidStrikesPirate r impact radius) = playerHull r"
  "maxHull (asteroidStrikesPirate r impact radius) = maxHull r"
  "rammerSelfDamageMultiplier (asteroidStrikesPirate r impact radius) = rammerSelfDamageMultiplier r"
  "weaponAmmo (asteroidStrikesPirate r impact radius) = weaponAmmo r"
  "weaponMaxAmmo (asteroidStrikesPirate r impact radius) = weaponMaxAmmo r"
  "status (asteroidStrikesPirate r impact radius) = status r"
  "docked (asteroidStrikesPirate r impact radius) = docked r"
  "asteroids (asteroidStrikesPirate r impact radius) = asteroids r"
  by (simp_all add: asteroidStrikesPirate_def Let_def split_def)

lemma asteroidStrikesPirate_compositions [simp]: "compositions (asteroidStrikesPirate r impact radius) = compositions r"
  by (simp add: compositions_def)

lemma asteroidPirateImpact_frame [simp]:
  "cargoBins (fst (asteroidPirateImpact i r)) = cargoBins r"
  "cargoUsed (fst (asteroidPirateImpact i r)) = cargoUsed r"
  "cargoValue (fst (asteroidPirateImpact i r)) = cargoValue r"
  "cargoCapacity (fst (asteroidPirateImpact i r)) = cargoCapacity r"
  "playerHull (fst (asteroidPirateImpact i r)) = playerHull r"
  "maxHull (fst (asteroidPirateImpact i r)) = maxHull r"
  "rammerSelfDamageMultiplier (fst (asteroidPirateImpact i r)) = rammerSelfDamageMultiplier r"
  "weaponAmmo (fst (asteroidPirateImpact i r)) = weaponAmmo r"
  "weaponMaxAmmo (fst (asteroidPirateImpact i r)) = weaponMaxAmmo r"
  "status (fst (asteroidPirateImpact i r)) = status r"
  "docked (fst (asteroidPirateImpact i r)) = docked r"
  by (simp_all add: asteroidPirateImpact_def Let_def split_def)

lemma asteroidPirateImpact_compositions [simp]:
  "compositions (fst (asteroidPirateImpact i r)) = compositions r"
  by (simp add: asteroidPirateImpact_def Let_def split_def compositions_def map_update_same)

lemma asteroidPirateLoop_keeps:
  assumes "\<And>i r. f (fst (asteroidPirateImpact i r)) = f r"
  shows "f (asteroidPirateLoop is r) = f r"
  by (induction "is" arbitrary: r) (simp_all add: split_def Let_def assms)

lemma asteroidPirateLoop_frame [simp]:
  "cargoBins (asteroidPirateLoop is r) = cargoBins r"
  "cargoUsed (asteroidPirateLoop is r) = cargoUsed r"
  "cargoValue (asteroidPirateLoop is r) = cargoValue r"
  "cargoCapacity (asteroidPirateLoop is r) = cargoCapacity r"
  "playerHull (asteroidPirateLoop is r) = playerHull r"
  "maxHull (asteroidPirateLoop is r) = maxHull r"
  "rammerSelfDamageMultiplier (asteroidPirateLoop is r) = rammerSelfDamageMultiplier r"
  "weaponAmmo (asteroidPirateLoop is r) = weaponAmmo r"
  "weaponMaxAmmo (asteroidPirateLoop is r) = weaponMaxAmmo r"
  "status (asteroidPirateLoop is r) = status r"
  "docked (asteroidPirateLoop is r) = docked r"
  "compositions (asteroidPirateLoop is r) = compositions r"
  subgoal by (rule asteroidPirateLoop_keeps [of cargoBins]; ((simp; fail) | (simp add: compositions_def; fail)))
  subgoal by (rule asteroidPirateLoop_keeps [of cargoUsed]; ((simp; fail) | (simp add: compositions_def; fail)))
  subgoal by (rule asteroidPirateLoop_keeps [of cargoValue]; ((simp; fail) | (simp add: compositions_def; fail)))
  subgoal by (rule asteroidPirateLoop_keeps [of cargoCapacity]; ((simp; fail) | (simp add: compositions_def; fail)))
  subgoal by (rule asteroidPirateLoop_keeps [of playerHull]; ((simp; fail) | (simp add: compositions_def; fail)))
  subgoal by (rule asteroidPirateLoop_keeps [of maxHull]; ((simp; fail) | (simp add: compositions_def; fail)))
  subgoal by (rule asteroidPirateLoop_keeps [of rammerSelfDamageMultiplier]; ((simp; fail) | (simp add: compositions_def; fail)))
  subgoal by (rule asteroidPirateLoop_keeps [of weaponAmmo]; ((simp; fail) | (simp add: compositions_def; fail)))
  subgoal by (rule asteroidPirateLoop_keeps [of weaponMaxAmmo]; ((simp; fail) | (simp add: compositions_def; fail)))
  subgoal by (rule asteroidPirateLoop_keeps [of status]; ((simp; fail) | (simp add: compositions_def; fail)))
  subgoal by (rule asteroidPirateLoop_keeps [of docked]; ((simp; fail) | (simp add: compositions_def; fail)))
  subgoal by (rule asteroidPirateLoop_keeps [of compositions]; ((simp; fail) | (simp add: compositions_def; fail)))
  done

lemma resolveAsteroidPirateImpacts_frame [simp]:
  "cargoBins (resolveAsteroidPirateImpacts r dt) = cargoBins r"
  "cargoUsed (resolveAsteroidPirateImpacts r dt) = cargoUsed r"
  "cargoValue (resolveAsteroidPirateImpacts r dt) = cargoValue r"
  "cargoCapacity (resolveAsteroidPirateImpacts r dt) = cargoCapacity r"
  "playerHull (resolveAsteroidPirateImpacts r dt) = playerHull r"
  "maxHull (resolveAsteroidPirateImpacts r dt) = maxHull r"
  "rammerSelfDamageMultiplier (resolveAsteroidPirateImpacts r dt) = rammerSelfDamageMultiplier r"
  "weaponAmmo (resolveAsteroidPirateImpacts r dt) = weaponAmmo r"
  "weaponMaxAmmo (resolveAsteroidPirateImpacts r dt) = weaponMaxAmmo r"
  "status (resolveAsteroidPirateImpacts r dt) = status r"
  "docked (resolveAsteroidPirateImpacts r dt) = docked r"
  by (simp_all add: resolveAsteroidPirateImpacts_def)

lemma asteroidStrikesPlayer_frame [simp]:
  "cargoBins (asteroidStrikesPlayer r impact) = cargoBins r"
  "cargoUsed (asteroidStrikesPlayer r impact) = cargoUsed r"
  "cargoValue (asteroidStrikesPlayer r impact) = cargoValue r"
  "cargoCapacity (asteroidStrikesPlayer r impact) = cargoCapacity r"
  "maxHull (asteroidStrikesPlayer r impact) = maxHull r"
  "rammerSelfDamageMultiplier (asteroidStrikesPlayer r impact) = rammerSelfDamageMultiplier r"
  "pirateState (asteroidStrikesPlayer r impact) = pirateState r"
  "weaponAmmo (asteroidStrikesPlayer r impact) = weaponAmmo r"
  "weaponMaxAmmo (asteroidStrikesPlayer r impact) = weaponMaxAmmo r"
  "status (asteroidStrikesPlayer r impact) = status r"
  "docked (asteroidStrikesPlayer r impact) = docked r"
  "asteroids (asteroidStrikesPlayer r impact) = asteroids r"
  by (simp_all add: asteroidStrikesPlayer_def Let_def split_def)

lemma asteroidStrikesPlayer_compositions [simp]:
  "compositions (asteroidStrikesPlayer r impact) = compositions r"
  by (simp add: compositions_def)

lemma playerAsteroidImpact_frame [simp]:
  "cargoBins (playerAsteroidImpact a r) = cargoBins r"
  "cargoUsed (playerAsteroidImpact a r) = cargoUsed r"
  "cargoValue (playerAsteroidImpact a r) = cargoValue r"
  "cargoCapacity (playerAsteroidImpact a r) = cargoCapacity r"
  "maxHull (playerAsteroidImpact a r) = maxHull r"
  "rammerSelfDamageMultiplier (playerAsteroidImpact a r) = rammerSelfDamageMultiplier r"
  "pirateState (playerAsteroidImpact a r) = pirateState r"
  "weaponAmmo (playerAsteroidImpact a r) = weaponAmmo r"
  "weaponMaxAmmo (playerAsteroidImpact a r) = weaponMaxAmmo r"
  "status (playerAsteroidImpact a r) = status r"
  "docked (playerAsteroidImpact a r) = docked r"
  "asteroids (playerAsteroidImpact a r) = asteroids r"
  by (simp_all add: playerAsteroidImpact_def Let_def split_def)

lemma playerAsteroidImpact_compositions [simp]: "compositions (playerAsteroidImpact a r) = compositions r"
  by (simp add: compositions_def)

lemma playerAsteroidLoop_keeps:
  assumes "\<And>a r. f (playerAsteroidImpact a r) = f r"
  shows "f (playerAsteroidLoop as r) = f r"
  by (induction as arbitrary: r) (simp_all add: assms)

lemma playerAsteroidLoop_frame [simp]:
  "cargoBins (playerAsteroidLoop as r) = cargoBins r"
  "cargoUsed (playerAsteroidLoop as r) = cargoUsed r"
  "cargoValue (playerAsteroidLoop as r) = cargoValue r"
  "cargoCapacity (playerAsteroidLoop as r) = cargoCapacity r"
  "maxHull (playerAsteroidLoop as r) = maxHull r"
  "rammerSelfDamageMultiplier (playerAsteroidLoop as r) = rammerSelfDamageMultiplier r"
  "pirateState (playerAsteroidLoop as r) = pirateState r"
  "weaponAmmo (playerAsteroidLoop as r) = weaponAmmo r"
  "weaponMaxAmmo (playerAsteroidLoop as r) = weaponMaxAmmo r"
  "status (playerAsteroidLoop as r) = status r"
  "docked (playerAsteroidLoop as r) = docked r"
  "asteroids (playerAsteroidLoop as r) = asteroids r"
  "compositions (playerAsteroidLoop as r) = compositions r"
  subgoal by (rule playerAsteroidLoop_keeps [of cargoBins]; ((simp; fail) | (simp add: compositions_def; fail)))
  subgoal by (rule playerAsteroidLoop_keeps [of cargoUsed]; ((simp; fail) | (simp add: compositions_def; fail)))
  subgoal by (rule playerAsteroidLoop_keeps [of cargoValue]; ((simp; fail) | (simp add: compositions_def; fail)))
  subgoal by (rule playerAsteroidLoop_keeps [of cargoCapacity]; ((simp; fail) | (simp add: compositions_def; fail)))
  subgoal by (rule playerAsteroidLoop_keeps [of maxHull]; ((simp; fail) | (simp add: compositions_def; fail)))
  subgoal by (rule playerAsteroidLoop_keeps [of rammerSelfDamageMultiplier]; ((simp; fail) | (simp add: compositions_def; fail)))
  subgoal by (rule playerAsteroidLoop_keeps [of pirateState]; ((simp; fail) | (simp add: compositions_def; fail)))
  subgoal by (rule playerAsteroidLoop_keeps [of weaponAmmo]; ((simp; fail) | (simp add: compositions_def; fail)))
  subgoal by (rule playerAsteroidLoop_keeps [of weaponMaxAmmo]; ((simp; fail) | (simp add: compositions_def; fail)))
  subgoal by (rule playerAsteroidLoop_keeps [of status]; ((simp; fail) | (simp add: compositions_def; fail)))
  subgoal by (rule playerAsteroidLoop_keeps [of docked]; ((simp; fail) | (simp add: compositions_def; fail)))
  subgoal by (rule playerAsteroidLoop_keeps [of asteroids]; ((simp; fail) | (simp add: compositions_def; fail)))
  subgoal by (rule playerAsteroidLoop_keeps [of compositions]; ((simp; fail) | (simp add: compositions_def; fail)))
  done

lemma resolvePlayerAsteroidImpacts_frame [simp]:
  "cargoBins (resolvePlayerAsteroidImpacts r dt) = cargoBins r"
  "cargoUsed (resolvePlayerAsteroidImpacts r dt) = cargoUsed r"
  "cargoValue (resolvePlayerAsteroidImpacts r dt) = cargoValue r"
  "cargoCapacity (resolvePlayerAsteroidImpacts r dt) = cargoCapacity r"
  "maxHull (resolvePlayerAsteroidImpacts r dt) = maxHull r"
  "rammerSelfDamageMultiplier (resolvePlayerAsteroidImpacts r dt) = rammerSelfDamageMultiplier r"
  "pirateState (resolvePlayerAsteroidImpacts r dt) = pirateState r"
  "weaponAmmo (resolvePlayerAsteroidImpacts r dt) = weaponAmmo r"
  "weaponMaxAmmo (resolvePlayerAsteroidImpacts r dt) = weaponMaxAmmo r"
  "status (resolvePlayerAsteroidImpacts r dt) = status r"
  "docked (resolvePlayerAsteroidImpacts r dt) = docked r"
  "asteroids (resolvePlayerAsteroidImpacts r dt) = asteroids r"
  by (simp_all add: resolvePlayerAsteroidImpacts_def)

lemma resolvePlayerAsteroidImpacts_compositions [simp]: "compositions (resolvePlayerAsteroidImpacts r dt) = compositions r"
  by (simp add: compositions_def)

lemma playerRamsPirate_frame [simp]:
  "cargoBins (playerRamsPirate r impact) = cargoBins r"
  "cargoUsed (playerRamsPirate r impact) = cargoUsed r"
  "cargoValue (playerRamsPirate r impact) = cargoValue r"
  "cargoCapacity (playerRamsPirate r impact) = cargoCapacity r"
  "maxHull (playerRamsPirate r impact) = maxHull r"
  "rammerSelfDamageMultiplier (playerRamsPirate r impact) = rammerSelfDamageMultiplier r"
  "weaponAmmo (playerRamsPirate r impact) = weaponAmmo r"
  "weaponMaxAmmo (playerRamsPirate r impact) = weaponMaxAmmo r"
  "status (playerRamsPirate r impact) = status r"
  "docked (playerRamsPirate r impact) = docked r"
  "asteroids (playerRamsPirate r impact) = asteroids r"
  by (simp_all add: playerRamsPirate_def Let_def split_def)

lemma playerRamsPirate_compositions [simp]: "compositions (playerRamsPirate r impact) = compositions r"
  by (simp add: compositions_def)

lemma resolvePlayerPirateImpact_frame [simp]:
  "cargoBins (resolvePlayerPirateImpact r dt) = cargoBins r"
  "cargoUsed (resolvePlayerPirateImpact r dt) = cargoUsed r"
  "cargoValue (resolvePlayerPirateImpact r dt) = cargoValue r"
  "cargoCapacity (resolvePlayerPirateImpact r dt) = cargoCapacity r"
  "maxHull (resolvePlayerPirateImpact r dt) = maxHull r"
  "rammerSelfDamageMultiplier (resolvePlayerPirateImpact r dt) = rammerSelfDamageMultiplier r"
  "weaponAmmo (resolvePlayerPirateImpact r dt) = weaponAmmo r"
  "weaponMaxAmmo (resolvePlayerPirateImpact r dt) = weaponMaxAmmo r"
  "status (resolvePlayerPirateImpact r dt) = status r"
  "docked (resolvePlayerPirateImpact r dt) = docked r"
  "asteroids (resolvePlayerPirateImpact r dt) = asteroids r"
  by (simp_all add: resolvePlayerPirateImpact_def Let_def split_def)

lemma resolvePlayerPirateImpact_compositions [simp]: "compositions (resolvePlayerPirateImpact r dt) = compositions r"
  by (simp add: compositions_def)

lemma cargoShotsLoop_keeps:
  assumes "\<And>r d. f (fst (applyPirateDamage r d)) = f r"
    and "\<And>r m t. f (addEvent r m t) = f r"
    and "\<And>r t. f (r\<lparr>pirateBoardTimer := t\<rparr>) = f r"
  shows "f (fst (cargoShotsLoop dt shots r activeShots)) = f r"
  by (induction shots arbitrary: r activeShots)
     (simp_all add: Let_def split_def assms split: option.split)

lemma cargoShotsLoop_frame [simp]:
  "cargoBins (fst (cargoShotsLoop dt shots r activeShots)) = cargoBins r"
  "cargoUsed (fst (cargoShotsLoop dt shots r activeShots)) = cargoUsed r"
  "cargoValue (fst (cargoShotsLoop dt shots r activeShots)) = cargoValue r"
  "cargoCapacity (fst (cargoShotsLoop dt shots r activeShots)) = cargoCapacity r"
  "playerHull (fst (cargoShotsLoop dt shots r activeShots)) = playerHull r"
  "maxHull (fst (cargoShotsLoop dt shots r activeShots)) = maxHull r"
  "rammerSelfDamageMultiplier (fst (cargoShotsLoop dt shots r activeShots)) = rammerSelfDamageMultiplier r"
  "weaponAmmo (fst (cargoShotsLoop dt shots r activeShots)) = weaponAmmo r"
  "weaponMaxAmmo (fst (cargoShotsLoop dt shots r activeShots)) = weaponMaxAmmo r"
  "status (fst (cargoShotsLoop dt shots r activeShots)) = status r"
  "docked (fst (cargoShotsLoop dt shots r activeShots)) = docked r"
  "asteroids (fst (cargoShotsLoop dt shots r activeShots)) = asteroids r"
  subgoal by (rule cargoShotsLoop_keeps [of cargoBins]; ((simp; fail) | (simp add: compositions_def; fail)))
  subgoal by (rule cargoShotsLoop_keeps [of cargoUsed]; ((simp; fail) | (simp add: compositions_def; fail)))
  subgoal by (rule cargoShotsLoop_keeps [of cargoValue]; ((simp; fail) | (simp add: compositions_def; fail)))
  subgoal by (rule cargoShotsLoop_keeps [of cargoCapacity]; ((simp; fail) | (simp add: compositions_def; fail)))
  subgoal by (rule cargoShotsLoop_keeps [of playerHull]; ((simp; fail) | (simp add: compositions_def; fail)))
  subgoal by (rule cargoShotsLoop_keeps [of maxHull]; ((simp; fail) | (simp add: compositions_def; fail)))
  subgoal by (rule cargoShotsLoop_keeps [of rammerSelfDamageMultiplier]; ((simp; fail) | (simp add: compositions_def; fail)))
  subgoal by (rule cargoShotsLoop_keeps [of weaponAmmo]; ((simp; fail) | (simp add: compositions_def; fail)))
  subgoal by (rule cargoShotsLoop_keeps [of weaponMaxAmmo]; ((simp; fail) | (simp add: compositions_def; fail)))
  subgoal by (rule cargoShotsLoop_keeps [of status]; ((simp; fail) | (simp add: compositions_def; fail)))
  subgoal by (rule cargoShotsLoop_keeps [of docked]; ((simp; fail) | (simp add: compositions_def; fail)))
  subgoal by (rule cargoShotsLoop_keeps [of asteroids]; ((simp; fail) | (simp add: compositions_def; fail)))
  done

lemma cargoShotsLoop_compositions [simp]:
  "compositions (fst (cargoShotsLoop dt shots r activeShots)) = compositions r"
  by (simp add: compositions_def)

lemma updateCargoShots_frame [simp]:
  "cargoBins (updateCargoShots r dt) = cargoBins r"
  "cargoUsed (updateCargoShots r dt) = cargoUsed r"
  "cargoValue (updateCargoShots r dt) = cargoValue r"
  "cargoCapacity (updateCargoShots r dt) = cargoCapacity r"
  "playerHull (updateCargoShots r dt) = playerHull r"
  "maxHull (updateCargoShots r dt) = maxHull r"
  "rammerSelfDamageMultiplier (updateCargoShots r dt) = rammerSelfDamageMultiplier r"
  "weaponAmmo (updateCargoShots r dt) = weaponAmmo r"
  "weaponMaxAmmo (updateCargoShots r dt) = weaponMaxAmmo r"
  "status (updateCargoShots r dt) = status r"
  "docked (updateCargoShots r dt) = docked r"
  "asteroids (updateCargoShots r dt) = asteroids r"
  by (simp_all add: updateCargoShots_def split_def Let_def)

lemma updateCargoShots_compositions [simp]: "compositions (updateCargoShots r dt) = compositions r"
  by (simp add: compositions_def)

lemma unloadLoop_keeps:
  assumes "\<And>r m t. f (addEvent r m t) = f r"
    and "\<And>r. f (fst (takeCargoUnitForUnload r)) = f r"
    and "\<And>r a b c. f (r\<lparr>powerballCargo := a, deliveredPowerballScore := b,
                              unloadAccumulator := c\<rparr>) = f r"
    and "\<And>r a b. f (r\<lparr>unloadAccumulator := a, deliveredValue := b\<rparr>) = f r"
  shows "f (unloadLoop r) = f r"
proof (induction r rule: unloadLoop.induct)
  case (1 r)
  show ?case
  proof (cases "1 \<le> unloadAccumulator r")
    case False
    then show ?thesis by (subst unloadLoop.simps) simp
  next
    case acc: True
    show ?thesis
    proof (cases "0 < powerballCargo r")
      case True
      with acc "1.IH"(1) show ?thesis
        by (subst unloadLoop.simps) (simp add: assms)
    next
      case False
      obtain r1 x where take: "takeCargoUnitForUnload r = (r1, x)"
        by (cases "takeCargoUnitForUnload r")
      then have r1: "f r1 = f r" using assms(2) [of r] by simp
      show ?thesis
      proof (cases x)
        case None
        with acc False take r1 show ?thesis by (subst unloadLoop.simps) simp
      next
        case (Some k)
        with acc False take "1.IH"(2) [OF acc False take [symmetric] Some] r1 show ?thesis
          by (subst unloadLoop.simps) (simp add: assms)
      qed
    qed
  qed
qed

lemma unloadLoop_frame [simp]:
  "cargoCapacity (unloadLoop r) = cargoCapacity r"
  "playerHull (unloadLoop r) = playerHull r"
  "maxHull (unloadLoop r) = maxHull r"
  "rammerSelfDamageMultiplier (unloadLoop r) = rammerSelfDamageMultiplier r"
  "pirateState (unloadLoop r) = pirateState r"
  "weaponAmmo (unloadLoop r) = weaponAmmo r"
  "weaponMaxAmmo (unloadLoop r) = weaponMaxAmmo r"
  "status (unloadLoop r) = status r"
  "docked (unloadLoop r) = docked r"
  "asteroids (unloadLoop r) = asteroids r"
  subgoal by (rule unloadLoop_keeps [of cargoCapacity]; ((simp; fail) | (simp add: compositions_def; fail)))
  subgoal by (rule unloadLoop_keeps [of playerHull]; ((simp; fail) | (simp add: compositions_def; fail)))
  subgoal by (rule unloadLoop_keeps [of maxHull]; ((simp; fail) | (simp add: compositions_def; fail)))
  subgoal by (rule unloadLoop_keeps [of rammerSelfDamageMultiplier]; ((simp; fail) | (simp add: compositions_def; fail)))
  subgoal by (rule unloadLoop_keeps [of pirateState]; ((simp; fail) | (simp add: compositions_def; fail)))
  subgoal by (rule unloadLoop_keeps [of weaponAmmo]; ((simp; fail) | (simp add: compositions_def; fail)))
  subgoal by (rule unloadLoop_keeps [of weaponMaxAmmo]; ((simp; fail) | (simp add: compositions_def; fail)))
  subgoal by (rule unloadLoop_keeps [of status]; ((simp; fail) | (simp add: compositions_def; fail)))
  subgoal by (rule unloadLoop_keeps [of docked]; ((simp; fail) | (simp add: compositions_def; fail)))
  subgoal by (rule unloadLoop_keeps [of asteroids]; ((simp; fail) | (simp add: compositions_def; fail)))
  done

lemma unloadLoop_compositions [simp]: "compositions (unloadLoop r) = compositions r"
  by (simp add: compositions_def)

lemma updateDockedSystems_frame [simp]:
  "cargoCapacity (updateDockedSystems r dt) = cargoCapacity r"
  "maxHull (updateDockedSystems r dt) = maxHull r"
  "rammerSelfDamageMultiplier (updateDockedSystems r dt) = rammerSelfDamageMultiplier r"
  "pirateState (updateDockedSystems r dt) = pirateState r"
  "weaponAmmo (updateDockedSystems r dt) = weaponAmmo r"
  "weaponMaxAmmo (updateDockedSystems r dt) = weaponMaxAmmo r"
  "status (updateDockedSystems r dt) = status r"
  "docked (updateDockedSystems r dt) = docked r"
  "asteroids (updateDockedSystems r dt) = asteroids r"
  by (simp_all add: updateDockedSystems_def Let_def)

lemma updateDockedSystems_compositions [simp]: "compositions (updateDockedSystems r dt) = compositions r"
  by (simp add: compositions_def)

lemma drillTick_frame [simp]:
  "cargoCapacity (fst (drillTick i r)) = cargoCapacity r"
  "playerHull (fst (drillTick i r)) = playerHull r"
  "maxHull (fst (drillTick i r)) = maxHull r"
  "rammerSelfDamageMultiplier (fst (drillTick i r)) = rammerSelfDamageMultiplier r"
  "pirateState (fst (drillTick i r)) = pirateState r"
  "weaponAmmo (fst (drillTick i r)) = weaponAmmo r"
  "weaponMaxAmmo (fst (drillTick i r)) = weaponMaxAmmo r"
  "status (fst (drillTick i r)) = status r"
  "docked (fst (drillTick i r)) = docked r"
  by (simp_all add: drillTick_def Let_def split_def split: option.split)

lemma drillTick_compositions [simp]: "compositions (fst (drillTick i r)) = compositions r"
  by (simp add: drillTick_def Let_def split_def compositions_def map_update_same
        composition_update_nth split: option.split)

lemma drillLoop_keeps:
  assumes "\<And>i r. f (fst (drillTick i r)) = f r"
    and "\<And>r a. f (r\<lparr>drillAccumulator := a\<rparr>) = f r"
  shows "f (stateOf (drillLoop i r)) = f r"
proof (induction i r rule: drillLoop.induct)
  case (1 i r)
  show ?case
  proof (cases "1 \<le> drillAccumulator r")
    case False
    then show ?thesis by (subst drillLoop.simps) simp
  next
    case acc: True
    obtain r' x where tick: "drillTick i (r\<lparr>drillAccumulator := drillAccumulator r - 1\<rparr>) = (r', x)"
      by (cases "drillTick i (r\<lparr>drillAccumulator := drillAccumulator r - 1\<rparr>)")
    then have r': "f r' = f r"
      using assms(1) [of i "r\<lparr>drillAccumulator := drillAccumulator r - 1\<rparr>"] assms(2) by simp
    show ?thesis
    proof (cases x)
      case goesOn
      with acc tick "1.IH" [OF acc tick [symmetric] goesOn] r' show ?thesis
        by (subst drillLoop.simps) simp
    next
      case breaks
      with acc tick r' show ?thesis by (subst drillLoop.simps) simp
    next
      case raises
      with acc tick r' show ?thesis by (subst drillLoop.simps) simp
    qed
  qed
qed

lemma drillLoop_frame [simp]:
  "cargoCapacity (stateOf (drillLoop i r)) = cargoCapacity r"
  "playerHull (stateOf (drillLoop i r)) = playerHull r"
  "maxHull (stateOf (drillLoop i r)) = maxHull r"
  "rammerSelfDamageMultiplier (stateOf (drillLoop i r)) = rammerSelfDamageMultiplier r"
  "pirateState (stateOf (drillLoop i r)) = pirateState r"
  "weaponAmmo (stateOf (drillLoop i r)) = weaponAmmo r"
  "weaponMaxAmmo (stateOf (drillLoop i r)) = weaponMaxAmmo r"
  "status (stateOf (drillLoop i r)) = status r"
  "docked (stateOf (drillLoop i r)) = docked r"
  "compositions (stateOf (drillLoop i r)) = compositions r"
  subgoal by (rule drillLoop_keeps [of cargoCapacity]; ((simp; fail) | (simp add: compositions_def; fail)))
  subgoal by (rule drillLoop_keeps [of playerHull]; ((simp; fail) | (simp add: compositions_def; fail)))
  subgoal by (rule drillLoop_keeps [of maxHull]; ((simp; fail) | (simp add: compositions_def; fail)))
  subgoal by (rule drillLoop_keeps [of rammerSelfDamageMultiplier]; ((simp; fail) | (simp add: compositions_def; fail)))
  subgoal by (rule drillLoop_keeps [of pirateState]; ((simp; fail) | (simp add: compositions_def; fail)))
  subgoal by (rule drillLoop_keeps [of weaponAmmo]; ((simp; fail) | (simp add: compositions_def; fail)))
  subgoal by (rule drillLoop_keeps [of weaponMaxAmmo]; ((simp; fail) | (simp add: compositions_def; fail)))
  subgoal by (rule drillLoop_keeps [of status]; ((simp; fail) | (simp add: compositions_def; fail)))
  subgoal by (rule drillLoop_keeps [of docked]; ((simp; fail) | (simp add: compositions_def; fail)))
  subgoal by (rule drillLoop_keeps [of compositions]; ((simp; fail) | (simp add: compositions_def; fail)))
  done

lemma updateDrill_frame [simp]:
  "cargoCapacity (stateOf (updateDrill r dt ks)) = cargoCapacity r"
  "playerHull (stateOf (updateDrill r dt ks)) = playerHull r"
  "maxHull (stateOf (updateDrill r dt ks)) = maxHull r"
  "rammerSelfDamageMultiplier (stateOf (updateDrill r dt ks)) = rammerSelfDamageMultiplier r"
  "pirateState (stateOf (updateDrill r dt ks)) = pirateState r"
  "weaponAmmo (stateOf (updateDrill r dt ks)) = weaponAmmo r"
  "weaponMaxAmmo (stateOf (updateDrill r dt ks)) = weaponMaxAmmo r"
  "status (stateOf (updateDrill r dt ks)) = status r"
  "docked (stateOf (updateDrill r dt ks)) = docked r"
  by (simp_all add: updateDrill_def Let_def split: option.split)

section \<open>Properties of every step\<close>

text \<open>
  A property that every function called by \<^verbatim>\<open>stepRuntime\<close> keeps is kept by the step,
  also when the drill raises. The time step the functions see is \<open>min dtRaw 0.05\<close>.
\<close>

lemma stepRuntime_keeps:
  assumes P: "P r"
    and prev: "\<And>r ks. P r \<Longrightarrow> P (updatePrevKeys r ks)"
    and clock: "\<And>r a b c. P r \<Longrightarrow> P (r\<lparr>elapsed := a, missionSeconds := b, drillActive := c\<rparr>)"
    and transit: "\<And>r. P r \<Longrightarrow> P (updateFreighterTransit r)"
    and dock: "\<And>r ks. P r \<Longrightarrow> P (applyFreighterDockActions r ks)"
    and systems: "\<And>r. P r \<Longrightarrow> P (updateDockedSystems r (min dtRaw 0.05))"
    and control: "\<And>r dt ci. P r \<Longrightarrow> P (updatePlayerControlWithInput r dt ci)"
    and grabber: "\<And>r ks. P r \<Longrightarrow> P (updateGrabber r ks)"
    and grabbed: "\<And>r dt. P r \<Longrightarrow> P (moveGrabbedAsteroid r dt)"
    and cargoShot: "\<And>r ks. P r \<Longrightarrow> P (launchCargoShot r ks)"
    and weaponShot: "\<And>r ks. P r \<Longrightarrow> P (launchWeaponShot r ks)"
    and bodies: "\<And>r dt. P r \<Longrightarrow>
                   P (r\<lparr>asteroids := map (\<lambda>asteroid. updateAsteroidBody asteroid dt) (asteroids r)\<rparr>)"
    and collisions: "\<And>r. P r \<Longrightarrow> P (resolveAsteroidCollisions r)"
    and pirateHits: "\<And>r dt. P r \<Longrightarrow> P (resolveAsteroidPirateImpacts r dt)"
    and playerHits: "\<And>r dt. P r \<Longrightarrow> P (resolvePlayerAsteroidImpacts r dt)"
    and ram: "\<And>r dt. P r \<Longrightarrow> P (resolvePlayerPirateImpact r dt)"
    and drill: "\<And>r dt ks. P r \<Longrightarrow> P (stateOf (updateDrill r dt ks))"
    and shots: "\<And>r dt. P r \<Longrightarrow> P (updateCargoShots r dt)"
    and pirate: "\<And>r dt. P r \<Longrightarrow> P (updatePirate r dt)"
    and outcome: "\<And>r. P r \<Longrightarrow> P (evaluateMissionOutcome r)"
  shows "P (stateOf (stepRuntime r dtRaw ci))"
proof (cases "status r = active")
  case False
  then show ?thesis using P prev by (simp add: stepRuntime_def)
next
  case True
  define dt where "dt = min dtRaw 0.05"
  define ks where "ks = keys ci"
  define r2 where "r2 = applyFreighterDockActions
      (updateFreighterTransit
         (r\<lparr>elapsed := elapsed r + dt, missionSeconds := missionSeconds r - dt * countdownRate r,
            drillActive := False\<rparr>)) ks"
  define r3 where "r3 = (if docked r2 then updateDockedSystems r2 dt
      else launchWeaponShot
             (launchCargoShot
                (moveGrabbedAsteroid (updateGrabber (updatePlayerControlWithInput r2 dt ci) ks) dt)
                ks) ks)"
  define r5 where "r5 = resolveAsteroidPirateImpacts
      (resolveAsteroidCollisions
         (r3\<lparr>asteroids := map (\<lambda>asteroid. updateAsteroidBody asteroid dt) (asteroids r3)\<rparr>)) dt"
  define drilled where "drilled = (if \<not> docked r5 then
        updateDrill (resolvePlayerPirateImpact (resolvePlayerAsteroidImpacts r5 dt) dt) dt ks
      else Returned r5)"
  have step: "stepRuntime r dtRaw ci =
      (case drilled of
         Thrown r6 \<Rightarrow> Thrown r6
       | Returned r6 \<Rightarrow>
           Returned (updatePrevKeys
                       (evaluateMissionOutcome (updatePirate (updateCargoShots r6 dt) dt)) ks))"
    using True
    unfolding stepRuntime_def Let_def drilled_def r5_def r3_def r2_def ks_def dt_def
    by (simp only: simp_thms if_False)
  have P2: "P r2"
    unfolding r2_def by (intro dock transit clock P)
  have P3: "P r3"
    unfolding r3_def using systems [OF P2]
    by (simp add: dt_def weaponShot cargoShot grabbed grabber control P2)
  have P5: "P r5"
    unfolding r5_def by (intro pirateHits collisions bodies P3)
  have Pd: "P (stateOf drilled)"
    unfolding drilled_def by (simp add: P5 drill ram playerHits)
  show ?thesis
  proof (cases drilled)
    case (Thrown r6)
    with Pd show ?thesis by (simp add: step)
  next
    case (Returned r6)
    with Pd show ?thesis by (simp add: step prev outcome pirate shots)
  qed
qed

lemma runSteps_keeps:
  assumes "P r" and "\<And>r dt ci. P r \<Longrightarrow> (dt, ci) \<in> set steps \<Longrightarrow> P (stateOf (stepRuntime r dt ci))"
  shows "P (runSteps r steps)"
  using assms by (induction r steps rule: runSteps.induct) simp_all

section \<open>The pirate state\<close>

lemma cargoShotsLoop_no_pirate:
  "pirateState r \<noteq> incoming \<Longrightarrow> fst (cargoShotsLoop dt shots r activeShots) = r"
  by (induction shots arbitrary: activeShots) (simp_all add: Let_def)

lemma settled_stages:
  assumes "pirateState r = s" "s = disabled \<or> s = boarding"
  shows "pirateState (resolveAsteroidPirateImpacts r dt) = s"
    and "pirateState (resolvePlayerPirateImpact r dt) = s"
    and "pirateState (updateCargoShots r dt) = s"
    and "pirateState (updatePirate r dt) = s"
proof -
  from assms have ne: "pirateState r \<noteq> incoming" "pirateState r \<noteq> quiet" by auto
  show "pirateState (resolveAsteroidPirateImpacts r dt) = s"
    using ne assms(1) by (simp add: resolveAsteroidPirateImpacts_def)
  show "pirateState (resolvePlayerPirateImpact r dt) = s"
    using ne assms(1) by (simp add: resolvePlayerPirateImpact_def)
  show "pirateState (updateCargoShots r dt) = s"
    using cargoShotsLoop_no_pirate [OF ne(1), of dt "cargoShots r" "[]"] assms(1)
    by (simp add: updateCargoShots_def split_def Let_def)
  show "pirateState (updatePirate r dt) = s"
    using ne assms(1) by (simp add: updatePirate_def)
qed

text \<open>
  Claim C4: from a runtime whose pirate state is \<open>disabled\<close> or \<open>boarding\<close>, no
  \<^verbatim>\<open>stepRuntime\<close> call, with any time step and any input, changes the pirate state, and
  so no sequence of calls does.
\<close>

theorem pirate_state_terminal:
  assumes "pirateState r = disabled \<or> pirateState r = boarding"
  shows "pirateState (stateOf (stepRuntime r dt ci)) = pirateState r
         \<and> pirateState (runSteps r steps) = pirateState r"
proof -
  have step: "pirateState (stateOf (stepRuntime r' dt' ci')) = pirateState r"
    if "pirateState r' = pirateState r" for r' dt' ci'
    using that
    by (rule stepRuntime_keeps [where P = "\<lambda>x. pirateState x = pirateState r"])
       (simp_all add: settled_stages assms)
  have "pirateState (runSteps r steps) = pirateState r"
    by (rule runSteps_keeps [where P = "\<lambda>x. pirateState x = pirateState r"])
       (simp_all add: step)
  with step [of r dt ci] show ?thesis by simp
qed

text \<open>A disabled pirate stays disabled through a step and through three.\<close>

theorem pirate_state_terminal_witness:
  "pirateState (stateOf (stepRuntime ((the (createRuntime 7 noModifiers))\<lparr>pirateState := disabled\<rparr>)
                           0.05 \<lparr>keys = [''KeyW'' \<mapsto> True]\<rparr>)) = disabled
   \<and> pirateState (runSteps ((the (createRuntime 7 noModifiers))\<lparr>pirateState := disabled\<rparr>)
                     [(0.05, \<lparr>keys = [''KeyW'' \<mapsto> True]\<rparr>), (0.05, \<lparr>keys = Map.empty\<rparr>),
                      (1, \<lparr>keys = [''KeyE'' \<mapsto> True]\<rparr>)]) = disabled"
  using pirate_state_terminal [of "(the (createRuntime 7 noModifiers))\<lparr>pirateState := disabled\<rparr>"
          "0.05" "\<lparr>keys = [''KeyW'' \<mapsto> True]\<rparr>"
          "[(0.05, \<lparr>keys = [''KeyW'' \<mapsto> True]\<rparr>), (0.05, \<lparr>keys = Map.empty\<rparr>),
            (1, \<lparr>keys = [''KeyE'' \<mapsto> True]\<rparr>)]"]
  by simp

section \<open>Ammunition\<close>












section \<open>The hull\<close>

text \<open>
  The hull lies between 0 and the maximum; the rammer self-damage multiplier, which
  scales the damage of a ram, is not negative.
\<close>

definition hullInvariant :: "GameRuntime \<Rightarrow> bool" where
  "hullInvariant r \<longleftrightarrow>
     0 \<le> playerHull r \<and> playerHull r \<le> maxHull r \<and> 0 \<le> rammerSelfDamageMultiplier r"

lemma asteroidStrikesPlayer_hull:
  assumes "hullInvariant r" "0 \<le> impact"
  shows "hullInvariant (asteroidStrikesPlayer r impact)"
proof -
  have "0 \<le> fst (randomRange (rng r) 6.4 9.8)"
    using randomRange_range(1) [of "6.4" "9.8" "rng r"] by simp
  with assms have "0 \<le> impact * fst (randomRange (rng r) 6.4 9.8)"
    by simp
  with assms(1) show ?thesis
    by (simp add: asteroidStrikesPlayer_def hullInvariant_def Let_def split_def)
qed

lemma playerAsteroidImpact_hull:
  "hullInvariant r \<Longrightarrow> hullInvariant (playerAsteroidImpact a r)"
proof -
  assume inv: "hullInvariant r"
  have upd: "hullInvariant (x\<lparr>playerVelocity := v\<rparr>)" "hullInvariant (x\<lparr>playerPosition := p\<rparr>)"
    if "hullInvariant x" for x v p
    using that by (simp_all add: hullInvariant_def)
  show ?thesis
    using inv by (simp add: playerAsteroidImpact_def Let_def upd asteroidStrikesPlayer_hull)
qed

lemma playerAsteroidLoop_hull:
  "hullInvariant r \<Longrightarrow> hullInvariant (playerAsteroidLoop as r)"
  by (induction as arbitrary: r) (simp_all add: playerAsteroidImpact_hull)

lemma resolvePlayerAsteroidImpacts_hull:
  assumes "hullInvariant r"
  shows "hullInvariant (resolvePlayerAsteroidImpacts r dt)"
proof -
  from assms have "hullInvariant (r\<lparr>collisionGrace := max 0 (collisionGrace r - dt)\<rparr>)"
    by (simp add: hullInvariant_def)
  then show ?thesis
    unfolding resolvePlayerAsteroidImpacts_def by (rule playerAsteroidLoop_hull)
qed

lemma playerRamsPirate_hull:
  assumes "hullInvariant r" "0 \<le> impact"
  shows "hullInvariant (playerRamsPirate r impact)"
proof -
  have "0 \<le> fst (randomRange (rng r) 4.6 7.2)"
    using randomRange_range(1) [of "4.6" "7.2" "rng r"] by simp
  with assms have "0 \<le> impact * fst (randomRange (rng r) 4.6 7.2) * rammerSelfDamageMultiplier r"
    by (simp add: hullInvariant_def)
  with assms(1) show ?thesis
    by (simp add: playerRamsPirate_def hullInvariant_def Let_def split_def)
qed

lemma resolvePlayerPirateImpact_hull:
  "hullInvariant r \<Longrightarrow> hullInvariant (resolvePlayerPirateImpact r dt)"
proof -
  assume inv: "hullInvariant r"
  have upd: "hullInvariant (x\<lparr>playerVelocity := v\<rparr>)" "hullInvariant (x\<lparr>pirateVelocity := v\<rparr>)"
    "hullInvariant (x\<lparr>pirateRamGrace := g\<rparr>)"
    "hullInvariant (x\<lparr>playerPosition := p, piratePosition := q\<rparr>)"
    if "hullInvariant x" for x v g p q
    using that by (simp_all add: hullInvariant_def)
  show ?thesis
    using inv
    by (simp add: resolvePlayerPirateImpact_def Let_def upd playerRamsPirate_hull)
qed

lemma updateDockedSystems_hull:
  assumes "hullInvariant r" "0 \<le> dt"
  shows "hullInvariant (updateDockedSystems r dt)"
  using assms
  by (simp add: updateDockedSystems_def hullInvariant_def Let_def DOCK_REPAIR_PER_SECOND_def)

lemma stepRuntime_hull:
  assumes "hullInvariant r" "0 \<le> dt"
  shows "hullInvariant (stateOf (stepRuntime r dt ci))"
  using assms(1)
  by (rule stepRuntime_keeps [where P = hullInvariant])
     (simp_all add: resolvePlayerAsteroidImpacts_hull resolvePlayerPirateImpact_hull
        updateDockedSystems_hull assms(2), simp_all add: hullInvariant_def)

lemma stage_compositions [simp]:
  "compositions (addEvent r msg t) = compositions r"
  "compositions (updatePrevKeys r ks) = compositions r"
  "compositions (updateFreighterTransit r) = compositions r"
  "compositions (applyFreighterDockActions r ks) = compositions r"
  "compositions (updatePlayerControlWithInput r dt ci) = compositions r"
  "compositions (launchCargoShot r ks) = compositions r"
  "compositions (launchWeaponShot r ks) = compositions r"
  "compositions (updatePirate r dt) = compositions r"
  "compositions (evaluateMissionOutcome r) = compositions r"
  "compositions (fst (addCargo r k n)) = compositions r"
  "compositions (snd (rollUnits k r)) = compositions r"
  "compositions (warnNoUsableSpace r) = compositions r"
  by (simp_all add: compositions_def)

lemma resolveAsteroidPirateImpacts_compositions [simp]:
  "compositions (resolveAsteroidPirateImpacts r dt) = compositions r"
proof -
  have "compositions (r\<lparr>pirateAsteroidGrace := g\<rparr>) = compositions r" for g
    by (simp add: compositions_def)
  then show ?thesis by (simp add: resolveAsteroidPirateImpacts_def)
qed

lemma bodies_compositions [simp]:
  "compositions (r\<lparr>asteroids := map (\<lambda>asteroid. updateAsteroidBody asteroid dt) (asteroids r)\<rparr>)
     = compositions r"
  by (simp add: compositions_def comp_def)

lemma updateDrill_compositions [simp]:
  "compositions (stateOf (updateDrill r dt ks)) = compositions r"
proof -
  have upd: "compositions (r\<lparr>drillActive := a\<rparr>) = compositions r"
    "compositions (r\<lparr>grabbedAsteroidId := b, drillActive := a\<rparr>) = compositions r"
    "compositions (r\<lparr>drillActive := a, drillAccumulator := c\<rparr>) = compositions r"
    "compositions ((warnNoUsableSpace r)\<lparr>drillActive := a\<rparr>) = compositions r" for a b c
    by (simp_all add: compositions_def)
  show ?thesis
    by (simp add: updateDrill_def Let_def upd split: option.split)
qed

text \<open>
  The anatomy of a step on an active run: the runtime after the dock actions, after the
  docked systems or the flight, and after the asteroids have moved and collided; then the
  drill, which may raise, and the rest. The time step is \<open>min dtRaw 0.05\<close>.
\<close>

lemma stepRuntime_active:
  assumes "status r = active"
  obtains r2 r3 r5 where
    "r2 = applyFreighterDockActions
            (updateFreighterTransit
               (r\<lparr>elapsed := elapsed r + min dtRaw 0.05,
                  missionSeconds := missionSeconds r - min dtRaw 0.05 * countdownRate r,
                  drillActive := False\<rparr>)) (keys ci)"
    "r3 = (if docked r2 then updateDockedSystems r2 (min dtRaw 0.05)
           else launchWeaponShot
                  (launchCargoShot
                     (moveGrabbedAsteroid
                        (updateGrabber (updatePlayerControlWithInput r2 (min dtRaw 0.05) ci) (keys ci))
                        (min dtRaw 0.05))
                     (keys ci)) (keys ci))"
    "r5 = resolveAsteroidPirateImpacts
            (resolveAsteroidCollisions
               (r3\<lparr>asteroids := map (\<lambda>asteroid. updateAsteroidBody asteroid (min dtRaw 0.05))
                                    (asteroids r3)\<rparr>)) (min dtRaw 0.05)"
    "stepRuntime r dtRaw ci =
       (case (if \<not> docked r5 then
                updateDrill
                  (resolvePlayerPirateImpact (resolvePlayerAsteroidImpacts r5 (min dtRaw 0.05))
                     (min dtRaw 0.05))
                  (min dtRaw 0.05) (keys ci)
              else Returned r5) of
          Thrown r6 \<Rightarrow> Thrown r6
        | Returned r6 \<Rightarrow>
            Returned (updatePrevKeys
                        (evaluateMissionOutcome
                           (updatePirate (updateCargoShots r6 (min dtRaw 0.05)) (min dtRaw 0.05)))
                        (keys ci)))"
proof -
  show ?thesis
    by (rule that [OF refl refl refl])
       (use assms in \<open>simp only: stepRuntime_def Let_def simp_thms if_False\<close>)
qed

lemma findAsteroid_less: "findAsteroid xs ident = Some i \<Longrightarrow> i < length xs"
  by (induction xs arbitrary: i) (auto split: if_splits option.splits)

lemma sampleAsteroidResource_Some:
  "composition a \<noteq> [] \<Longrightarrow> fst (sampleAsteroidResource r a) \<noteq> None"
  by (simp add: sampleAsteroidResource_def split_def Let_def split: option.split)

lemma drillTick_no_raise:
  assumes "i < length (asteroids r)" "[] \<notin> set (compositions r)"
  shows "snd (drillTick i r) \<noteq> raises"
proof -
  from assms have "composition (asteroids r ! i) \<noteq> []"
    by (metis compositions_def length_map nth_map nth_mem)
  from sampleAsteroidResource_Some [OF this, of r]
  obtain k where "fst (sampleAsteroidResource r (asteroids r ! i)) = Some k" by auto
  then show ?thesis
    by (simp add: drillTick_def Let_def split_def)
qed

lemma drillLoop_returns:
  assumes "i < length (asteroids r)" "[] \<notin> set (compositions r)"
  shows "\<exists>r'. drillLoop i r = Returned r'"
  using assms
proof (induction i r rule: drillLoop.induct)
  case (1 i r)
  show ?case
  proof (cases "1 \<le> drillAccumulator r")
    case False
    then show ?thesis by (subst drillLoop.simps) simp
  next
    case acc: True
    let ?s = "r\<lparr>drillAccumulator := drillAccumulator r - 1\<rparr>"
    obtain r' x where tick: "drillTick i ?s = (r', x)" by (cases "drillTick i ?s")
    have s: "i < length (asteroids ?s)" "[] \<notin> set (compositions ?s)"
      using "1.prems" by (simp_all add: compositions_def)
    from drillTick_no_raise [OF s] tick have nr: "x \<noteq> raises" by simp
    have comps: "compositions r' = compositions r"
      using drillTick_compositions [of i ?s] tick by (simp add: compositions_def)
    then have len: "length (asteroids r') = length (asteroids r)"
      by (metis compositions_def length_map)
    show ?thesis
    proof (cases x)
      case goesOn
      with "1.IH" [OF acc tick [symmetric] goesOn] "1.prems" comps len acc tick show ?thesis
        by (subst drillLoop.simps) simp
    next
      case breaks
      with acc tick show ?thesis by (subst drillLoop.simps) simp
    next
      case raises
      with nr show ?thesis by simp
    qed
  qed
qed

lemma updateDrill_returns:
  assumes "[] \<notin> set (compositions r)"
  shows "\<exists>r'. updateDrill r dt ks = Returned r'"
proof -
  have "\<exists>r'. drillLoop i (r\<lparr>drillActive := True, drillAccumulator := a\<rparr>) = Returned r'"
    if "findAsteroid (asteroids r) g = Some i" for i g a
    using findAsteroid_less [OF that] assms
    by (intro drillLoop_returns) (simp_all add: compositions_def)
  then show ?thesis
    by (simp add: updateDrill_def Let_def split: option.split)
qed

text \<open>A step on a runtime whose asteroids all have a composition table returns.\<close>

lemma stepRuntime_returns:
  assumes "[] \<notin> set (compositions r)"
  shows "\<exists>r'. stepRuntime r dt ci = Returned r'"
proof (cases "status r = active")
  case False
  then show ?thesis by (simp add: stepRuntime_def)
next
  case True
  from stepRuntime_active [OF True, of dt ci]
  obtain r2 r3 r5 where s: "r2 = applyFreighterDockActions
            (updateFreighterTransit
               (r\<lparr>elapsed := elapsed r + min dt 0.05,
                  missionSeconds := missionSeconds r - min dt 0.05 * countdownRate r,
                  drillActive := False\<rparr>)) (keys ci)"
    "r3 = (if docked r2 then updateDockedSystems r2 (min dt 0.05)
           else launchWeaponShot
                  (launchCargoShot
                     (moveGrabbedAsteroid
                        (updateGrabber (updatePlayerControlWithInput r2 (min dt 0.05) ci) (keys ci))
                        (min dt 0.05))
                     (keys ci)) (keys ci))"
    "r5 = resolveAsteroidPirateImpacts
            (resolveAsteroidCollisions
               (r3\<lparr>asteroids := map (\<lambda>asteroid. updateAsteroidBody asteroid (min dt 0.05))
                                    (asteroids r3)\<rparr>)) (min dt 0.05)"
    "stepRuntime r dt ci =
       (case (if \<not> docked r5 then
                updateDrill
                  (resolvePlayerPirateImpact (resolvePlayerAsteroidImpacts r5 (min dt 0.05))
                     (min dt 0.05))
                  (min dt 0.05) (keys ci)
              else Returned r5) of
          Thrown r6 \<Rightarrow> Thrown r6
        | Returned r6 \<Rightarrow>
            Returned (updatePrevKeys
                        (evaluateMissionOutcome
                           (updatePirate (updateCargoShots r6 (min dt 0.05)) (min dt 0.05)))
                        (keys ci)))"
    by blast
  have c0: "compositions (r\<lparr>elapsed := a, missionSeconds := b, drillActive := c\<rparr>) = compositions r"
    for a b c by (simp add: compositions_def)
  have "compositions r2 = compositions r" by (simp add: s(1) c0)
  then have "compositions r3 = compositions r" by (simp add: s(2))
  then have "compositions r5 = compositions r" by (simp add: s(3))
  then have "[] \<notin> set (compositions
      (resolvePlayerPirateImpact (resolvePlayerAsteroidImpacts r5 (min dt 0.05)) (min dt 0.05)))"
    using assms by simp
  from updateDrill_returns [OF this, of "min dt 0.05" "keys ci"]
  show ?thesis by (auto simp: s(4))
qed

end
